theory Spec2Isabelle
  imports Complex_Main
begin

section \<open>Benchmark harness of J2KSwift: data model\<close>

text \<open>
  The two scripts \<^verbatim>\<open>Scripts/compare_performance.py\<close> and
  \<^verbatim>\<open>Scripts/profile_encoder.py\<close> are embedded as HOL functions.
  Python floats are idealised as \<^typ>\<open>real\<close>: \<^verbatim>\<open>statistics.mean\<close>,
  \<^verbatim>\<open>statistics.median\<close> and \<^verbatim>\<open>statistics.stdev\<close> compute with exact
  fractions and round once at the end, so the model gives the value before that rounding.
  Python exceptions are values of \<open>error + 'a\<close>, with \<open>Inl\<close> the exception.
\<close>

datatype error =
    StatisticsError
  | ValueError
  | ZeroDivisionError
  | KeyError string
  | RuntimeError string
  | OSError
  | UnicodeDecodeError

definition ebind :: "error + 'a \<Rightarrow> ('a \<Rightarrow> error + 'b) \<Rightarrow> error + 'b" where
  "ebind m f = (case m of Inl e \<Rightarrow> Inl e | Inr x \<Rightarrow> f x)"

text \<open>Float division \<^verbatim>\<open>a / b\<close>: Python raises on a zero divisor.\<close>

definition truediv :: "real \<Rightarrow> real \<Rightarrow> error + real" where
  "truediv a b = (if b = 0 then Inl ZeroDivisionError else Inr (a / b))"

subsection \<open>The functions of Python's \<^verbatim>\<open>statistics\<close> module and the builtins used\<close>

definition statistics_mean :: "real list \<Rightarrow> error + real" where
  "statistics_mean xs =
     (if xs = [] then Inl StatisticsError
      else Inr (sum_list xs / real (length xs)))"

definition statistics_median :: "real list \<Rightarrow> error + real" where
  "statistics_median xs =
     (let data = sort xs; n = length data
      in if n = 0 then Inl StatisticsError
         else if n mod 2 = 1 then Inr (data ! (n div 2))
         else Inr ((data ! (n div 2 - 1) + data ! (n div 2)) / 2))"

definition statistics_variance :: "real list \<Rightarrow> error + real" where
  "statistics_variance xs =
     (let n = length xs
      in if n < 2 then Inl StatisticsError
         else let xbar = sum_list xs / real n;
                  ss = sum_list (map (\<lambda>x. (x - xbar)\<^sup>2) xs)
              in Inr (ss / (real n - 1)))"

definition statistics_stdev :: "real list \<Rightarrow> error + real" where
  "statistics_stdev xs = ebind (statistics_variance xs) (\<lambda>v. Inr (sqrt v))"

fun py_min :: "real list \<Rightarrow> error + real" where
  "py_min [] = Inl ValueError"
| "py_min (x # xs) = Inr (fold min xs x)"

fun py_max :: "real list \<Rightarrow> error + real" where
  "py_max [] = Inl ValueError"
| "py_max (x # xs) = Inr (fold max xs x)"

subsection \<open>\<^verbatim>\<open>class BenchmarkResult\<close>\<close>

record BenchmarkResult =
  implementation :: string
  image_size :: int
  operation :: string
  run_times :: "real list"
  compressed_size :: "int option"
  memory_peak :: "int option"

definition BenchmarkResult_init :: "string \<Rightarrow> int \<Rightarrow> string \<Rightarrow> BenchmarkResult" where
  "BenchmarkResult_init impl sz opn =
     \<lparr>implementation = impl, image_size = sz, operation = opn, run_times = [],
      compressed_size = None, memory_peak = None\<rparr>"

definition average :: "BenchmarkResult \<Rightarrow> error + real" where
  "average r = (if run_times r \<noteq> [] then statistics_mean (run_times r) else Inr 0)"

definition median :: "BenchmarkResult \<Rightarrow> error + real" where
  "median r = (if run_times r \<noteq> [] then statistics_median (run_times r) else Inr 0)"

definition std_dev :: "BenchmarkResult \<Rightarrow> error + real" where
  "std_dev r = (if length (run_times r) > 1 then statistics_stdev (run_times r) else Inr 0)"

definition min_time :: "BenchmarkResult \<Rightarrow> error + real" where
  "min_time r = (if run_times r \<noteq> [] then py_min (run_times r) else Inr 0)"

definition max_time :: "BenchmarkResult \<Rightarrow> error + real" where
  "max_time r = (if run_times r \<noteq> [] then py_max (run_times r) else Inr 0)"

definition throughput :: "BenchmarkResult \<Rightarrow> error + real" where
  "throughput r =
     ebind (average r) (\<lambda>a.
       if a > 0 then
         ebind (truediv (real_of_int (image_size r * image_size r)) 1000000) (\<lambda>megapixels.
         ebind (average r) (\<lambda>a'. truediv megapixels a'))
       else Inr 0)"

text \<open>
  The sample standard deviation in the words of the specification: Bessel-corrected, the
  squared deviations from the arithmetic mean summed over the trials and divided by
  \<open>n - 1\<close>.
\<close>

definition arithmetic_mean :: "real list \<Rightarrow> real" where
  "arithmetic_mean xs = (\<Sum>i<length xs. xs ! i) / real (length xs)"

definition sample_stddev :: "real list \<Rightarrow> real" where
  "sample_stddev xs =
     sqrt ((\<Sum>i<length xs. (xs ! i - arithmetic_mean xs)\<^sup>2) / real (length xs - 1))"

section \<open>Text, formatting and the external world\<close>

text \<open>
  Strings are byte strings in UTF-8, as the reports are written to disk. The characters
  outside ASCII that the scripts print are given by their bytes.
\<close>

definition newline :: string where
  "newline = [CHR 0x0A]"

definition times_sign :: string where
  "times_sign = [CHR 0xC3, CHR 0x97]"

definition ge_sign :: string where
  "ge_sign = [CHR 0xE2, CHR 0x89, CHR 0xA5]"

definition check_mark :: string where
  "check_mark = [CHR 0xE2, CHR 0x9C, CHR 0x85]"

definition cross_mark :: string where
  "cross_mark = [CHR 0xE2, CHR 0x9D, CHR 0x8C]"

definition warning_sign :: string where
  "warning_sign = [CHR 0xE2, CHR 0x9A, CHR 0xA0, CHR 0xEF, CHR 0xB8, CHR 0x8F]"

fun str_nat :: "nat \<Rightarrow> string" where
  "str_nat n =
     (if n < 10 then [''0123456789'' ! n]
      else str_nat (n div 10) @ [''0123456789'' ! (n mod 10)])"

declare str_nat.simps [simp del]

definition str_int :: "int \<Rightarrow> string" where
  "str_int i = (if i < 0 then CHR ''-'' # str_nat (nat (- i)) else str_nat (nat i))"

text \<open>\<^verbatim>\<open>'\n'.join(lines)\<close>\<close>

fun join_lines :: "string list \<Rightarrow> string" where
  "join_lines [] = []"
| "join_lines [l] = l"
| "join_lines (l # ls) = l @ newline @ join_lines ls"

text \<open>
  The fixed-point float formatting of an f-string, \<^verbatim>\<open>f"{x:.pf}"\<close>, is a parameter
  \<open>fmt p x\<close> of every function that renders a number: the theorems hold for each
  formatter. \<open>fmt_stub\<close> stands in for it where a closed example needs one.
\<close>

type_synonym formatter = "nat \<Rightarrow> real \<Rightarrow> string"

definition fmt_stub :: formatter where
  "fmt_stub p x = ''#''"

fun emap :: "('a \<Rightarrow> error + 'b) \<Rightarrow> 'a list \<Rightarrow> error + 'b list" where
  "emap f [] = Inr []"
| "emap f (x # xs) = ebind (f x) (\<lambda>y. ebind (emap f xs) (\<lambda>ys. Inr (y # ys)))"

section \<open>\<^verbatim>\<open>compare_performance.py\<close>: the candidate adapter\<close>

text \<open>
  The structured result document the \<^verbatim>\<open>j2k benchmark\<close> subcommand writes. A key
  that the document lacks is \<open>None\<close>; subscripting it raises \<open>KeyError\<close>.
\<close>

record image_section =
  img_width :: "int option"

record encode_section =
  enc_runs :: "real list option"
  enc_average_ms :: "real option"
  enc_throughput_mpps :: "real option"
  enc_compressed_size :: "int option"

record decode_section =
  dec_runs :: "real list option"

record document =
  doc_image :: "image_section option"
  doc_encode :: "encode_section option"
  doc_decode :: "decode_section option"

definition subscript :: "'a option \<Rightarrow> string \<Rightarrow> error + 'a" where
  "subscript v k = (case v of None \<Rightarrow> Inl (KeyError k) | Some x \<Rightarrow> Inr x)"

text \<open>
  External processes and the files they leave behind. \<open>spawn w hist argv\<close> is the child
  process that the command \<open>argv\<close> gives when run after the commands in \<open>hist\<close>: its
  return code and the bytes it writes to its standard output and standard error; it is
  \<open>None\<close> when the program cannot be executed. \<open>decodable w\<close> says which byte strings
  are text in the encoding of the locale. \<open>read_json w hist path\<close> is what
  \<^verbatim>\<open>json.load\<close> gives for the file at \<open>path\<close> after those commands. The state threaded
  through the adapter is the history of the commands run so far.
\<close>

type_synonym argv = "string list"

record child =
  child_returncode :: int
  child_stdout :: string
  child_stderr :: string

record world =
  spawn :: "argv list \<Rightarrow> argv \<Rightarrow> child option"
  decodable :: "string \<Rightarrow> bool"
  read_json :: "argv list \<Rightarrow> string \<Rightarrow> error + document"

text \<open>
  How \<^verbatim>\<open>subprocess.run\<close> is asked to treat the output of the child: captured and
  decoded as text (\<^verbatim>\<open>stdout=PIPE, stderr=PIPE, text=True\<close>) or discarded
  (\<^verbatim>\<open>DEVNULL\<close>).
\<close>

datatype capture = PIPE_text | DEVNULL

text \<open>
  \<^verbatim>\<open>subprocess.run\<close> without \<^verbatim>\<open>check\<close>: it raises \<open>OSError\<close> when the program
  cannot be executed and \<open>UnicodeDecodeError\<close> when captured output is not text; else it
  returns the completed process, of which the callers read the return code only.
\<close>

definition subprocess_run ::
  "world \<Rightarrow> argv \<Rightarrow> capture \<Rightarrow> argv list \<Rightarrow> (error + int) \<times> argv list" where
  "subprocess_run w cmd cap hist =
     (case spawn w hist cmd of
        None \<Rightarrow> (Inl OSError, hist)
      | Some c \<Rightarrow>
          if cap = PIPE_text \<and> \<not> (decodable w (child_stdout c) \<and> decodable w (child_stderr c))
          then (Inl UnicodeDecodeError, hist @ [cmd])
          else (Inr (child_returncode c), hist @ [cmd]))"

definition benchmark_cmd :: "string \<Rightarrow> string \<Rightarrow> string \<Rightarrow> int \<Rightarrow> argv" where
  "benchmark_cmd cli_path input_file output_file runs =
     [cli_path, ''benchmark'', ''-i'', input_file, ''-r'', str_int runs, ''-o'', output_file]"

text \<open>Lines 106 to 123 of \<^verbatim>\<open>run_j2kswift_benchmark\<close>: the invocation and its retry.\<close>

definition run_j2kswift_invoke ::
  "world \<Rightarrow> string \<Rightarrow> string \<Rightarrow> string \<Rightarrow> int \<Rightarrow> argv list \<Rightarrow> (error + unit) \<times> argv list" where
  "run_j2kswift_invoke w cli_path input_file output_file runs hist =
     (case subprocess_run w (benchmark_cmd cli_path input_file output_file runs) PIPE_text hist of
        (Inl e, hist1) \<Rightarrow> (Inl e, hist1)
      | (Inr returncode, hist1) \<Rightarrow>
          if returncode \<noteq> 0 then
            (case subprocess_run w
                    (benchmark_cmd cli_path input_file output_file runs @ [''--encode-only''])
                    DEVNULL hist1 of
               (Inl e, hist2) \<Rightarrow> (Inl e, hist2)
             | (Inr returncode2, hist2) \<Rightarrow>
                 if returncode2 \<noteq> 0
                 then (Inl (RuntimeError ''J2KSwift benchmark failed even with encode-only''),
                       hist2)
                 else (Inr (), hist2))
          else (Inr (), hist1))"

text \<open>Lines 129 to 142: the results built from the parsed document.\<close>

definition results_of_document ::
  "document \<Rightarrow> error + (BenchmarkResult \<times> BenchmarkResult option)" where
  "results_of_document data =
     ebind (subscript (doc_image data) ''image'') (\<lambda>image.
     ebind (subscript (img_width image) ''width'') (\<lambda>image_size.
     ebind (subscript (doc_encode data) ''encode'') (\<lambda>enc.
     ebind (subscript (enc_runs enc) ''runs'') (\<lambda>eruns.
       let encode_result =
             (BenchmarkResult_init ''J2KSwift'' image_size ''encode'')
               \<lparr>run_times := map (\<lambda>t. t / 1000) eruns,
                compressed_size := enc_compressed_size enc\<rparr>
       in case doc_decode data of
            None \<Rightarrow> Inr (encode_result, None)
          | Some dec \<Rightarrow>
              ebind (subscript (dec_runs dec) ''runs'') (\<lambda>druns.
                Inr (encode_result,
                     Some ((BenchmarkResult_init ''J2KSwift'' image_size ''decode'')
                             \<lparr>run_times := map (\<lambda>t. t / 1000) druns\<rparr>)))))))"

definition run_j2kswift_benchmark ::
  "world \<Rightarrow> string \<Rightarrow> string \<Rightarrow> string \<Rightarrow> int \<Rightarrow> argv list
   \<Rightarrow> (error + (BenchmarkResult \<times> BenchmarkResult option)) \<times> argv list" where
  "run_j2kswift_benchmark w cli_path input_file output_file runs hist =
     (case run_j2kswift_invoke w cli_path input_file output_file runs hist of
        (Inl e, hist') \<Rightarrow> (Inl e, hist')
      | (Inr u, hist') \<Rightarrow>
          (ebind (read_json w hist' output_file) results_of_document, hist'))"

section \<open>\<^verbatim>\<open>compare_performance.py\<close>: the markdown and CSV reports\<close>

text \<open>
  A table row is kept as its image size, its implementation and its remaining cells;
  \<open>render_md_row\<close> is the f-string that builds the line.
\<close>

record md_row =
  row_size :: int
  row_impl :: string
  row_cells :: "string list"

definition render_md_row :: "md_row \<Rightarrow> string" where
  "render_md_row row =
     ''| '' @ str_int (row_size row) @ times_sign @ str_int (row_size row) @ '' | '' @
     row_impl row @ concat (map (\<lambda>c. '' | '' @ c) (row_cells row)) @ '' |''"

text \<open>The five cells Avg, Median, Min, Max (in ms) and Throughput of a row.\<close>

definition metric_cells :: "formatter \<Rightarrow> BenchmarkResult \<Rightarrow> error + string list" where
  "metric_cells fmt r =
     ebind (average r) (\<lambda>a.
     ebind (median r) (\<lambda>m.
     ebind (min_time r) (\<lambda>lo.
     ebind (max_time r) (\<lambda>hi.
     ebind (throughput r) (\<lambda>t.
       Inr [fmt 1 (a * 1000), fmt 1 (m * 1000), fmt 1 (lo * 1000), fmt 1 (hi * 1000),
            fmt 2 t])))))"

text \<open>
  \<^verbatim>\<open>f"{(openjpeg.average / j2kswift.average * 100):.1f}%" if openjpeg else "N/A"\<close>
\<close>

definition relative_cell ::
  "formatter \<Rightarrow> BenchmarkResult option \<Rightarrow> BenchmarkResult \<Rightarrow> error + string" where
  "relative_cell fmt openjpeg j2kswift =
     (case openjpeg of
        None \<Rightarrow> Inr ''N/A''
      | Some opj \<Rightarrow>
          ebind (average opj) (\<lambda>a.
          ebind (average j2kswift) (\<lambda>b.
          ebind (truediv a b) (\<lambda>q. Inr (fmt 1 (q * 100) @ ''%'')))))"

text \<open>
  \<^verbatim>\<open>f"{r.compressed_size / 1024:.1f}" if r.compressed_size else "N/A"\<close>: both
  \<open>None\<close> and 0 are false.
\<close>

definition size_kb_cell :: "formatter \<Rightarrow> BenchmarkResult \<Rightarrow> string" where
  "size_kb_cell fmt r =
     (case compressed_size r of
        None \<Rightarrow> ''N/A''
      | Some c \<Rightarrow> if c \<noteq> 0 then fmt 1 (real_of_int c / 1024) else ''N/A'')"

definition by_size :: "BenchmarkResult list \<Rightarrow> int \<Rightarrow> BenchmarkResult list" where
  "by_size rs sz = filter (\<lambda>r. image_size r = sz) rs"

definition next_impl :: "string \<Rightarrow> BenchmarkResult list \<Rightarrow> BenchmarkResult option" where
  "next_impl impl rs = find (\<lambda>r. implementation r = impl) rs"

text \<open>The body of the loop over the sizes, for the encoding table (lines 166 to 177).\<close>

definition encode_size_rows ::
  "formatter \<Rightarrow> BenchmarkResult list \<Rightarrow> int \<Rightarrow> error + md_row list" where
  "encode_size_rows fmt encode_results sz =
     (let size_results = by_size encode_results sz;
          openjpeg = next_impl ''OpenJPEG'' size_results;
          j2kswift = next_impl ''J2KSwift'' size_results
      in ebind (case j2kswift of
                  None \<Rightarrow> Inr []
                | Some j \<Rightarrow>
                    ebind (relative_cell fmt openjpeg j) (\<lambda>relative.
                    ebind (metric_cells fmt j) (\<lambda>cells.
                      Inr [\<lparr>row_size = sz, row_impl = ''J2KSwift'',
                            row_cells = cells @ [size_kb_cell fmt j, relative]\<rparr>])))
           (\<lambda>rows1.
         ebind (case openjpeg of
                  None \<Rightarrow> Inr []
                | Some opj \<Rightarrow>
                    ebind (metric_cells fmt opj) (\<lambda>cells.
                      Inr [\<lparr>row_size = sz, row_impl = ''OpenJPEG'',
                            row_cells = cells @ [size_kb_cell fmt opj, ''100.0%'']\<rparr>]))
           (\<lambda>rows2. Inr (rows1 @ rows2))))"

text \<open>The body of the loop over the sizes, for the decoding table (lines 188 to 197).\<close>

definition decode_size_rows ::
  "formatter \<Rightarrow> BenchmarkResult list \<Rightarrow> int \<Rightarrow> error + md_row list" where
  "decode_size_rows fmt decode_results sz =
     (let size_results = by_size decode_results sz;
          openjpeg = next_impl ''OpenJPEG'' size_results;
          j2kswift = next_impl ''J2KSwift'' size_results
      in ebind (case j2kswift of
                  None \<Rightarrow> Inr []
                | Some j \<Rightarrow>
                    ebind (relative_cell fmt openjpeg j) (\<lambda>relative.
                    ebind (metric_cells fmt j) (\<lambda>cells.
                      Inr [\<lparr>row_size = sz, row_impl = ''J2KSwift'',
                            row_cells = cells @ [relative]\<rparr>])))
           (\<lambda>rows1.
         ebind (case openjpeg of
                  None \<Rightarrow> Inr []
                | Some opj \<Rightarrow>
                    ebind (metric_cells fmt opj) (\<lambda>cells.
                      Inr [\<lparr>row_size = sz, row_impl = ''OpenJPEG'',
                            row_cells = cells @ [''100.0%'']\<rparr>]))
           (\<lambda>rows2. Inr (rows1 @ rows2))))"

text \<open>\<^verbatim>\<open>for size in sizes\<close>: the rows of the sizes in turn, or the first exception.\<close>

fun table_rows :: "(int \<Rightarrow> error + md_row list) \<Rightarrow> int list \<Rightarrow> error + md_row list" where
  "table_rows body [] = Inr []"
| "table_rows body (sz # sizes) =
     ebind (body sz) (\<lambda>rows. ebind (table_rows body sizes) (\<lambda>rest. Inr (rows @ rest)))"

text \<open>\<^verbatim>\<open>sorted(set(r.image_size for r in encode_results))\<close>\<close>

definition table_sizes :: "BenchmarkResult list \<Rightarrow> int list" where
  "table_sizes encode_results = sort (remdups (map image_size encode_results))"

definition of_impl :: "string \<Rightarrow> BenchmarkResult list \<Rightarrow> BenchmarkResult list" where
  "of_impl impl rs = filter (\<lambda>r. implementation r = impl) rs"

definition of_operation :: "string \<Rightarrow> BenchmarkResult list \<Rightarrow> BenchmarkResult list" where
  "of_operation opn rs = filter (\<lambda>r. operation r = opn) rs"

text \<open>\<^verbatim>\<open>(opj_avg / j2k_avg) * 100 if j2k_avg > 0 else 0\<close>\<close>

definition speed_ratio :: "real \<Rightarrow> real \<Rightarrow> error + real" where
  "speed_ratio opj_avg j2k_avg =
     (if j2k_avg > 0 then ebind (truediv opj_avg j2k_avg) (\<lambda>q. Inr (q * 100)) else Inr 0)"

definition status_line :: "real \<Rightarrow> string" where
  "status_line ratio =
     ''  - Status: '' @ (if ratio \<ge> 80 then check_mark @ '' PASS'' else cross_mark @ '' FAIL'')"

definition target_line :: string where
  "target_line = ''  - Target: '' @ ge_sign @ ''80% (within 80% of OpenJPEG)''"

definition decode_unavailable_line :: string where
  "decode_unavailable_line =
     ''- **Decoding**: J2KSwift decoder currently has errors preventing benchmark''"

text \<open>The summary section (lines 206 to 230).\<close>

definition summary_lines ::
  "formatter \<Rightarrow> BenchmarkResult list \<Rightarrow> BenchmarkResult list \<Rightarrow> error + string list" where
  "summary_lines fmt encode_results decode_results =
     ebind (emap average (of_impl ''J2KSwift'' encode_results)) (\<lambda>j2k_avgs.
     ebind (statistics_mean j2k_avgs) (\<lambda>j2k_encode_avg.
     ebind (emap average (of_impl ''OpenJPEG'' encode_results)) (\<lambda>opj_avgs.
     ebind (statistics_mean opj_avgs) (\<lambda>opj_encode_avg.
     ebind (speed_ratio opj_encode_avg j2k_encode_avg) (\<lambda>encode_ratio.
       let j2k_decode_results = of_impl ''J2KSwift'' decode_results;
           opj_decode_results = of_impl ''OpenJPEG'' decode_results
       in ebind (if j2k_decode_results \<noteq> [] \<and> opj_decode_results \<noteq> [] then
                   ebind (emap average j2k_decode_results) (\<lambda>j2k_davgs.
                   ebind (statistics_mean j2k_davgs) (\<lambda>j2k_decode_avg.
                   ebind (emap average opj_decode_results) (\<lambda>opj_davgs.
                   ebind (statistics_mean opj_davgs) (\<lambda>opj_decode_avg.
                     speed_ratio opj_decode_avg j2k_decode_avg))))
                 else Inr 0) (\<lambda>decode_ratio.
            Inr ([''- **Encoding**: J2KSwift is '' @ fmt 1 encode_ratio @ ''% of OpenJPEG speed'',
                  target_line, status_line encode_ratio, ''''] @
                 (if j2k_decode_results \<noteq> [] then
                    [''- **Decoding**: J2KSwift is '' @ fmt 1 decode_ratio @
                       ''% of OpenJPEG speed'',
                     target_line, status_line decode_ratio]
                  else [decode_unavailable_line]) @
                 [''''])))))))"

definition encode_header :: "string list" where
  "encode_header =
     [''## Encoding Performance'', '''',
      ''| Image Size | Implementation | Avg (ms) | Median (ms) | Min (ms) | Max (ms) | Throughput (MP/s) | Compressed Size (KB) | vs OpenJPEG |'',
      ''|------------|----------------|----------|-------------|----------|----------|-------------------|---------------------|-------------|'']"

definition decode_header :: "string list" where
  "decode_header =
     [''## Decoding Performance'', '''',
      ''| Image Size | Implementation | Avg (ms) | Median (ms) | Min (ms) | Max (ms) | Throughput (MP/s) | vs OpenJPEG |'',
      ''|------------|----------------|----------|-------------|----------|----------|-------------------|-------------|'']"

definition title_lines :: "string \<Rightarrow> string list" where
  "title_lines now =
     [''# J2KSwift vs OpenJPEG Performance Comparison'', '''',
      ''**Generated**: '' @ now, '''']"

text \<open>
  The rows of the two tables: the sizes are those of the encode results, for both tables.
\<close>

definition encode_table :: "formatter \<Rightarrow> BenchmarkResult list \<Rightarrow> error + md_row list" where
  "encode_table fmt results =
     table_rows (encode_size_rows fmt (of_operation ''encode'' results))
       (table_sizes (of_operation ''encode'' results))"

definition decode_table :: "formatter \<Rightarrow> BenchmarkResult list \<Rightarrow> error + md_row list" where
  "decode_table fmt results =
     table_rows (decode_size_rows fmt (of_operation ''decode'' results))
       (table_sizes (of_operation ''encode'' results))"

text \<open>
  \<^verbatim>\<open>generate_markdown_report\<close>: the lines of the report, and the text written to the
  output file. \<open>now\<close> is the time stamp \<^verbatim>\<open>time.strftime\<close> returns.
\<close>

definition markdown_lines ::
  "formatter \<Rightarrow> string \<Rightarrow> BenchmarkResult list \<Rightarrow> error + string list" where
  "markdown_lines fmt now results =
     ebind (encode_table fmt results) (\<lambda>enc_rows.
     ebind (decode_table fmt results) (\<lambda>dec_rows.
     ebind (summary_lines fmt (of_operation ''encode'' results)
              (of_operation ''decode'' results)) (\<lambda>summary.
       Inr (title_lines now @
            encode_header @ map render_md_row enc_rows @ [''''] @
            decode_header @ map render_md_row dec_rows @ [''''] @
            [''## Summary'', ''''] @ summary))))"

definition generate_markdown_report ::
  "formatter \<Rightarrow> string \<Rightarrow> BenchmarkResult list \<Rightarrow> error + string" where
  "generate_markdown_report fmt now results =
     ebind (markdown_lines fmt now results) (\<lambda>lines. Inr (join_lines lines))"

text \<open>\<^verbatim>\<open>generate_csv_report\<close>\<close>

definition csv_header :: string where
  "csv_header = ''ImageSize,Implementation,Operation,AvgTime(ms),MedianTime(ms),MinTime(ms),MaxTime(ms),StdDev(ms),Throughput(MP/s),CompressedSize(B)''"

definition csv_compressed_size :: "BenchmarkResult \<Rightarrow> string" where
  "csv_compressed_size r =
     (case compressed_size r of
        None \<Rightarrow> ''''
      | Some c \<Rightarrow> if c \<noteq> 0 then str_int c else '''')"

definition csv_line :: "formatter \<Rightarrow> BenchmarkResult \<Rightarrow> error + string" where
  "csv_line fmt r =
     (let compressed = csv_compressed_size r
      in ebind (average r) (\<lambda>a.
         ebind (median r) (\<lambda>m.
         ebind (min_time r) (\<lambda>lo.
         ebind (max_time r) (\<lambda>hi.
         ebind (std_dev r) (\<lambda>sd.
         ebind (throughput r) (\<lambda>t.
           Inr (str_int (image_size r) @ '','' @ implementation r @ '','' @ operation r @
                '','' @ fmt 3 (a * 1000) @ '','' @ fmt 3 (m * 1000) @
                '','' @ fmt 3 (lo * 1000) @ '','' @ fmt 3 (hi * 1000) @
                '','' @ fmt 3 (sd * 1000) @ '','' @ fmt 3 t @ '','' @ compressed))))))))"

definition generate_csv_report :: "formatter \<Rightarrow> BenchmarkResult list \<Rightarrow> error + string" where
  "generate_csv_report fmt results =
     ebind (emap (csv_line fmt) results) (\<lambda>lines. Inr (join_lines (csv_header # lines)))"

section \<open>\<^verbatim>\<open>compare_performance.py\<close>: \<^verbatim>\<open>main\<close>\<close>

text \<open>
  The file system is a map from paths to contents. Opening a file for writing can fail;
  \<open>writable\<close> says for which paths it succeeds.
\<close>

type_synonym filesystem = "string \<rightharpoonup> string"

definition open_write ::
  "(string \<Rightarrow> bool) \<Rightarrow> filesystem \<Rightarrow> string \<Rightarrow> string \<Rightarrow> error + filesystem" where
  "open_write writable fs path bytes =
     (if writable path then Inr (fs(path \<mapsto> bytes)) else Inl OSError)"

definition pgm_path :: "string \<Rightarrow> int \<Rightarrow> string" where
  "pgm_path test_images_dir sz =
     test_images_dir @ ''/test_'' @ str_int sz @ ''x'' @ str_int sz @ ''.pgm''"

definition pgm_header :: "int \<Rightarrow> string" where
  "pgm_header sz =
     ''P5'' @ newline @ str_int sz @ '' '' @ str_int sz @ newline @ ''255'' @ newline"

text \<open>
  The loop that generates the test images (lines 297 to 308). \<open>rnd k\<close> is the \<open>k\<close>-th
  byte the random generator draws; the state is the file system and the number of bytes
  drawn so far. An exception leaves the loop with the state reached.
\<close>

fun generate_test_images ::
  "(string \<Rightarrow> bool) \<Rightarrow> (nat \<Rightarrow> char) \<Rightarrow> string \<Rightarrow> int list \<Rightarrow> filesystem \<Rightarrow> nat
   \<Rightarrow> (error + unit) \<times> filesystem \<times> nat" where
  "generate_test_images writable rnd test_images_dir [] fs k = (Inr (), fs, k)"
| "generate_test_images writable rnd test_images_dir (sz # sizes) fs k =
     (let pgm_file = pgm_path test_images_dir sz
      in if fs pgm_file = None then
           (let n = nat (sz * sz);
                data = map rnd [k..<k + n]
            in case open_write writable fs pgm_file (pgm_header sz @ data) of
                 Inl e \<Rightarrow> (Inl e, fs, k)
               | Inr fs' \<Rightarrow>
                   generate_test_images writable rnd test_images_dir sizes fs' (k + n))
         else generate_test_images writable rnd test_images_dir sizes fs k)"

text \<open>
  The body of the benchmark loop (lines 325 to 354), given what the adapters returned for
  the size: the results appended to \<open>all_results\<close>, and the two ratios computed for the
  progress output.
\<close>

definition collect_results ::
  "BenchmarkResult list \<Rightarrow> BenchmarkResult \<times> BenchmarkResult option \<Rightarrow> BenchmarkResult
   \<Rightarrow> BenchmarkResult \<Rightarrow> error + BenchmarkResult list" where
  "collect_results all_results j2k opj_encode_result opj_decode_result =
     (let encode_result = fst j2k;
          decode_result = snd j2k;
          all_results1 = all_results @ [encode_result];
          all_results2 = (case decode_result of
                            Some d \<Rightarrow> all_results1 @ [d]
                          | None \<Rightarrow> all_results1);
          all_results3 = all_results2 @ [opj_encode_result];
          all_results4 = all_results3 @ [opj_decode_result]
      in ebind (average opj_encode_result) (\<lambda>oe.
         ebind (average encode_result) (\<lambda>je.
         ebind (truediv oe je) (\<lambda>encode_ratio.
           case decode_result of
             Some d \<Rightarrow>
               ebind (average opj_decode_result) (\<lambda>od.
               ebind (average d) (\<lambda>jd.
               ebind (truediv od jd) (\<lambda>decode_ratio. Inr all_results4)))
           | None \<Rightarrow> Inr all_results4))))"

section \<open>\<^verbatim>\<open>profile_encoder.py\<close>\<close>

definition gradient :: "int \<Rightarrow> string" where
  "gradient sz =
     concat (map (\<lambda>y. map (\<lambda>x. char_of ((x + y) mod 256)) [0..<nat sz]) [0..<nat sz])"

text \<open>\<^verbatim>\<open>create_test_image\<close>: any exception while writing is caught and gives \<open>False\<close>.\<close>

definition create_test_image ::
  "(string \<Rightarrow> bool) \<Rightarrow> filesystem \<Rightarrow> int \<Rightarrow> string \<Rightarrow> bool \<times> filesystem" where
  "create_test_image writable fs sz output_path =
     (case open_write writable fs output_path (pgm_header sz @ gradient sz) of
        Inl e \<Rightarrow> (False, fs)
      | Inr fs' \<Rightarrow> (True, fs'))"

text \<open>
  The loop that creates the test images (lines 325 to 331): the exit code 1 when an image
  cannot be created, else the list of image paths.
\<close>

fun create_test_images ::
  "(string \<Rightarrow> bool) \<Rightarrow> string \<Rightarrow> int list \<Rightarrow> filesystem \<Rightarrow> string list
   \<Rightarrow> (int + string list) \<times> filesystem" where
  "create_test_images writable test_images_dir [] fs test_images = (Inr test_images, fs)"
| "create_test_images writable test_images_dir (sz # sizes) fs test_images =
     (let img_path = pgm_path test_images_dir sz
      in if fs img_path = None then
           (case create_test_image writable fs sz img_path of
              (ok, fs') \<Rightarrow>
                if \<not> ok then (Inl 1, fs')
                else create_test_images writable test_images_dir sizes fs'
                       (test_images @ [img_path]))
         else create_test_images writable test_images_dir sizes fs (test_images @ [img_path]))"

text \<open>
  The dictionary \<^verbatim>\<open>analyze_results\<close> returns is either empty (\<open>None\<close>) or has all
  seven keys.
\<close>

record analysis =
  image_size_label :: string
  pixels :: int
  avg_time_ms :: real
  throughput_mpps :: real
  compressed_size_bytes :: int
  compression_ratio :: real
  times_ms :: "real list"

definition analyze_results :: "document \<Rightarrow> int \<Rightarrow> analysis option" where
  "analyze_results results sz =
     (let encode_stats = doc_encode results;
          runs = (case encode_stats of
                    None \<Rightarrow> []
                  | Some e \<Rightarrow> (case enc_runs e of None \<Rightarrow> [] | Some ts \<Rightarrow> ts))
      in if runs = [] then None
         else
           (let avg_time = (case encode_stats of
                              None \<Rightarrow> 0
                            | Some e \<Rightarrow> (case enc_average_ms e of None \<Rightarrow> 0 | Some v \<Rightarrow> v));
                thr = (case encode_stats of
                         None \<Rightarrow> 0
                       | Some e \<Rightarrow> (case enc_throughput_mpps e of None \<Rightarrow> 0 | Some v \<Rightarrow> v));
                csize = (case encode_stats of
                           None \<Rightarrow> 0
                         | Some e \<Rightarrow> (case enc_compressed_size e of None \<Rightarrow> 0 | Some v \<Rightarrow> v));
                px = sz * sz;
                ratio = (if csize > 0 then real_of_int px / real_of_int csize else 0)
            in Some \<lparr>image_size_label = str_int sz @ times_sign @ str_int sz,
                     pixels = px, avg_time_ms = avg_time, throughput_mpps = thr,
                     compressed_size_bytes = csize, compression_ratio = ratio,
                     times_ms = runs\<rparr>))"

text \<open>\<^verbatim>\<open>d[key]\<close> on such a dictionary.\<close>

definition item :: "analysis option \<Rightarrow> string \<Rightarrow> (analysis \<Rightarrow> 'a) \<Rightarrow> error + 'a" where
  "item d k field = (case d of None \<Rightarrow> Inl (KeyError k) | Some a \<Rightarrow> Inr (field a))"

record scalability =
  pixel_ratio :: real
  time_ratio :: real
  scaling_factor :: real

datatype band = SuperLinear | Linear | SubLinear | Poor

text \<open>The chain \<^verbatim>\<open>if scaling_factor < 0.9 ... elif ... else\<close> (lines 180 to 187).\<close>

definition classify :: "real \<Rightarrow> band" where
  "classify sf =
     (if sf < 9 / 10 then SuperLinear
      else if sf < 11 / 10 then Linear
      else if sf < 3 / 2 then SubLinear
      else Poor)"

fun band_line :: "band \<Rightarrow> string" where
  "band_line SuperLinear =
     check_mark @ '' **Super-linear scaling** - Performance improves with larger images''"
| "band_line Linear =
     check_mark @ '' **Linear scaling** - Good performance characteristics''"
| "band_line SubLinear =
     warning_sign @ '' **Sub-linear scaling** - Some overhead present''"
| "band_line Poor =
     cross_mark @ '' **Poor scaling** - Significant bottlenecks present''"

text \<open>
  Lines 163 to 172 of \<^verbatim>\<open>generate_report\<close>: the ratios between the last and the
  first entry of \<open>all_results\<close>, or \<open>None\<close> when the analysis is skipped.
\<close>

definition scalability_analysis :: "analysis option list \<Rightarrow> error + scalability option" where
  "scalability_analysis all_results =
     (if all_results \<noteq> [] then
        (if length all_results \<ge> 2 then
           (let first_r = all_results ! 0;
                last_r = last all_results
            in ebind (item last_r ''pixels'' pixels) (\<lambda>lp.
               ebind (item first_r ''pixels'' pixels) (\<lambda>fp.
               ebind (truediv (real_of_int lp) (real_of_int fp)) (\<lambda>pr.
               ebind (item last_r ''avg_time_ms'' avg_time_ms) (\<lambda>lt.
               ebind (item first_r ''avg_time_ms'' avg_time_ms) (\<lambda>ft.
               ebind (truediv lt ft) (\<lambda>tr.
               ebind (truediv tr pr) (\<lambda>sf.
                 Inr (Some \<lparr>pixel_ratio = pr, time_ratio = tr, scaling_factor = sf\<rparr>)))))))))
         else Inr None)
      else Inr None)"

text \<open>Lines 174 to 188: the lines the analysis adds to the report.\<close>

definition scalability_lines :: "formatter \<Rightarrow> analysis option list \<Rightarrow> error + string list" where
  "scalability_lines fmt all_results =
     ebind (scalability_analysis all_results) (\<lambda>s.
       case s of
         None \<Rightarrow> Inr []
       | Some sc \<Rightarrow>
           Inr [''### Scalability Analysis'',
                ''- Pixel count increase: '' @ fmt 2 (pixel_ratio sc) @ ''x'',
                ''- Time increase: '' @ fmt 2 (time_ratio sc) @ ''x'',
                ''- Scaling factor: '' @ fmt 2 (scaling_factor sc) @
                  '' (1.0 = perfect linear scaling)'',
                '''',
                band_line (classify (scaling_factor sc)),
                ''''])"

text \<open>
  The scalability record in the words of the specification: the results ordered ascending
  by size, the smallest and the largest size present, \<open>pixel_ratio = last.pixels /
  first.pixels\<close>, \<open>time_ratio = last.average / first.average\<close> and
  \<open>scaling_factor = time_ratio / pixel_ratio\<close>.
\<close>

definition spec_scalability :: "analysis list \<Rightarrow> scalability" where
  "spec_scalability rs =
     (let ordered = sort_key pixels rs;
          smallest = hd ordered;
          largest = last ordered;
          pr = real_of_int (pixels largest) / real_of_int (pixels smallest);
          tr = avg_time_ms largest / avg_time_ms smallest
      in \<lparr>pixel_ratio = pr, time_ratio = tr, scaling_factor = tr / pr\<rparr>)"

section \<open>Concrete inputs\<close>

definition r512 :: BenchmarkResult where
  "r512 = (BenchmarkResult_init ''J2KSwift'' 512 ''encode'') \<lparr>run_times := [1 / 10]\<rparr>"

definition r3 :: BenchmarkResult where
  "r3 = (BenchmarkResult_init ''J2KSwift'' 256 ''encode'') \<lparr>run_times := [10, 20, 30]\<rparr>"

definition doc_encode_only :: document where
  "doc_encode_only =
     \<lparr>doc_image = Some \<lparr>img_width = Some 256\<rparr>,
      doc_encode = Some \<lparr>enc_runs = Some [10, 20, 30], enc_average_ms = Some 20,
                         enc_throughput_mpps = Some 3, enc_compressed_size = Some 2048\<rparr>,
      doc_decode = None\<rparr>"

text \<open>
  Three worlds. In each the tool run with \<^verbatim>\<open>--encode-only\<close> exits 0 and writes
  nothing. Run without the flag it exits 1 and writes a message to its standard error in
  \<open>world_retry\<close>; it exits 1 and writes the byte \<open>0xFF\<close>, which is not text, to its
  standard error in \<open>world_garbage\<close>; it exits 0 and writes that byte to its standard
  output in \<open>world_garbage_ok\<close>.
\<close>

definition world_retry :: world where
  "world_retry =
     \<lparr>spawn = (\<lambda>hist cmd.
        if last cmd = ''--encode-only''
        then Some \<lparr>child_returncode = 0, child_stdout = [], child_stderr = []\<rparr>
        else Some \<lparr>child_returncode = 1, child_stdout = [], child_stderr = ''decoder error''\<rparr>),
      decodable = (\<lambda>bytes. CHR 0xFF \<notin> set bytes),
      read_json = (\<lambda>hist path. Inr doc_encode_only)\<rparr>"

definition world_garbage :: world where
  "world_garbage =
     \<lparr>spawn = (\<lambda>hist cmd.
        if last cmd = ''--encode-only''
        then Some \<lparr>child_returncode = 0, child_stdout = [], child_stderr = []\<rparr>
        else Some \<lparr>child_returncode = 1, child_stdout = [], child_stderr = [CHR 0xFF]\<rparr>),
      decodable = (\<lambda>bytes. CHR 0xFF \<notin> set bytes),
      read_json = (\<lambda>hist path. Inr doc_encode_only)\<rparr>"

definition world_garbage_ok :: world where
  "world_garbage_ok =
     \<lparr>spawn = (\<lambda>hist cmd.
        if last cmd = ''--encode-only''
        then Some \<lparr>child_returncode = 0, child_stdout = [], child_stderr = []\<rparr>
        else Some \<lparr>child_returncode = 0, child_stdout = [CHR 0xFF], child_stderr = []\<rparr>),
      decodable = (\<lambda>bytes. CHR 0xFF \<notin> set bytes),
      read_json = (\<lambda>hist path. Inr doc_encode_only)\<rparr>"

definition full_cmd :: argv where
  "full_cmd = benchmark_cmd ''j2k'' ''in.pgm'' ''out.json'' 5"

text \<open>
  \<open>unmeasured\<close> replaces a compressed size of 0 by an absent one; it is used to compare
  the reports of two result lists that differ only in this.
\<close>

definition unmeasured :: "BenchmarkResult \<Rightarrow> BenchmarkResult" where
  "unmeasured r = (if compressed_size r = Some 0 then r\<lparr>compressed_size := None\<rparr> else r)"

definition j2k_zero :: BenchmarkResult where
  "j2k_zero = (BenchmarkResult_init ''J2KSwift'' 256 ''encode'')
                \<lparr>run_times := [1 / 10], compressed_size := Some 0\<rparr>"

definition j2k_none :: BenchmarkResult where
  "j2k_none = (BenchmarkResult_init ''J2KSwift'' 256 ''encode'') \<lparr>run_times := [1 / 10]\<rparr>"

definition opj_enc :: BenchmarkResult where
  "opj_enc = (BenchmarkResult_init ''OpenJPEG'' 256 ''encode'')
               \<lparr>run_times := [2 / 25], compressed_size := Some 2048\<rparr>"

definition j2k_empty :: BenchmarkResult where
  "j2k_empty = BenchmarkResult_init ''J2KSwift'' 256 ''encode''"

definition opj_dec :: BenchmarkResult where
  "opj_dec = (BenchmarkResult_init ''OpenJPEG'' 256 ''decode'') \<lparr>run_times := [1 / 20]\<rparr>"

definition doc_no_runs :: document where
  "doc_no_runs =
     \<lparr>doc_image = Some \<lparr>img_width = Some 256\<rparr>,
      doc_encode = Some \<lparr>enc_runs = Some [], enc_average_ms = Some 0,
                         enc_throughput_mpps = Some 0, enc_compressed_size = None\<rparr>,
      doc_decode = None\<rparr>"

definition fs_old :: filesystem where
  "fs_old = [pgm_path ''imgs'' 2 \<mapsto> ''old bytes'']"

definition profile_entry :: "int \<Rightarrow> real \<Rightarrow> analysis" where
  "profile_entry sz avg =
     \<lparr>image_size_label = str_int sz @ times_sign @ str_int sz, pixels = sz * sz,
      avg_time_ms = avg, throughput_mpps = 1, compressed_size_bytes = 1024,
      compression_ratio = real_of_int (sz * sz) / 1024, times_ms = [avg]\<rparr>"

text \<open>
  The order of the rows of a table: ascending by image size and, within a size, the
  candidate (J2KSwift) before the reference (OpenJPEG). \<open>relative_column\<close> says that a
  cell is one of the three forms of the relative-speed column.
\<close>

definition row_before :: "md_row \<Rightarrow> md_row \<Rightarrow> bool" where
  "row_before a b \<longleftrightarrow>
     row_size a < row_size b \<or>
     (row_size a = row_size b \<and> row_impl a = ''J2KSwift'' \<and> row_impl b = ''OpenJPEG'')"

definition relative_column :: "formatter \<Rightarrow> string \<Rightarrow> bool" where
  "relative_column fmt c \<longleftrightarrow> c = ''100.0%'' \<or> c = ''N/A'' \<or> (\<exists>x. c = fmt 1 x @ ''%'')"

definition timed :: "string \<Rightarrow> int \<Rightarrow> string \<Rightarrow> real \<Rightarrow> BenchmarkResult" where
  "timed impl sz opn t = (BenchmarkResult_init impl sz opn) \<lparr>run_times := [t]\<rparr>"

definition stub_row :: "int \<Rightarrow> string \<Rightarrow> string list \<Rightarrow> md_row" where
  "stub_row sz impl cells =
     \<lparr>row_size = sz, row_impl = impl, row_cells = [''#'', ''#'', ''#'', ''#'', ''#''] @ cells\<rparr>"

definition results_unordered :: "BenchmarkResult list" where
  "results_unordered =
     [timed ''OpenJPEG'' 512 ''encode'' (1 / 10), timed ''J2KSwift'' 512 ''encode'' (1 / 10),
      timed ''J2KSwift'' 256 ''encode'' (1 / 10), timed ''OpenJPEG'' 256 ''encode'' (1 / 10),
      timed ''OpenJPEG'' 256 ''decode'' (1 / 20), timed ''J2KSwift'' 256 ''decode'' (1 / 10)]"

definition enc_rows_expected :: "md_row list" where
  "enc_rows_expected =
     [stub_row 256 ''J2KSwift'' [''N/A'', ''#%''], stub_row 256 ''OpenJPEG'' [''N/A'', ''100.0%''],
      stub_row 512 ''J2KSwift'' [''N/A'', ''#%''], stub_row 512 ''OpenJPEG'' [''N/A'', ''100.0%'']]"

definition dec_rows_expected :: "md_row list" where
  "dec_rows_expected =
     [stub_row 256 ''J2KSwift'' [''#%''], stub_row 256 ''OpenJPEG'' [''100.0%'']]"

text \<open>
  \<open>encode_row_text\<close> and \<open>decode_row_text\<close> say what the line of a table row is: the
  size twice around the multiplication sign, the implementation, the five metric cells, for
  the encoding table the compressed size, and the relative-speed column last.
\<close>

definition encode_row_text :: "formatter \<Rightarrow> md_row \<Rightarrow> bool" where
  "encode_row_text fmt r \<longleftrightarrow>
     (row_impl r = ''J2KSwift'' \<or> row_impl r = ''OpenJPEG'') \<and>
     (\<exists>a m lo hi t kb rel.
        row_cells r = [fmt 1 a, fmt 1 m, fmt 1 lo, fmt 1 hi, fmt 2 t, kb, rel] \<and>
        relative_column fmt rel \<and>
        render_md_row r =
          ''| '' @ str_int (row_size r) @ times_sign @ str_int (row_size r) @ '' | '' @
          row_impl r @ '' | '' @ fmt 1 a @ '' | '' @ fmt 1 m @ '' | '' @ fmt 1 lo @ '' | '' @
          fmt 1 hi @ '' | '' @ fmt 2 t @ '' | '' @ kb @ '' | '' @ rel @ '' |'')"

definition decode_row_text :: "formatter \<Rightarrow> md_row \<Rightarrow> bool" where
  "decode_row_text fmt r \<longleftrightarrow>
     (row_impl r = ''J2KSwift'' \<or> row_impl r = ''OpenJPEG'') \<and>
     (\<exists>a m lo hi t rel.
        row_cells r = [fmt 1 a, fmt 1 m, fmt 1 lo, fmt 1 hi, fmt 2 t, rel] \<and>
        relative_column fmt rel \<and>
        render_md_row r =
          ''| '' @ str_int (row_size r) @ times_sign @ str_int (row_size r) @ '' | '' @
          row_impl r @ '' | '' @ fmt 1 a @ '' | '' @ fmt 1 m @ '' | '' @ fmt 1 lo @ '' | '' @
          fmt 1 hi @ '' | '' @ fmt 2 t @ '' | '' @ rel @ '' |'')"

definition report_text_unordered :: string where
  "report_text_unordered =
     concat (map (\<lambda>l. l @ newline)
       (title_lines ''now'' @ encode_header @
        [''| 256'' @ times_sign @ ''256 | J2KSwift | # | # | # | # | # | N/A | #% |'',
         ''| 256'' @ times_sign @ ''256 | OpenJPEG | # | # | # | # | # | N/A | 100.0% |'',
         ''| 512'' @ times_sign @ ''512 | J2KSwift | # | # | # | # | # | N/A | #% |'',
         ''| 512'' @ times_sign @ ''512 | OpenJPEG | # | # | # | # | # | N/A | 100.0% |'',
         []] @
        decode_header @
        [''| 256'' @ times_sign @ ''256 | J2KSwift | # | # | # | # | # | #% |'',
         ''| 256'' @ times_sign @ ''256 | OpenJPEG | # | # | # | # | # | 100.0% |'',
         [], ''## Summary'', [],
         ''- **Encoding**: J2KSwift is #% of OpenJPEG speed'',
         ''  - Target: '' @ ge_sign @ ''80% (within 80% of OpenJPEG)'',
         ''  - Status: '' @ check_mark @ '' PASS'',
         [],
         ''- **Decoding**: J2KSwift is #% of OpenJPEG speed'',
         ''  - Target: '' @ ge_sign @ ''80% (within 80% of OpenJPEG)'',
         ''  - Status: '' @ cross_mark @ '' FAIL'']))"

text \<open>
  What the reports show for a compressed size: \<open>absent\<close> when it is missing or 0, else
  the size as \<open>shown\<close>. \<open>csv_line_text\<close> says what the CSV line of a result is: the
  nine fields of the result and its metrics, then the compressed size, empty when missing
  or 0.
\<close>

definition compressed_text :: "int option \<Rightarrow> string \<Rightarrow> (int \<Rightarrow> string) \<Rightarrow> string" where
  "compressed_text cs absent shown =
     (case cs of None \<Rightarrow> absent | Some c \<Rightarrow> if c = 0 then absent else shown c)"

definition csv_line_text :: "formatter \<Rightarrow> BenchmarkResult \<Rightarrow> string \<Rightarrow> bool" where
  "csv_line_text fmt r line \<longleftrightarrow>
     (\<exists>a m lo hi sd t.
        line = str_int (image_size r) @ '','' @ implementation r @ '','' @ operation r @
               '','' @ fmt 3 a @ '','' @ fmt 3 m @ '','' @ fmt 3 lo @ '','' @ fmt 3 hi @
               '','' @ fmt 3 sd @ '','' @ fmt 3 t @ '','' @
               compressed_text (compressed_size r) [] str_int)"

definition csv_text_zero :: string where
  "csv_text_zero =
     csv_header @ newline @ ''256,J2KSwift,encode,#,#,#,#,#,#,'' @ newline @
     ''256,OpenJPEG,encode,#,#,#,#,#,#,2048''"

definition report_text_zero :: string where
  "report_text_zero =
     concat (map (\<lambda>l. l @ newline)
       (title_lines ''now'' @ encode_header @
        [''| 256'' @ times_sign @ ''256 | J2KSwift | # | # | # | # | # | N/A | #% |'',
         ''| 256'' @ times_sign @ ''256 | OpenJPEG | # | # | # | # | # | # | 100.0% |'',
         []] @
        decode_header @
        [[], ''## Summary'', [],
         ''- **Encoding**: J2KSwift is #% of OpenJPEG speed'',
         ''  - Target: '' @ ge_sign @ ''80% (within 80% of OpenJPEG)'',
         ''  - Status: '' @ check_mark @ '' PASS'',
         [],
         ''- **Decoding**: J2KSwift decoder currently has errors preventing benchmark'']))"

definition j2k_from_doc :: BenchmarkResult where
  "j2k_from_doc = (BenchmarkResult_init ''J2KSwift'' 256 ''encode'')
                    \<lparr>run_times := [1 / 100, 1 / 50, 3 / 100], compressed_size := Some 2048\<rparr>"

definition results_encode_only :: "BenchmarkResult list" where
  "results_encode_only =
     [j2k_from_doc, timed ''OpenJPEG'' 256 ''encode'' (1 / 10),
      timed ''OpenJPEG'' 256 ''decode'' (1 / 20)]"

definition report_encode_only :: "string list" where
  "report_encode_only =
     title_lines ''now'' @ encode_header @
     map render_md_row
       [stub_row 256 ''J2KSwift'' [''#'', ''#%''], stub_row 256 ''OpenJPEG'' [''N/A'', ''100.0%'']] @
     [[]] @ decode_header @
     map render_md_row [stub_row 256 ''OpenJPEG'' [''100.0%'']] @
     [[]] @ [''## Summary'', []] @
     [''- **Encoding**: J2KSwift is #% of OpenJPEG speed'', target_line, status_line 500, [],
      decode_unavailable_line, []]"

definition results_mixed :: "BenchmarkResult list" where
  "results_mixed =
     [j2k_from_doc, timed ''OpenJPEG'' 256 ''encode'' (1 / 10),
      timed ''OpenJPEG'' 256 ''decode'' (1 / 20),
      timed ''J2KSwift'' 512 ''encode'' (1 / 50), timed ''J2KSwift'' 512 ''decode'' (1 / 10),
      timed ''OpenJPEG'' 512 ''encode'' (1 / 10), timed ''OpenJPEG'' 512 ''decode'' (1 / 20)]"

definition report_mixed :: "string list" where
  "report_mixed =
     title_lines ''now'' @ encode_header @
     map render_md_row
       [stub_row 256 ''J2KSwift'' [''#'', ''#%''], stub_row 256 ''OpenJPEG'' [''N/A'', ''100.0%''],
        stub_row 512 ''J2KSwift'' [''N/A'', ''#%''], stub_row 512 ''OpenJPEG'' [''N/A'', ''100.0%'']] @
     [[]] @ decode_header @
     map render_md_row
       [stub_row 256 ''OpenJPEG'' [''100.0%''], stub_row 512 ''J2KSwift'' [''#%''],
        stub_row 512 ''OpenJPEG'' [''100.0%'']] @
     [[]] @ [''## Summary'', []] @
     [''- **Encoding**: J2KSwift is #% of OpenJPEG speed'', target_line, status_line 500, [],
      ''- **Decoding**: J2KSwift is #% of OpenJPEG speed'', target_line, status_line 50, []]"

definition report_text_encode_only :: string where
  "report_text_encode_only =
     concat (map (\<lambda>l. l @ newline)
       (title_lines ''now'' @ encode_header @
        [''| 256'' @ times_sign @ ''256 | J2KSwift | # | # | # | # | # | # | #% |'',
         ''| 256'' @ times_sign @ ''256 | OpenJPEG | # | # | # | # | # | N/A | 100.0% |'',
         []] @
        decode_header @
        [''| 256'' @ times_sign @ ''256 | OpenJPEG | # | # | # | # | # | 100.0% |'',
         [], ''## Summary'', [],
         ''- **Encoding**: J2KSwift is #% of OpenJPEG speed'',
         ''  - Target: '' @ ge_sign @ ''80% (within 80% of OpenJPEG)'',
         ''  - Status: '' @ check_mark @ '' PASS'',
         [],
         ''- **Decoding**: J2KSwift decoder currently has errors preventing benchmark'']))"

section \<open>Metrics of a result\<close>

lemma average_total: "\<exists>a. average r = Inr a"
  by (simp add: average_def statistics_mean_def)

text \<open>
  C1. A result whose timing sequence is empty has average, median, standard deviation,
  minimum, maximum and throughput all equal to 0, and none of the six accessors raises.
\<close>

theorem empty_times_metrics_zero:
  assumes "run_times r = []"
  shows "average r = Inr 0 \<and> median r = Inr 0 \<and> std_dev r = Inr 0 \<and>
         min_time r = Inr 0 \<and> max_time r = Inr 0 \<and> throughput r = Inr 0"
  using assms
  by (simp add: average_def median_def std_dev_def min_time_def max_time_def
      throughput_def ebind_def)

theorem empty_times_metrics_zero_witness:
  "run_times (BenchmarkResult_init ''J2KSwift'' 512 ''encode'') = [] \<and>
   average (BenchmarkResult_init ''J2KSwift'' 512 ''encode'') = Inr 0 \<and>
   throughput (BenchmarkResult_init ''J2KSwift'' 512 ''encode'') = Inr 0"
  using empty_times_metrics_zero [of "BenchmarkResult_init ''J2KSwift'' 512 ''encode''"]
  by (simp add: BenchmarkResult_init_def)

lemma throughput_positive:
  "average r = Inr a \<Longrightarrow> a > 0 \<Longrightarrow>
   throughput r = Inr (real_of_int (image_size r * image_size r) / 1000000 / a)"
  by (simp add: throughput_def ebind_def truediv_def)

lemma throughput_nonpositive: "average r = Inr a \<Longrightarrow> a \<le> 0 \<Longrightarrow> throughput r = Inr 0"
  by (simp add: throughput_def ebind_def)

lemma throughput_total: "\<exists>t. throughput r = Inr t"
proof -
  obtain a where a: "average r = Inr a" using average_total by blast
  show ?thesis
  proof (cases "a > 0")
    case True
    then show ?thesis using throughput_positive [OF a] by blast
  next
    case False
    then show ?thesis using throughput_nonpositive [OF a] by simp
  qed
qed

text \<open>
  C2. The throughput is \<open>(image_size\<^sup>2 / 1,000,000) / average\<close> when the average is
  positive and 0 when the average is 0 or there are no timings; the accessor never raises,
  so it never divides by zero. For a side of 512 and an average of 0.1 s it is 2.62144 MP/s.
\<close>

theorem throughput_formula:
  "(\<forall>a. average r = Inr a \<and> a > 0 \<longrightarrow>
      throughput r = Inr (real_of_int (image_size r * image_size r) / 1000000 / a)) \<and>
   (average r = Inr 0 \<longrightarrow> throughput r = Inr 0) \<and>
   (run_times r = [] \<longrightarrow> throughput r = Inr 0) \<and>
   (\<exists>t. throughput r = Inr t) \<and>
   (image_size r = 512 \<and> average r = Inr (1 / 10) \<longrightarrow>
      (\<exists>t. throughput r = Inr t \<and> \<bar>t - 2.62144\<bar> \<le> 1 / 1000000))"
proof (intro conjI allI impI)
  fix a assume "average r = Inr a \<and> 0 < a"
  then show "throughput r = Inr (real_of_int (image_size r * image_size r) / 1000000 / a)"
    using throughput_positive by blast
next
  assume "average r = Inr 0"
  then show "throughput r = Inr 0" using throughput_nonpositive by simp
next
  assume "run_times r = []"
  then have "average r = Inr 0" by (simp add: average_def)
  then show "throughput r = Inr 0" using throughput_nonpositive by simp
next
  show "\<exists>t. throughput r = Inr t" by (rule throughput_total)
next
  assume h: "image_size r = 512 \<and> average r = Inr (1 / 10)"
  then have "throughput r = Inr (real_of_int (512 * 512) / 1000000 / (1 / 10))"
    using throughput_positive [of r "1 / 10"] by simp
  then have "throughput r = Inr 2.62144" by simp
  then show "\<exists>t. throughput r = Inr t \<and> \<bar>t - 2.62144\<bar> \<le> 1 / 1000000"
    by (intro exI [of _ "2.62144"] conjI) simp_all
qed

theorem throughput_formula_witness:
  "average r512 = Inr (1 / 10) \<and> 0 < (1 / 10 :: real) \<and> image_size r512 = 512 \<and>
   throughput r512 = Inr 2.62144 \<and>
   run_times (BenchmarkResult_init ''OpenJPEG'' 512 ''decode'') = [] \<and>
   average (BenchmarkResult_init ''OpenJPEG'' 512 ''decode'') = Inr 0 \<and>
   throughput (BenchmarkResult_init ''OpenJPEG'' 512 ''decode'') = Inr 0"
proof -
  have a: "average r512 = Inr (1 / 10)"
    by (simp add: r512_def BenchmarkResult_init_def average_def statistics_mean_def)
  have s: "image_size r512 = 512"
    by (simp add: r512_def BenchmarkResult_init_def)
  have e: "run_times (BenchmarkResult_init ''OpenJPEG'' 512 ''decode'') = []"
    by (simp add: BenchmarkResult_init_def)
  have e0: "average (BenchmarkResult_init ''OpenJPEG'' 512 ''decode'') = Inr 0"
    by (simp add: BenchmarkResult_init_def average_def)
  have "average r512 = Inr (1 / 10) \<and> 0 < (1 / 10 :: real)"
    using a by simp
  with throughput_formula [of r512]
  have "throughput r512 = Inr (real_of_int (image_size r512 * image_size r512) / 1000000 / (1 / 10))"
    by blast
  then have t: "throughput r512 = Inr 2.62144" by (simp add: s)
  from throughput_formula [of "BenchmarkResult_init ''OpenJPEG'' 512 ''decode''"] e
  have t0: "throughput (BenchmarkResult_init ''OpenJPEG'' 512 ''decode'') = Inr 0"
    by blast
  show ?thesis using a s e e0 t t0 by simp
qed

lemma sum_list_nth_sum: "sum_list (map f xs) = (\<Sum>i<length xs. f (xs ! i))"
proof -
  have "sum_list (map f xs) = (\<Sum>i = 0..<length (map f xs). map f xs ! i)"
    by (rule sum_list_sum_nth)
  also have "\<dots> = (\<Sum>i<length xs. f (xs ! i))"
    by (simp add: atLeast0LessThan)
  finally show ?thesis .
qed

lemma statistics_stdev_sample:
  assumes "length xs \<ge> 2"
  shows "statistics_stdev xs = Inr (sample_stddev xs)"
proof -
  have m: "sum_list xs / real (length xs) = arithmetic_mean xs"
    using sum_list_nth_sum [of "\<lambda>x. x" xs] by (simp add: arithmetic_mean_def)
  have n: "real (length xs) - 1 = real (length xs - 1)"
    using assms by (simp add: of_nat_diff)
  have v: "statistics_variance xs =
        Inr (sum_list (map (\<lambda>x. (x - arithmetic_mean xs)\<^sup>2) xs) / real (length xs - 1))"
    using assms unfolding statistics_variance_def Let_def m n by simp
  show ?thesis
    unfolding statistics_stdev_def v sample_stddev_def sum_list_nth_sum
    by (simp add: ebind_def)
qed

text \<open>
  C3. With two or more timings the standard deviation is the Bessel-corrected sample
  standard deviation (divisor \<open>n - 1\<close>); with fewer it is 0 and nothing is raised. For
  the timings 10, 20, 30 the average is 20, the median 20, the standard deviation 10, the
  minimum 10 and the maximum 30.
\<close>

theorem std_dev_sample:
  "(length (run_times r) \<ge> 2 \<longrightarrow> std_dev r = Inr (sample_stddev (run_times r))) \<and>
   (length (run_times r) < 2 \<longrightarrow> std_dev r = Inr 0) \<and>
   (run_times r = [10, 20, 30] \<longrightarrow>
      average r = Inr 20 \<and> median r = Inr 20 \<and> std_dev r = Inr 10 \<and>
      min_time r = Inr 10 \<and> max_time r = Inr 30)"
proof (intro conjI impI)
  assume "2 \<le> length (run_times r)"
  then show "std_dev r = Inr (sample_stddev (run_times r))"
    using statistics_stdev_sample by (simp add: std_dev_def)
next
  assume "length (run_times r) < 2"
  then show "std_dev r = Inr 0" by (simp add: std_dev_def)
next
  assume t: "run_times r = [10, 20, 30]"
  show "average r = Inr 20" using t by (simp add: average_def statistics_mean_def)
next
  assume t: "run_times r = [10, 20, 30]"
  show "median r = Inr 20" using t by (simp add: median_def statistics_median_def)
next
  assume t: "run_times r = [10, 20, 30]"
  have "statistics_variance [10, 20, 30] = Inr 100"
    by (simp add: statistics_variance_def Let_def)
  then show "std_dev r = Inr 10"
    using t by (simp add: std_dev_def statistics_stdev_def ebind_def)
next
  assume t: "run_times r = [10, 20, 30]"
  show "min_time r = Inr 10" using t by (simp add: min_time_def)
next
  assume t: "run_times r = [10, 20, 30]"
  show "max_time r = Inr 30" using t by (simp add: max_time_def)
qed

theorem std_dev_sample_witness:
  "run_times r3 = [10, 20, 30] \<and> 2 \<le> length (run_times r3) \<and>
   std_dev r3 = Inr (sample_stddev (run_times r3)) \<and> std_dev r3 = Inr 10 \<and>
   average r3 = Inr 20 \<and> median r3 = Inr 20 \<and> min_time r3 = Inr 10 \<and> max_time r3 = Inr 30 \<and>
   length (run_times (r3\<lparr>run_times := [5]\<rparr>)) < 2 \<and> std_dev (r3\<lparr>run_times := [5]\<rparr>) = Inr 0"
proof -
  have t: "run_times r3 = [10, 20, 30]"
    by (simp add: r3_def BenchmarkResult_init_def)
  have l: "2 \<le> length (run_times r3)" by (simp add: t)
  have s: "length (run_times (r3\<lparr>run_times := [5]\<rparr>)) < 2" by simp
  show ?thesis
    using t l s std_dev_sample [of r3] std_dev_sample [of "r3\<lparr>run_times := [5]\<rparr>"]
    by blast
qed

lemma full_cmd_last: "last full_cmd \<noteq> ''--encode-only''"
  by (simp add: full_cmd_def benchmark_cmd_def)

lemma run_j2kswift_invoke_returned:
  assumes "subprocess_run w (benchmark_cmd cli_path input_file output_file runs) PIPE_text hist =
             (Inr rc, hist1)"
  shows "rc = 0 \<Longrightarrow>
           run_j2kswift_invoke w cli_path input_file output_file runs hist = (Inr (), hist1)"
    and "rc \<noteq> 0 \<Longrightarrow>
         subprocess_run w (benchmark_cmd cli_path input_file output_file runs @ [''--encode-only''])
           DEVNULL hist1 = (Inr rc2, hist2) \<Longrightarrow>
         run_j2kswift_invoke w cli_path input_file output_file runs hist =
           (if rc2 \<noteq> 0
            then Inl (RuntimeError ''J2KSwift benchmark failed even with encode-only'')
            else Inr (), hist2)"
  using assms by (simp_all add: run_j2kswift_invoke_def)

text \<open>
  C4. The first invocation captures the output of the tool as text, which the adapter never
  reads. When the tool exits with status 1 after writing a byte that is not text to its
  standard error, \<^verbatim>\<open>subprocess.run\<close> raises before the return code is tested: the
  adapter raises \<open>UnicodeDecodeError\<close> and has run one command only, with no retry,
  although the retry, whose output is discarded, would have exited 0. With a readable
  message on standard error the retry takes place. When the tool exits 0 after writing such a
  byte to its standard output, the adapter raises as well.
\<close>

theorem candidate_retry_defeated:
  "spawn world_garbage [] full_cmd =
     Some \<lparr>child_returncode = 1, child_stdout = [], child_stderr = [CHR 0xFF]\<rparr> \<and>
   run_j2kswift_invoke world_garbage ''j2k'' ''in.pgm'' ''out.json'' 5 [] =
     (Inl UnicodeDecodeError, [full_cmd]) \<and>
   subprocess_run world_garbage (full_cmd @ [''--encode-only'']) DEVNULL [full_cmd] =
     (Inr 0, [full_cmd, full_cmd @ [''--encode-only'']]) \<and>
   run_j2kswift_invoke world_retry ''j2k'' ''in.pgm'' ''out.json'' 5 [] =
     (Inr (), [full_cmd, full_cmd @ [''--encode-only'']]) \<and>
   spawn world_garbage_ok [] full_cmd =
     Some \<lparr>child_returncode = 0, child_stdout = [CHR 0xFF], child_stderr = []\<rparr> \<and>
   run_j2kswift_invoke world_garbage_ok ''j2k'' ''in.pgm'' ''out.json'' 5 [] =
     (Inl UnicodeDecodeError, [full_cmd])"
proof -
  have a: "spawn world_garbage [] full_cmd =
     Some \<lparr>child_returncode = 1, child_stdout = [], child_stderr = [CHR 0xFF]\<rparr>"
    using full_cmd_last by (simp add: world_garbage_def)
  have b: "run_j2kswift_invoke world_garbage ''j2k'' ''in.pgm'' ''out.json'' 5 [] =
     (Inl UnicodeDecodeError, [full_cmd])"
    using a by (simp add: run_j2kswift_invoke_def subprocess_run_def full_cmd_def [symmetric])
      (simp add: world_garbage_def)
  have c: "subprocess_run world_garbage (full_cmd @ [''--encode-only'']) DEVNULL [full_cmd] =
     (Inr 0, [full_cmd, full_cmd @ [''--encode-only'']])"
    by (simp add: subprocess_run_def world_garbage_def)
  have d1: "subprocess_run world_retry full_cmd PIPE_text [] = (Inr 1, [full_cmd])"
    using full_cmd_last by (simp add: subprocess_run_def world_retry_def)
  have d2: "subprocess_run world_retry (full_cmd @ [''--encode-only'']) DEVNULL [full_cmd] =
     (Inr 0, [full_cmd, full_cmd @ [''--encode-only'']])"
    by (simp add: subprocess_run_def world_retry_def)
  have d: "run_j2kswift_invoke world_retry ''j2k'' ''in.pgm'' ''out.json'' 5 [] =
     (Inr (), [full_cmd, full_cmd @ [''--encode-only'']])"
    using run_j2kswift_invoke_returned(2) [OF d1 [unfolded full_cmd_def] _ d2 [unfolded full_cmd_def]]
    by (simp add: full_cmd_def)
  have e: "spawn world_garbage_ok [] full_cmd =
     Some \<lparr>child_returncode = 0, child_stdout = [CHR 0xFF], child_stderr = []\<rparr>"
    using full_cmd_last by (simp add: world_garbage_ok_def)
  have f: "run_j2kswift_invoke world_garbage_ok ''j2k'' ''in.pgm'' ''out.json'' 5 [] =
     (Inl UnicodeDecodeError, [full_cmd])"
    using e by (simp add: run_j2kswift_invoke_def subprocess_run_def full_cmd_def [symmetric])
      (simp add: world_garbage_ok_def)
  show ?thesis using a b c d e f by blast
qed

lemma unmeasured_fields:
  "implementation (unmeasured r) = implementation r"
  "image_size (unmeasured r) = image_size r"
  "operation (unmeasured r) = operation r"
  "run_times (unmeasured r) = run_times r"
  by (simp_all add: unmeasured_def)

lemma unmeasured_average: "average (unmeasured r) = average r"
  by (simp add: average_def unmeasured_fields)

lemma unmeasured_metrics:
  "average (unmeasured r) = average r"
  "median (unmeasured r) = median r"
  "std_dev (unmeasured r) = std_dev r"
  "min_time (unmeasured r) = min_time r"
  "max_time (unmeasured r) = max_time r"
  "throughput (unmeasured r) = throughput r"
  unfolding median_def std_dev_def min_time_def max_time_def throughput_def
    unmeasured_fields unmeasured_average
  by (rule refl)+

lemma unmeasured_size_cells:
  "size_kb_cell fmt (unmeasured r) = size_kb_cell fmt r"
  "csv_compressed_size (unmeasured r) = csv_compressed_size r"
  by (simp_all add: size_kb_cell_def csv_compressed_size_def unmeasured_def)

lemma unmeasured_metric_cells: "metric_cells fmt (unmeasured r) = metric_cells fmt r"
  unfolding metric_cells_def unmeasured_metrics ..

lemma unmeasured_csv_line: "csv_line fmt (unmeasured r) = csv_line fmt r"
  unfolding csv_line_def Let_def unmeasured_metrics unmeasured_fields unmeasured_size_cells ..

lemmas unmeasured_cells = unmeasured_size_cells unmeasured_metric_cells unmeasured_csv_line

lemma unmeasured_relative:
  "relative_cell fmt (map_option unmeasured opj) (unmeasured j) = relative_cell fmt opj j"
  by (cases opj) (simp_all add: relative_cell_def unmeasured_metrics)

lemma unmeasured_filters:
  "of_operation opn (map unmeasured rs) = map unmeasured (of_operation opn rs)"
  "of_impl impl (map unmeasured rs) = map unmeasured (of_impl impl rs)"
  "by_size (map unmeasured rs) sz = map unmeasured (by_size rs sz)"
  by (simp_all add: of_operation_def of_impl_def by_size_def filter_map comp_def
      unmeasured_fields)

lemma unmeasured_next:
  "next_impl impl (map unmeasured rs) = map_option unmeasured (next_impl impl rs)"
  by (induction rs) (simp_all add: next_impl_def unmeasured_fields)

lemma unmeasured_sizes: "table_sizes (map unmeasured rs) = table_sizes rs"
  by (simp add: table_sizes_def comp_def unmeasured_fields)

lemma unmeasured_encode_rows:
  "encode_size_rows fmt (map unmeasured rs) sz = encode_size_rows fmt rs sz"
proof -
  have j: "(case map_option unmeasured j of None \<Rightarrow> Inr []
            | Some x \<Rightarrow> ebind (relative_cell fmt (map_option unmeasured opj) x) (\<lambda>relative.
                ebind (metric_cells fmt x) (\<lambda>cells.
                  Inr [\<lparr>row_size = sz, row_impl = ''J2KSwift'',
                        row_cells = cells @ [size_kb_cell fmt x, relative]\<rparr>]))) =
           (case j of None \<Rightarrow> Inr []
            | Some x \<Rightarrow> ebind (relative_cell fmt opj x) (\<lambda>relative.
                ebind (metric_cells fmt x) (\<lambda>cells.
                  Inr [\<lparr>row_size = sz, row_impl = ''J2KSwift'',
                        row_cells = cells @ [size_kb_cell fmt x, relative]\<rparr>])))" for j opj
    by (cases j) (simp_all add: unmeasured_relative unmeasured_cells)
  have p: "(case map_option unmeasured opj of None \<Rightarrow> Inr []
            | Some x \<Rightarrow> ebind (metric_cells fmt x) (\<lambda>cells.
                  Inr [\<lparr>row_size = sz, row_impl = ''OpenJPEG'',
                        row_cells = cells @ [size_kb_cell fmt x, ''100.0%'']\<rparr>])) =
           (case opj of None \<Rightarrow> Inr []
            | Some x \<Rightarrow> ebind (metric_cells fmt x) (\<lambda>cells.
                  Inr [\<lparr>row_size = sz, row_impl = ''OpenJPEG'',
                        row_cells = cells @ [size_kb_cell fmt x, ''100.0%'']\<rparr>]))" for opj
    by (cases opj) (simp_all add: unmeasured_cells)
  show ?thesis
    unfolding encode_size_rows_def Let_def unmeasured_filters unmeasured_next j p ..
qed

lemma unmeasured_decode_rows:
  "decode_size_rows fmt (map unmeasured rs) sz = decode_size_rows fmt rs sz"
proof -
  have j: "(case map_option unmeasured j of None \<Rightarrow> Inr []
            | Some x \<Rightarrow> ebind (relative_cell fmt (map_option unmeasured opj) x) (\<lambda>relative.
                ebind (metric_cells fmt x) (\<lambda>cells.
                  Inr [\<lparr>row_size = sz, row_impl = ''J2KSwift'',
                        row_cells = cells @ [relative]\<rparr>]))) =
           (case j of None \<Rightarrow> Inr []
            | Some x \<Rightarrow> ebind (relative_cell fmt opj x) (\<lambda>relative.
                ebind (metric_cells fmt x) (\<lambda>cells.
                  Inr [\<lparr>row_size = sz, row_impl = ''J2KSwift'',
                        row_cells = cells @ [relative]\<rparr>])))" for j opj
    by (cases j) (simp_all add: unmeasured_relative unmeasured_cells)
  have p: "(case map_option unmeasured opj of None \<Rightarrow> Inr []
            | Some x \<Rightarrow> ebind (metric_cells fmt x) (\<lambda>cells.
                  Inr [\<lparr>row_size = sz, row_impl = ''OpenJPEG'',
                        row_cells = cells @ [''100.0%'']\<rparr>])) =
           (case opj of None \<Rightarrow> Inr []
            | Some x \<Rightarrow> ebind (metric_cells fmt x) (\<lambda>cells.
                  Inr [\<lparr>row_size = sz, row_impl = ''OpenJPEG'',
                        row_cells = cells @ [''100.0%'']\<rparr>]))" for opj
    by (cases opj) (simp_all add: unmeasured_cells)
  show ?thesis
    unfolding decode_size_rows_def Let_def unmeasured_filters unmeasured_next j p ..
qed

lemma unmeasured_emap:
  "emap average (map unmeasured rs) = emap average rs"
  "emap (csv_line fmt) (map unmeasured rs) = emap (csv_line fmt) rs"
  by (induction rs) (simp_all add: unmeasured_metrics unmeasured_cells)

lemma unmeasured_summary:
  "summary_lines fmt (map unmeasured ers) (map unmeasured drs) = summary_lines fmt ers drs"
  unfolding summary_lines_def Let_def unmeasured_filters unmeasured_emap map_is_Nil_conv ..

lemma unmeasured_markdown:
  "generate_markdown_report fmt now (map unmeasured rs) = generate_markdown_report fmt now rs"
proof -
  have e: "encode_size_rows fmt (map unmeasured ers) = encode_size_rows fmt ers" for ers
    by (rule ext) (rule unmeasured_encode_rows)
  have d: "decode_size_rows fmt (map unmeasured drs) = decode_size_rows fmt drs" for drs
    by (rule ext) (rule unmeasured_decode_rows)
  show ?thesis
    unfolding generate_markdown_report_def markdown_lines_def encode_table_def decode_table_def
      unmeasured_filters unmeasured_sizes e d unmeasured_summary ..
qed

lemma unmeasured_csv:
  "generate_csv_report fmt (map unmeasured rs) = generate_csv_report fmt rs"
  unfolding generate_csv_report_def unmeasured_emap ..

lemma metrics_single:
  "run_times r = [t] \<Longrightarrow> average r = Inr t"
  "run_times r = [t] \<Longrightarrow> median r = Inr t"
  "run_times r = [t] \<Longrightarrow> min_time r = Inr t"
  "run_times r = [t] \<Longrightarrow> max_time r = Inr t"
  "run_times r = [t] \<Longrightarrow> std_dev r = Inr 0"
  by (simp_all add: average_def median_def min_time_def max_time_def std_dev_def
      statistics_mean_def statistics_median_def)


text \<open>
  C6. The relative speed \<open>reference.average / candidate.average \<times> 100\<close> of a table row
  is computed whenever both results exist, with no test that the candidate's average is
  positive: for a candidate result without timings, as a document with an empty list of
  runs gives, the division raises and no report is written. The ratio of the summary
  section has the guard.
\<close>

theorem relative_speed_divides_by_zero:
  "results_of_document doc_no_runs = Inr (j2k_empty, None) \<and>
   average j2k_empty = Inr 0 \<and>
   relative_cell fmt_stub (Some opj_enc) j2k_empty = Inl ZeroDivisionError \<and>
   encode_table fmt_stub [j2k_empty, opj_enc] = Inl ZeroDivisionError \<and>
   generate_markdown_report fmt_stub ''now'' [j2k_empty, opj_enc] = Inl ZeroDivisionError \<and>
   collect_results [] (j2k_empty, None) opj_enc opj_dec = Inl ZeroDivisionError \<and>
   speed_ratio (2 / 25) 0 = Inr 0"
proof -
  have fj: "implementation j2k_empty = ''J2KSwift''" "image_size j2k_empty = 256"
      "operation j2k_empty = ''encode''" "run_times j2k_empty = []"
    by (simp_all add: j2k_empty_def BenchmarkResult_init_def)
  have fo: "implementation opj_enc = ''OpenJPEG''" "image_size opj_enc = 256"
      "operation opj_enc = ''encode''" "run_times opj_enc = [2 / 25]"
    by (simp_all add: opj_enc_def BenchmarkResult_init_def)
  have a: "average j2k_empty = Inr 0"
    by (simp add: average_def fj)
  have r: "relative_cell fmt_stub (Some opj_enc) j2k_empty = Inl ZeroDivisionError"
    by (simp add: relative_cell_def a metrics_single [OF fo(4)] ebind_def truediv_def)
  have e: "encode_table fmt_stub [j2k_empty, opj_enc] = Inl ZeroDivisionError"
    by (simp add: encode_table_def of_operation_def table_sizes_def encode_size_rows_def
        by_size_def next_impl_def fj fo r ebind_def)
  have g: "generate_markdown_report fmt_stub ''now'' [j2k_empty, opj_enc] = Inl ZeroDivisionError"
    by (simp add: generate_markdown_report_def markdown_lines_def e ebind_def)
  have c: "collect_results [] (j2k_empty, None) opj_enc opj_dec = Inl ZeroDivisionError"
    by (simp add: collect_results_def a metrics_single [OF fo(4)] ebind_def truediv_def)
  have d: "results_of_document doc_no_runs = Inr (j2k_empty, None)"
    by (simp add: results_of_document_def doc_no_runs_def subscript_def ebind_def
        j2k_empty_def BenchmarkResult_init_def)
  have s: "speed_ratio (2 / 25) 0 = Inr 0"
    by (simp add: speed_ratio_def)
  show ?thesis using d a r e g c s by blast
qed

lemma generate_keeps_existing:
  "fs p = Some b \<Longrightarrow>
   fst (snd (generate_test_images writable rnd dir sizes fs k)) p = Some b"
proof (induction sizes arbitrary: fs k)
  case Nil
  then show ?case by simp
next
  case (Cons sz sizes)
  show ?case
  proof (cases "fs (pgm_path dir sz) = None")
    case True
    then have ne: "p \<noteq> pgm_path dir sz" using Cons.prems by auto
    show ?thesis
    proof (cases "writable (pgm_path dir sz)")
      case w: True
      have "(fs(pgm_path dir sz \<mapsto> c)) p = Some b" for c
        using ne Cons.prems by simp
      then show ?thesis
        using True w Cons.IH by (simp add: Let_def open_write_def)
    next
      case False
      then show ?thesis using True Cons.prems by (simp add: Let_def open_write_def)
    qed
  next
    case False
    then obtain c where "fs (pgm_path dir sz) = Some c" by auto
    then show ?thesis using Cons by (simp add: Let_def)
  qed
qed

lemma generate_all_exist:
  "\<forall>s\<in>set sizes. fs (pgm_path dir s) \<noteq> None \<Longrightarrow>
   generate_test_images writable rnd dir sizes fs k = (Inr (), fs, k)"
  by (induction sizes) (auto simp add: Let_def)

lemma generate_success_exist:
  "generate_test_images writable rnd dir sizes fs k = (Inr (), fs1, k1) \<Longrightarrow>
   \<forall>s\<in>set sizes. fs1 (pgm_path dir s) \<noteq> None"
proof (induction sizes arbitrary: fs k)
  case Nil
  then show ?case by simp
next
  case (Cons sz sizes)
  show ?case
  proof (cases "fs (pgm_path dir sz) = None")
    case True
    show ?thesis
    proof (cases "writable (pgm_path dir sz)")
      case w: True
      let ?fs = "fs(pgm_path dir sz \<mapsto> pgm_header sz @ map rnd [k..<k + nat (sz * sz)])"
      have run: "generate_test_images writable rnd dir sizes ?fs (k + nat (sz * sz)) =
                 (Inr (), fs1, k1)"
        using Cons.prems True w by (simp add: Let_def open_write_def)
      have "fst (snd (generate_test_images writable rnd dir sizes ?fs (k + nat (sz * sz))))
              (pgm_path dir sz) = Some (pgm_header sz @ map rnd [k..<k + nat (sz * sz)])"
        by (rule generate_keeps_existing) simp
      then have "fs1 (pgm_path dir sz) \<noteq> None" using run by simp
      then show ?thesis using Cons.IH [OF run] by simp
    next
      case False
      then show ?thesis using Cons.prems True by (simp add: Let_def open_write_def)
    qed
  next
    case False
    then obtain b where b: "fs (pgm_path dir sz) = Some b" by auto
    have run: "generate_test_images writable rnd dir sizes fs k = (Inr (), fs1, k1)"
      using Cons.prems False by (simp add: Let_def)
    have "fst (snd (generate_test_images writable rnd dir sizes fs k)) (pgm_path dir sz) = Some b"
      using b by (rule generate_keeps_existing)
    then have "fs1 (pgm_path dir sz) \<noteq> None" using run by simp
    then show ?thesis using Cons.IH [OF run] by simp
  qed
qed

lemma create_keeps_existing:
  "fs p = Some b \<Longrightarrow> snd (create_test_images writable dir sizes fs imgs) p = Some b"
proof (induction sizes arbitrary: fs imgs)
  case Nil
  then show ?case by simp
next
  case (Cons sz sizes)
  show ?case
  proof (cases "fs (pgm_path dir sz) = None")
    case True
    then have ne: "p \<noteq> pgm_path dir sz" using Cons.prems by auto
    show ?thesis
    proof (cases "writable (pgm_path dir sz)")
      case w: True
      have "(fs(pgm_path dir sz \<mapsto> c)) p = Some b" for c
        using ne Cons.prems by simp
      then show ?thesis
        using True w Cons.IH by (simp add: Let_def create_test_image_def open_write_def)
    next
      case False
      then show ?thesis
        using True Cons.prems by (simp add: Let_def create_test_image_def open_write_def)
    qed
  next
    case False
    then obtain c where "fs (pgm_path dir sz) = Some c" by auto
    then show ?thesis using Cons by (simp add: Let_def)
  qed
qed

lemma create_all_exist:
  "\<forall>s\<in>set sizes. fs (pgm_path dir s) \<noteq> None \<Longrightarrow>
   create_test_images writable dir sizes fs imgs =
     (Inr (imgs @ map (pgm_path dir) sizes), fs)"
  by (induction sizes arbitrary: imgs) (auto simp add: Let_def)

lemma create_success_exist:
  "create_test_images writable dir sizes fs imgs = (Inr paths, fs1) \<Longrightarrow>
   \<forall>s\<in>set sizes. fs1 (pgm_path dir s) \<noteq> None"
proof (induction sizes arbitrary: fs imgs)
  case Nil
  then show ?case by simp
next
  case (Cons sz sizes)
  show ?case
  proof (cases "fs (pgm_path dir sz) = None")
    case True
    show ?thesis
    proof (cases "writable (pgm_path dir sz)")
      case w: True
      let ?fs = "fs(pgm_path dir sz \<mapsto> pgm_header sz @ gradient sz)"
      have run: "create_test_images writable dir sizes ?fs (imgs @ [pgm_path dir sz]) =
                 (Inr paths, fs1)"
        using Cons.prems True w by (simp add: Let_def create_test_image_def open_write_def)
      have "snd (create_test_images writable dir sizes ?fs (imgs @ [pgm_path dir sz]))
              (pgm_path dir sz) = Some (pgm_header sz @ gradient sz)"
        by (rule create_keeps_existing) simp
      then have "fs1 (pgm_path dir sz) \<noteq> None" using run by simp
      then show ?thesis using Cons.IH [OF run] by simp
    next
      case False
      then show ?thesis
        using Cons.prems True by (simp add: Let_def create_test_image_def open_write_def)
    qed
  next
    case False
    then obtain b where b: "fs (pgm_path dir sz) = Some b" by auto
    have run: "create_test_images writable dir sizes fs (imgs @ [pgm_path dir sz]) =
               (Inr paths, fs1)"
      using Cons.prems b by (simp add: Let_def)
    have "snd (create_test_images writable dir sizes fs (imgs @ [pgm_path dir sz]))
            (pgm_path dir sz) = Some b"
      using b by (rule create_keeps_existing)
    then have "fs1 (pgm_path dir sz) \<noteq> None" using run by simp
    then show ?thesis using Cons.IH [OF run] by simp
  qed
qed

text \<open>
  C8. When the image file of a size exists at its canonical path, generating the corpus does
  not rewrite it: its bytes are unchanged whatever the list of sizes, in both scripts, and
  generating for that size alone leaves the whole file system as it was. A second run after
  a successful one changes no file.
\<close>

theorem corpus_idempotent:
  "(fs (pgm_path dir sz) = Some bytes \<longrightarrow>
      fst (snd (generate_test_images writable rnd dir sizes fs k)) (pgm_path dir sz) =
        Some bytes \<and>
      snd (create_test_images writable dir sizes fs imgs) (pgm_path dir sz) = Some bytes \<and>
      generate_test_images writable rnd dir [sz] fs k = (Inr (), fs, k) \<and>
      create_test_images writable dir [sz] fs imgs = (Inr (imgs @ [pgm_path dir sz]), fs)) \<and>
   (generate_test_images writable rnd dir sizes fs k = (Inr (), fs_a, k_a) \<longrightarrow>
      generate_test_images writable_b rnd_b dir sizes fs_a k_b = (Inr (), fs_a, k_b)) \<and>
   (create_test_images writable dir sizes fs imgs = (Inr paths, fs_c) \<longrightarrow>
      create_test_images writable_b dir sizes fs_c imgs_b =
        (Inr (imgs_b @ map (pgm_path dir) sizes), fs_c))"
proof (intro conjI impI)
  assume b: "fs (pgm_path dir sz) = Some bytes"
  show "fst (snd (generate_test_images writable rnd dir sizes fs k)) (pgm_path dir sz) =
        Some bytes"
    using b by (rule generate_keeps_existing)
  show "snd (create_test_images writable dir sizes fs imgs) (pgm_path dir sz) = Some bytes"
    using b by (rule create_keeps_existing)
  show "generate_test_images writable rnd dir [sz] fs k = (Inr (), fs, k)"
    using b by (simp add: Let_def)
  show "create_test_images writable dir [sz] fs imgs = (Inr (imgs @ [pgm_path dir sz]), fs)"
    using b by (simp add: Let_def)
next
  assume "generate_test_images writable rnd dir sizes fs k = (Inr (), fs_a, k_a)"
  then have "\<forall>s\<in>set sizes. fs_a (pgm_path dir s) \<noteq> None"
    by (rule generate_success_exist)
  then show "generate_test_images writable_b rnd_b dir sizes fs_a k_b = (Inr (), fs_a, k_b)"
    by (rule generate_all_exist)
next
  assume "create_test_images writable dir sizes fs imgs = (Inr paths, fs_c)"
  then have "\<forall>s\<in>set sizes. fs_c (pgm_path dir s) \<noteq> None"
    by (rule create_success_exist)
  then show "create_test_images writable_b dir sizes fs_c imgs_b =
        (Inr (imgs_b @ map (pgm_path dir) sizes), fs_c)"
    by (rule create_all_exist)
qed

theorem corpus_idempotent_witness:
  "fs_old (pgm_path ''imgs'' 2) = Some ''old bytes'' \<and>
   fst (snd (generate_test_images (\<lambda>p. True) (\<lambda>i. CHR ''r'') ''imgs'' [1, 2] fs_old 0))
     (pgm_path ''imgs'' 2) = Some ''old bytes'' \<and>
   snd (create_test_images (\<lambda>p. True) ''imgs'' [1, 2] fs_old []) (pgm_path ''imgs'' 2) =
     Some ''old bytes'' \<and>
   generate_test_images (\<lambda>p. True) (\<lambda>i. CHR ''r'') ''imgs'' [1, 2] fs_old 0 =
     (Inr (), fs_old(pgm_path ''imgs'' 1 \<mapsto> pgm_header 1 @ ''r''), 1) \<and>
   generate_test_images (\<lambda>p. False) (\<lambda>i. CHR ''s'') ''imgs'' [1, 2]
     (fs_old(pgm_path ''imgs'' 1 \<mapsto> pgm_header 1 @ ''r'')) 7 =
     (Inr (), fs_old(pgm_path ''imgs'' 1 \<mapsto> pgm_header 1 @ ''r''), 7) \<and>
   create_test_images (\<lambda>p. True) ''imgs'' [1, 2] fs_old [] =
     (Inr [pgm_path ''imgs'' 1, pgm_path ''imgs'' 2],
      fs_old(pgm_path ''imgs'' 1 \<mapsto> pgm_header 1 @ gradient 1)) \<and>
   create_test_images (\<lambda>p. False) ''imgs'' [1, 2]
     (fs_old(pgm_path ''imgs'' 1 \<mapsto> pgm_header 1 @ gradient 1)) [] =
     (Inr [pgm_path ''imgs'' 1, pgm_path ''imgs'' 2],
      fs_old(pgm_path ''imgs'' 1 \<mapsto> pgm_header 1 @ gradient 1))"
proof -
  have p: "pgm_path ''imgs'' 1 \<noteq> pgm_path ''imgs'' 2"
    by (simp add: pgm_path_def str_int_def str_nat.simps)
  have old: "fs_old (pgm_path ''imgs'' 2) = Some ''old bytes''"
    by (simp add: fs_old_def)
  have new: "fs_old (pgm_path ''imgs'' 1) = None"
    using p by (simp add: fs_old_def)
  have g: "generate_test_images (\<lambda>p. True) (\<lambda>i. CHR ''r'') ''imgs'' [1, 2] fs_old 0 =
     (Inr (), fs_old(pgm_path ''imgs'' 1 \<mapsto> pgm_header 1 @ ''r''), 1)"
    using p old new by (simp add: Let_def open_write_def)
  have c: "create_test_images (\<lambda>p. True) ''imgs'' [1, 2] fs_old [] =
     (Inr [pgm_path ''imgs'' 1, pgm_path ''imgs'' 2],
      fs_old(pgm_path ''imgs'' 1 \<mapsto> pgm_header 1 @ gradient 1))"
    using p old new by (simp add: Let_def create_test_image_def open_write_def)
  note t = corpus_idempotent [where fs = fs_old and dir = "''imgs''" and sz = 2
      and bytes = "''old bytes''" and writable = "\<lambda>p. True" and rnd = "\<lambda>i. CHR ''r''"
      and sizes = "[1, 2]" and k = 0 and imgs = "[]"
      and fs_a = "fs_old(pgm_path ''imgs'' 1 \<mapsto> pgm_header 1 @ ''r'')" and k_a = 1
      and writable_b = "\<lambda>p. False" and rnd_b = "\<lambda>i. CHR ''s''" and k_b = 7
      and paths = "[pgm_path ''imgs'' 1, pgm_path ''imgs'' 2]"
      and fs_c = "fs_old(pgm_path ''imgs'' 1 \<mapsto> pgm_header 1 @ gradient 1)" and imgs_b = "[]"]
  have t1: "fst (snd (generate_test_images (\<lambda>p. True) (\<lambda>i. CHR ''r'') ''imgs'' [1, 2] fs_old 0))
       (pgm_path ''imgs'' 2) = Some ''old bytes'' \<and>
     snd (create_test_images (\<lambda>p. True) ''imgs'' [1, 2] fs_old []) (pgm_path ''imgs'' 2) =
       Some ''old bytes''"
    using t old by blast
  have t2: "generate_test_images (\<lambda>p. False) (\<lambda>i. CHR ''s'') ''imgs'' [1, 2]
     (fs_old(pgm_path ''imgs'' 1 \<mapsto> pgm_header 1 @ ''r'')) 7 =
     (Inr (), fs_old(pgm_path ''imgs'' 1 \<mapsto> pgm_header 1 @ ''r''), 7)"
    using t g by blast
  have t3: "create_test_images (\<lambda>p. False) ''imgs'' [1, 2]
     (fs_old(pgm_path ''imgs'' 1 \<mapsto> pgm_header 1 @ gradient 1)) [] =
     (Inr ([] @ map (pgm_path ''imgs'') [1, 2]),
      fs_old(pgm_path ''imgs'' 1 \<mapsto> pgm_header 1 @ gradient 1))"
    using t c by blast
  have t4: "[] @ map (pgm_path ''imgs'') [1, 2] = [pgm_path ''imgs'' 1, pgm_path ''imgs'' 2]"
    by simp
  show ?thesis
    using old t1 t2 t3 [unfolded t4] g c by blast
qed

lemma profile_entry_fields:
  "pixels (profile_entry sz avg) = sz * sz"
  "avg_time_ms (profile_entry sz avg) = avg"
  by (simp_all add: profile_entry_def)

lemma scalability_analysis_short:
  "length rs < 2 \<Longrightarrow> scalability_analysis rs = Inr None"
  by (simp add: scalability_analysis_def)

lemma scalability_analysis_first_last:
  assumes "length rs \<ge> 2" "rs ! 0 = Some f" "last rs = Some l"
    "pixels f \<noteq> 0" "pixels l \<noteq> 0" "avg_time_ms f \<noteq> 0"
  shows "scalability_analysis rs =
     Inr (Some \<lparr>pixel_ratio = real_of_int (pixels l) / real_of_int (pixels f),
                time_ratio = avg_time_ms l / avg_time_ms f,
                scaling_factor = (avg_time_ms l / avg_time_ms f) /
                  (real_of_int (pixels l) / real_of_int (pixels f))\<rparr>)"
proof -
  have ne: "rs \<noteq> []" using assms(1) by auto
  show ?thesis
    using assms ne
    by (simp add: scalability_analysis_def Let_def item_def ebind_def truediv_def)
qed

lemma classify_bands:
  "(classify sf = SuperLinear \<longleftrightarrow> sf < 9 / 10) \<and>
   (classify sf = Linear \<longleftrightarrow> 9 / 10 \<le> sf \<and> sf < 11 / 10) \<and>
   (classify sf = SubLinear \<longleftrightarrow> 11 / 10 \<le> sf \<and> sf < 3 / 2) \<and>
   (classify sf = Poor \<longleftrightarrow> 3 / 2 \<le> sf)"
  by (auto simp add: classify_def)

text \<open>
  C7, as the code has it. The scalability analysis takes the first and the last entry of the
  profiled results in the order in which the sizes were given. When there are two or more
  entries, the first and the last entry are not empty, their pixel counts are not 0 and the
  average time of the first is not 0, it computes \<open>pixel_ratio\<close>, \<open>time_ratio\<close> and
  \<open>scaling_factor = time_ratio / pixel_ratio\<close> from them and puts the factor into exactly
  one of four bands: below 0.9 super-linear, from 0.9 below 1.1 linear, from 1.1 below 1.5
  sub-linear with overhead, from 1.5 poor. With fewer than two entries it is skipped and
  nothing is raised.
\<close>

theorem scalability_first_last:
  "(length rs < 2 \<longrightarrow> scalability_analysis rs = Inr None \<and> scalability_lines fmt rs = Inr []) \<and>
   (length rs \<ge> 2 \<and> rs ! 0 = Some f \<and> last rs = Some l \<and>
    pixels f \<noteq> 0 \<and> pixels l \<noteq> 0 \<and> avg_time_ms f \<noteq> 0 \<longrightarrow>
      (\<exists>sc. scalability_analysis rs = Inr (Some sc) \<and>
         pixel_ratio sc = real_of_int (pixels l) / real_of_int (pixels f) \<and>
         time_ratio sc = avg_time_ms l / avg_time_ms f \<and>
         scaling_factor sc = time_ratio sc / pixel_ratio sc \<and>
         scalability_lines fmt rs =
           Inr [''### Scalability Analysis'',
                ''- Pixel count increase: '' @ fmt 2 (pixel_ratio sc) @ ''x'',
                ''- Time increase: '' @ fmt 2 (time_ratio sc) @ ''x'',
                ''- Scaling factor: '' @ fmt 2 (scaling_factor sc) @
                  '' (1.0 = perfect linear scaling)'',
                [],
                band_line (classify (scaling_factor sc)),
                []])) \<and>
   (classify sf = SuperLinear \<longleftrightarrow> sf < 9 / 10) \<and>
   (classify sf = Linear \<longleftrightarrow> 9 / 10 \<le> sf \<and> sf < 11 / 10) \<and>
   (classify sf = SubLinear \<longleftrightarrow> 11 / 10 \<le> sf \<and> sf < 3 / 2) \<and>
   (classify sf = Poor \<longleftrightarrow> 3 / 2 \<le> sf)"
proof -
  have a: "length rs < 2 \<longrightarrow>
      scalability_analysis rs = Inr None \<and> scalability_lines fmt rs = Inr []"
    by (simp add: scalability_lines_def scalability_analysis_short ebind_def)
  have b: "length rs \<ge> 2 \<and> rs ! 0 = Some f \<and> last rs = Some l \<and>
    pixels f \<noteq> 0 \<and> pixels l \<noteq> 0 \<and> avg_time_ms f \<noteq> 0 \<longrightarrow>
      (\<exists>sc. scalability_analysis rs = Inr (Some sc) \<and>
         pixel_ratio sc = real_of_int (pixels l) / real_of_int (pixels f) \<and>
         time_ratio sc = avg_time_ms l / avg_time_ms f \<and>
         scaling_factor sc = time_ratio sc / pixel_ratio sc \<and>
         scalability_lines fmt rs =
           Inr [''### Scalability Analysis'',
                ''- Pixel count increase: '' @ fmt 2 (pixel_ratio sc) @ ''x'',
                ''- Time increase: '' @ fmt 2 (time_ratio sc) @ ''x'',
                ''- Scaling factor: '' @ fmt 2 (scaling_factor sc) @
                  '' (1.0 = perfect linear scaling)'',
                [],
                band_line (classify (scaling_factor sc)),
                []])"
  proof
    assume h: "length rs \<ge> 2 \<and> rs ! 0 = Some f \<and> last rs = Some l \<and>
      pixels f \<noteq> 0 \<and> pixels l \<noteq> 0 \<and> avg_time_ms f \<noteq> 0"
    let ?sc = "\<lparr>pixel_ratio = real_of_int (pixels l) / real_of_int (pixels f),
                time_ratio = avg_time_ms l / avg_time_ms f,
                scaling_factor = (avg_time_ms l / avg_time_ms f) /
                  (real_of_int (pixels l) / real_of_int (pixels f))\<rparr>"
    have s: "scalability_analysis rs = Inr (Some ?sc)"
      using h scalability_analysis_first_last by blast
    show "\<exists>sc. scalability_analysis rs = Inr (Some sc) \<and>
         pixel_ratio sc = real_of_int (pixels l) / real_of_int (pixels f) \<and>
         time_ratio sc = avg_time_ms l / avg_time_ms f \<and>
         scaling_factor sc = time_ratio sc / pixel_ratio sc \<and>
         scalability_lines fmt rs =
           Inr [''### Scalability Analysis'',
                ''- Pixel count increase: '' @ fmt 2 (pixel_ratio sc) @ ''x'',
                ''- Time increase: '' @ fmt 2 (time_ratio sc) @ ''x'',
                ''- Scaling factor: '' @ fmt 2 (scaling_factor sc) @
                  '' (1.0 = perfect linear scaling)'',
                [],
                band_line (classify (scaling_factor sc)),
                []]"
      by (rule exI [of _ ?sc]) (simp add: s scalability_lines_def ebind_def)
  qed
  show ?thesis using a b classify_bands [of sf] by blast
qed

theorem scalability_first_last_witness:
  "length [Some (profile_entry 256 100)] < 2 \<and>
   scalability_analysis [Some (profile_entry 256 100)] = Inr None \<and>
   scalability_lines fmt_stub [Some (profile_entry 256 100)] = Inr [] \<and>
   2 \<le> length [Some (profile_entry 256 100), Some (profile_entry 512 440)] \<and>
   pixels (profile_entry 256 100) \<noteq> 0 \<and> pixels (profile_entry 512 440) \<noteq> 0 \<and>
   avg_time_ms (profile_entry 256 100) \<noteq> 0 \<and>
   scalability_analysis [Some (profile_entry 256 100), Some (profile_entry 512 440)] =
     Inr (Some \<lparr>pixel_ratio = 4, time_ratio = 22 / 5, scaling_factor = 11 / 10\<rparr>) \<and>
   classify (11 / 10) = SubLinear \<and>
   scalability_lines fmt_stub [Some (profile_entry 256 100), Some (profile_entry 512 440)] =
     Inr [''### Scalability Analysis'', ''- Pixel count increase: #x'',
          ''- Time increase: #x'', ''- Scaling factor: # (1.0 = perfect linear scaling)'',
          [], band_line SubLinear, []]"
proof -
  have g: "scalability_analysis [Some (profile_entry 256 100), Some (profile_entry 512 440)] =
     Inr (Some \<lparr>pixel_ratio = 4, time_ratio = 22 / 5, scaling_factor = 11 / 10\<rparr>)"
    by (simp add: scalability_analysis_def Let_def item_def ebind_def truediv_def
        profile_entry_fields)
  have c: "classify (11 / 10) = SubLinear"
    by (simp add: classify_def)
  have p: "pixels (profile_entry 256 100) \<noteq> 0" "pixels (profile_entry 512 440) \<noteq> 0"
      "avg_time_ms (profile_entry 256 100) \<noteq> 0"
    by (simp_all add: profile_entry_fields)
  note t1 = scalability_first_last [where rs = "[Some (profile_entry 256 100)]"
      and fmt = fmt_stub]
  note t2 = scalability_first_last [where
      rs = "[Some (profile_entry 256 100), Some (profile_entry 512 440)]"
      and f = "profile_entry 256 100" and l = "profile_entry 512 440" and fmt = fmt_stub]
  have s: "scalability_analysis [Some (profile_entry 256 100)] = Inr None \<and>
     scalability_lines fmt_stub [Some (profile_entry 256 100)] = Inr []"
    using t1 by simp
  have "2 \<le> length [Some (profile_entry 256 100), Some (profile_entry 512 440)] \<and>
      [Some (profile_entry 256 100), Some (profile_entry 512 440)] ! 0 =
        Some (profile_entry 256 100) \<and>
      last [Some (profile_entry 256 100), Some (profile_entry 512 440)] =
        Some (profile_entry 512 440) \<and>
      pixels (profile_entry 256 100) \<noteq> 0 \<and> pixels (profile_entry 512 440) \<noteq> 0 \<and>
      avg_time_ms (profile_entry 256 100) \<noteq> 0"
    using p by simp
  with t2 obtain sc where sc:
    "scalability_analysis [Some (profile_entry 256 100), Some (profile_entry 512 440)] =
       Inr (Some sc)"
    "scalability_lines fmt_stub [Some (profile_entry 256 100), Some (profile_entry 512 440)] =
           Inr [''### Scalability Analysis'',
                ''- Pixel count increase: '' @ fmt_stub 2 (pixel_ratio sc) @ ''x'',
                ''- Time increase: '' @ fmt_stub 2 (time_ratio sc) @ ''x'',
                ''- Scaling factor: '' @ fmt_stub 2 (scaling_factor sc) @
                  '' (1.0 = perfect linear scaling)'',
                [],
                band_line (classify (scaling_factor sc)),
                []]"
    by blast
  from sc(1) g have "sc = \<lparr>pixel_ratio = 4, time_ratio = 22 / 5, scaling_factor = 11 / 10\<rparr>"
    by simp
  then have l: "scalability_lines fmt_stub
       [Some (profile_entry 256 100), Some (profile_entry 512 440)] =
     Inr [''### Scalability Analysis'', ''- Pixel count increase: #x'',
          ''- Time increase: #x'', ''- Scaling factor: # (1.0 = perfect linear scaling)'',
          [], band_line SubLinear, []]"
    using sc(2) c by (simp add: fmt_stub_def)
  show ?thesis
    using s g c p l by simp
qed

text \<open>
  The analysis takes the entries in the order given, not by size: for the sizes 1024 and
  256 in this order the code finds a scaling factor of 4, the poor band, where the
  smallest and largest size give 1/4, the super-linear band. Two entries of one size are
  analysed too.
\<close>

theorem scalability_order_counterexample:
  "scalability_analysis [Some (profile_entry 1024 400), Some (profile_entry 256 100)] \<noteq>
     Inr (Some (spec_scalability [profile_entry 1024 400, profile_entry 256 100])) \<and>
   scalability_analysis [Some (profile_entry 1024 400), Some (profile_entry 256 100)] =
     Inr (Some \<lparr>pixel_ratio = 1 / 16, time_ratio = 1 / 4, scaling_factor = 4\<rparr>) \<and>
   spec_scalability [profile_entry 1024 400, profile_entry 256 100] =
     \<lparr>pixel_ratio = 16, time_ratio = 4, scaling_factor = 1 / 4\<rparr> \<and>
   classify 4 = Poor \<and> classify (1 / 4) = SuperLinear \<and>
   scalability_analysis [Some (profile_entry 256 100), Some (profile_entry 256 120)] =
     Inr (Some \<lparr>pixel_ratio = 1, time_ratio = 6 / 5, scaling_factor = 6 / 5\<rparr>)"
proof -
  have a: "scalability_analysis [Some (profile_entry 1024 400), Some (profile_entry 256 100)] =
     Inr (Some \<lparr>pixel_ratio = 1 / 16, time_ratio = 1 / 4, scaling_factor = 4\<rparr>)"
    by (simp add: scalability_analysis_def Let_def item_def ebind_def truediv_def
        profile_entry_fields)
  have b: "spec_scalability [profile_entry 1024 400, profile_entry 256 100] =
     \<lparr>pixel_ratio = 16, time_ratio = 4, scaling_factor = 1 / 4\<rparr>"
    by (simp add: spec_scalability_def Let_def profile_entry_fields)
  have c: "classify 4 = Poor" "classify (1 / 4) = SuperLinear"
    by (simp_all add: classify_def)
  have d: "scalability_analysis [Some (profile_entry 256 100), Some (profile_entry 256 120)] =
     Inr (Some \<lparr>pixel_ratio = 1, time_ratio = 6 / 5, scaling_factor = 6 / 5\<rparr>)"
    by (simp add: scalability_analysis_def Let_def item_def ebind_def truediv_def
        profile_entry_fields)
  have e: "scalability_analysis [Some (profile_entry 1024 400), Some (profile_entry 256 100)] \<noteq>
     Inr (Some (spec_scalability [profile_entry 1024 400, profile_entry 256 100]))"
    unfolding a b by simp
  show ?thesis using a b c d e by blast
qed

lemma ebind_Inr: "ebind m f = Inr y \<longleftrightarrow> (\<exists>x. m = Inr x \<and> f x = Inr y)"
  by (cases m) (simp_all add: ebind_def)

lemma ebind_Inr_simp: "ebind (Inr x) f = f x"
  by (simp add: ebind_def)

lemma sort_Nil_iff: "sort xs = [] \<longleftrightarrow> xs = []"
  by (metis length_0_conv length_sort)

lemma statistics_median_total:
  assumes "xs \<noteq> []"
  shows "\<exists>a. statistics_median xs = Inr a"
proof (cases "length xs mod 2 = 1")
  case True
  then have "statistics_median xs = Inr (sort xs ! (length xs div 2))"
    using assms by (simp add: statistics_median_def Let_def sort_Nil_iff)
  then show ?thesis by blast
next
  case False
  then have "statistics_median xs =
      Inr ((sort xs ! (length xs div 2 - 1) + sort xs ! (length xs div 2)) / 2)"
    using assms by (simp add: statistics_median_def Let_def sort_Nil_iff)
  then show ?thesis by blast
qed

lemma median_total: "\<exists>a. median r = Inr a"
  using statistics_median_total [of "run_times r"] by (simp add: median_def)

lemma min_time_total: "\<exists>a. min_time r = Inr a"
  by (cases "run_times r") (simp_all add: min_time_def)

lemma max_time_total: "\<exists>a. max_time r = Inr a"
  by (cases "run_times r") (simp_all add: max_time_def)

lemma metric_cells_total: "\<exists>cells. metric_cells fmt r = Inr cells \<and> length cells = 5"
proof -
  obtain a m lo hi t where
    "average r = Inr a" "median r = Inr m" "min_time r = Inr lo" "max_time r = Inr hi"
    "throughput r = Inr t"
    using average_total median_total min_time_total max_time_total throughput_total by metis
  then show ?thesis by (simp add: metric_cells_def ebind_def)
qed

lemma metric_cells_length: "metric_cells fmt r = Inr cells \<Longrightarrow> length cells = 5"
  using metric_cells_total [of fmt r] by auto

lemma relative_cell_column:
  "relative_cell fmt opj j = Inr c \<Longrightarrow> relative_column fmt c"
  by (cases opj) (auto simp add: relative_cell_def relative_column_def ebind_Inr)

lemma encode_size_rows_shape:
  assumes "encode_size_rows fmt ers sz = Inr rows"
  shows "sorted_wrt row_before rows \<and>
         (\<forall>r\<in>set rows. row_size r = sz \<and> length (row_cells r) = 7 \<and>
            relative_column fmt (last (row_cells r)))"
proof -
  obtain rows1 rows2 where
    r1: "(case next_impl ''J2KSwift'' (by_size ers sz) of
            None \<Rightarrow> Inr []
          | Some j \<Rightarrow>
              ebind (relative_cell fmt (next_impl ''OpenJPEG'' (by_size ers sz)) j) (\<lambda>relative.
              ebind (metric_cells fmt j) (\<lambda>cells.
                Inr [\<lparr>row_size = sz, row_impl = ''J2KSwift'',
                      row_cells = cells @ [size_kb_cell fmt j, relative]\<rparr>]))) = Inr rows1"
    and r2: "(case next_impl ''OpenJPEG'' (by_size ers sz) of
            None \<Rightarrow> Inr []
          | Some opj \<Rightarrow>
              ebind (metric_cells fmt opj) (\<lambda>cells.
                Inr [\<lparr>row_size = sz, row_impl = ''OpenJPEG'',
                      row_cells = cells @ [size_kb_cell fmt opj, ''100.0%'']\<rparr>])) = Inr rows2"
    and rows: "rows = rows1 @ rows2"
    using assms unfolding encode_size_rows_def Let_def ebind_Inr by auto
  have s1: "rows1 = [] \<or> (\<exists>cells c. rows1 = [\<lparr>row_size = sz, row_impl = ''J2KSwift'',
              row_cells = cells\<rparr>] \<and> length cells = 7 \<and> relative_column fmt (last cells))"
    using r1
    by (auto simp add: ebind_Inr split: option.splits
        dest: metric_cells_length relative_cell_column)
  have s2: "rows2 = [] \<or> (\<exists>cells. rows2 = [\<lparr>row_size = sz, row_impl = ''OpenJPEG'',
              row_cells = cells\<rparr>] \<and> length cells = 7 \<and> relative_column fmt (last cells))"
    using r2
    by (auto simp add: ebind_Inr relative_column_def split: option.splits
        dest: metric_cells_length)
  show ?thesis
    using s1 s2 unfolding rows by (auto simp add: row_before_def)
qed

lemma decode_size_rows_shape:
  assumes "decode_size_rows fmt drs sz = Inr rows"
  shows "sorted_wrt row_before rows \<and>
         (\<forall>r\<in>set rows. row_size r = sz \<and> length (row_cells r) = 6 \<and>
            relative_column fmt (last (row_cells r)))"
proof -
  obtain rows1 rows2 where
    r1: "(case next_impl ''J2KSwift'' (by_size drs sz) of
            None \<Rightarrow> Inr []
          | Some j \<Rightarrow>
              ebind (relative_cell fmt (next_impl ''OpenJPEG'' (by_size drs sz)) j) (\<lambda>relative.
              ebind (metric_cells fmt j) (\<lambda>cells.
                Inr [\<lparr>row_size = sz, row_impl = ''J2KSwift'',
                      row_cells = cells @ [relative]\<rparr>]))) = Inr rows1"
    and r2: "(case next_impl ''OpenJPEG'' (by_size drs sz) of
            None \<Rightarrow> Inr []
          | Some opj \<Rightarrow>
              ebind (metric_cells fmt opj) (\<lambda>cells.
                Inr [\<lparr>row_size = sz, row_impl = ''OpenJPEG'',
                      row_cells = cells @ [''100.0%'']\<rparr>])) = Inr rows2"
    and rows: "rows = rows1 @ rows2"
    using assms unfolding decode_size_rows_def Let_def ebind_Inr by auto
  have s1: "rows1 = [] \<or> (\<exists>cells c. rows1 = [\<lparr>row_size = sz, row_impl = ''J2KSwift'',
              row_cells = cells\<rparr>] \<and> length cells = 6 \<and> relative_column fmt (last cells))"
    using r1
    by (auto simp add: ebind_Inr split: option.splits
        dest: metric_cells_length relative_cell_column)
  have s2: "rows2 = [] \<or> (\<exists>cells. rows2 = [\<lparr>row_size = sz, row_impl = ''OpenJPEG'',
              row_cells = cells\<rparr>] \<and> length cells = 6 \<and> relative_column fmt (last cells))"
    using r2
    by (auto simp add: ebind_Inr relative_column_def split: option.splits
        dest: metric_cells_length)
  show ?thesis
    using s1 s2 unfolding rows by (auto simp add: row_before_def)
qed

lemma table_rows_sorted:
  assumes "sorted_wrt (<) sizes"
    and "\<And>sz rows. body sz = Inr rows \<Longrightarrow>
           sorted_wrt row_before rows \<and> (\<forall>r\<in>set rows. row_size r = sz \<and> P r)"
    and "table_rows body sizes = Inr rows"
  shows "sorted_wrt row_before rows \<and> (\<forall>r\<in>set rows. row_size r \<in> set sizes \<and> P r)"
  using assms(1,3)
proof (induction sizes arbitrary: rows)
  case Nil
  then show ?case by simp
next
  case (Cons s ss)
  from Cons.prems(2) obtain r1 r2 where
    b: "body s = Inr r1" and t: "table_rows body ss = Inr r2" and rows: "rows = r1 @ r2"
    by (auto simp add: ebind_Inr)
  have ih: "sorted_wrt row_before r2 \<and> (\<forall>r\<in>set r2. row_size r \<in> set ss \<and> P r)"
    using Cons.IH [OF _ t] Cons.prems(1) by simp
  have h: "sorted_wrt row_before r1 \<and> (\<forall>r\<in>set r1. row_size r = s \<and> P r)"
    using assms(2) [OF b] .
  have lt: "\<forall>x\<in>set r1. \<forall>y\<in>set r2. row_before x y"
    using h ih Cons.prems(1) by (auto simp add: row_before_def)
  show ?case
    unfolding rows using h ih lt by (auto simp add: sorted_wrt_append)
qed

lemma table_sizes_sorted: "sorted_wrt (<) (table_sizes rs)"
  by (simp add: table_sizes_def strict_sorted_iff)

lemma relative_cell_total:
  assumes "average j \<noteq> Inr 0"
  shows "\<exists>c. relative_cell fmt opj j = Inr c"
proof (cases opj)
  case None
  then show ?thesis by (simp add: relative_cell_def)
next
  case (Some p)
  obtain a b where a: "average p = Inr a" and b: "average j = Inr b"
    using average_total by metis
  have "b \<noteq> 0" using assms b by simp
  then show ?thesis
    using Some a b by (simp add: relative_cell_def ebind_def truediv_def)
qed

lemma next_impl_Some:
  "next_impl impl rs = Some r \<Longrightarrow> r \<in> set rs \<and> implementation r = impl"
  by (auto simp add: next_impl_def find_Some_iff)

lemma encode_size_rows_total:
  assumes "\<forall>r\<in>set ers. implementation r = ''J2KSwift'' \<longrightarrow> average r \<noteq> Inr 0"
  shows "\<exists>rows. encode_size_rows fmt ers sz = Inr rows"
proof -
  have j: "\<exists>rows. (case next_impl ''J2KSwift'' (by_size ers sz) of
            None \<Rightarrow> Inr []
          | Some j \<Rightarrow>
              ebind (relative_cell fmt (next_impl ''OpenJPEG'' (by_size ers sz)) j) (\<lambda>relative.
              ebind (metric_cells fmt j) (\<lambda>cells.
                Inr [\<lparr>row_size = sz, row_impl = ''J2KSwift'',
                      row_cells = cells @ [size_kb_cell fmt j, relative]\<rparr>]))) = Inr rows"
  proof (cases "next_impl ''J2KSwift'' (by_size ers sz)")
    case None
    then show ?thesis by simp
  next
    case (Some j)
    then have "j \<in> set ers \<and> implementation j = ''J2KSwift''"
      using next_impl_Some [OF Some] by (simp add: by_size_def)
    then have "average j \<noteq> Inr 0" using assms by blast
    then obtain c where c: "relative_cell fmt (next_impl ''OpenJPEG'' (by_size ers sz)) j = Inr c"
      using relative_cell_total by blast
    obtain cells where "metric_cells fmt j = Inr cells"
      using metric_cells_total by blast
    then show ?thesis using Some c by (simp add: ebind_def)
  qed
  have p: "\<exists>rows. (case next_impl ''OpenJPEG'' (by_size ers sz) of
            None \<Rightarrow> Inr []
          | Some opj \<Rightarrow>
              ebind (metric_cells fmt opj) (\<lambda>cells.
                Inr [\<lparr>row_size = sz, row_impl = ''OpenJPEG'',
                      row_cells = cells @ [size_kb_cell fmt opj, ''100.0%'']\<rparr>])) = Inr rows"
  proof (cases "next_impl ''OpenJPEG'' (by_size ers sz)")
    case None
    then show ?thesis by simp
  next
    case (Some p)
    obtain cells where "metric_cells fmt p = Inr cells"
      using metric_cells_total by blast
    then show ?thesis using Some by (simp add: ebind_def)
  qed
  from j p show ?thesis
    unfolding encode_size_rows_def Let_def by (auto simp add: ebind_def)
qed

lemma decode_size_rows_total:
  assumes "\<forall>r\<in>set drs. implementation r = ''J2KSwift'' \<longrightarrow> average r \<noteq> Inr 0"
  shows "\<exists>rows. decode_size_rows fmt drs sz = Inr rows"
proof -
  have j: "\<exists>rows. (case next_impl ''J2KSwift'' (by_size drs sz) of
            None \<Rightarrow> Inr []
          | Some j \<Rightarrow>
              ebind (relative_cell fmt (next_impl ''OpenJPEG'' (by_size drs sz)) j) (\<lambda>relative.
              ebind (metric_cells fmt j) (\<lambda>cells.
                Inr [\<lparr>row_size = sz, row_impl = ''J2KSwift'',
                      row_cells = cells @ [relative]\<rparr>]))) = Inr rows"
  proof (cases "next_impl ''J2KSwift'' (by_size drs sz)")
    case None
    then show ?thesis by simp
  next
    case (Some j)
    then have "j \<in> set drs \<and> implementation j = ''J2KSwift''"
      using next_impl_Some [OF Some] by (simp add: by_size_def)
    then have "average j \<noteq> Inr 0" using assms by blast
    then obtain c where c: "relative_cell fmt (next_impl ''OpenJPEG'' (by_size drs sz)) j = Inr c"
      using relative_cell_total by blast
    obtain cells where "metric_cells fmt j = Inr cells"
      using metric_cells_total by blast
    then show ?thesis using Some c by (simp add: ebind_def)
  qed
  have p: "\<exists>rows. (case next_impl ''OpenJPEG'' (by_size drs sz) of
            None \<Rightarrow> Inr []
          | Some opj \<Rightarrow>
              ebind (metric_cells fmt opj) (\<lambda>cells.
                Inr [\<lparr>row_size = sz, row_impl = ''OpenJPEG'',
                      row_cells = cells @ [''100.0%'']\<rparr>])) = Inr rows"
  proof (cases "next_impl ''OpenJPEG'' (by_size drs sz)")
    case None
    then show ?thesis by simp
  next
    case (Some p)
    obtain cells where "metric_cells fmt p = Inr cells"
      using metric_cells_total by blast
    then show ?thesis using Some by (simp add: ebind_def)
  qed
  from j p show ?thesis
    unfolding decode_size_rows_def Let_def by (auto simp add: ebind_def)
qed

lemma table_rows_total:
  assumes "\<And>sz. \<exists>rows. body sz = Inr rows"
  shows "\<exists>rows. table_rows body sizes = Inr rows"
proof (induction sizes)
  case Nil
  then show ?case by simp
next
  case (Cons s ss)
  obtain r1 where "body s = Inr r1" using assms by blast
  moreover obtain r2 where "table_rows body ss = Inr r2" using Cons by blast
  ultimately show ?case by (simp add: ebind_def)
qed

lemma emap_average_total: "\<exists>xs. emap average rs = Inr xs \<and> length xs = length rs"
proof (induction rs)
  case Nil
  then show ?case by simp
next
  case (Cons r rs)
  obtain a where "average r = Inr a" using average_total by blast
  moreover obtain xs where "emap average rs = Inr xs \<and> length xs = length rs"
    using Cons by blast
  ultimately show ?case by (simp add: ebind_def)
qed

lemma mean_averages_total:
  assumes "rs \<noteq> []"
  shows "\<exists>m. ebind (emap average rs) statistics_mean = Inr m"
proof -
  obtain xs where xs: "emap average rs = Inr xs" "length xs = length rs"
    using emap_average_total by blast
  then have "xs \<noteq> []" using assms by auto
  then show ?thesis using xs by (simp add: ebind_def statistics_mean_def)
qed

lemma speed_ratio_total: "\<exists>q. speed_ratio a b = Inr q"
  by (simp add: speed_ratio_def ebind_def truediv_def)

lemma encode_table_order:
  assumes "encode_table fmt results = Inr enc"
  shows "sorted_wrt row_before enc \<and>
         (\<forall>r\<in>set enc. length (row_cells r) = 7 \<and> relative_column fmt (last (row_cells r)))"
proof -
  have "sorted_wrt row_before enc \<and>
        (\<forall>r\<in>set enc. row_size r \<in> set (table_sizes (of_operation ''encode'' results)) \<and>
           (length (row_cells r) = 7 \<and> relative_column fmt (last (row_cells r))))"
    using table_sizes_sorted encode_size_rows_shape
      assms [unfolded encode_table_def]
    by (rule table_rows_sorted)
  then show ?thesis by blast
qed

lemma decode_table_order:
  assumes "decode_table fmt results = Inr dec"
  shows "sorted_wrt row_before dec \<and>
         (\<forall>r\<in>set dec. length (row_cells r) = 6 \<and> relative_column fmt (last (row_cells r)))"
proof -
  have "sorted_wrt row_before dec \<and>
        (\<forall>r\<in>set dec. row_size r \<in> set (table_sizes (of_operation ''encode'' results)) \<and>
           (length (row_cells r) = 6 \<and> relative_column fmt (last (row_cells r))))"
    using table_sizes_sorted decode_size_rows_shape
      assms [unfolded decode_table_def]
    by (rule table_rows_sorted)
  then show ?thesis by blast
qed

lemma markdown_lines_Inr:
  assumes "markdown_lines fmt now results = Inr lines"
  shows "\<exists>enc dec summary.
           encode_table fmt results = Inr enc \<and> decode_table fmt results = Inr dec \<and>
           summary_lines fmt (of_operation ''encode'' results)
             (of_operation ''decode'' results) = Inr summary \<and>
           lines = title_lines now @ encode_header @ map render_md_row enc @ [[]] @
                   decode_header @ map render_md_row dec @ [[]] @
                   [''## Summary'', []] @ summary"
  using assms unfolding markdown_lines_def ebind_Inr by auto

lemma timed_fields:
  "implementation (timed impl sz opn t) = impl"
  "image_size (timed impl sz opn t) = sz"
  "operation (timed impl sz opn t) = opn"
  "run_times (timed impl sz opn t) = [t]"
  "compressed_size (timed impl sz opn t) = None"
  "average (timed impl sz opn t) = Inr t"
  by (simp_all add: timed_def BenchmarkResult_init_def average_def statistics_mean_def)

lemma metric_cells_stub: "metric_cells fmt_stub r = Inr [''#'', ''#'', ''#'', ''#'', ''#'']"
proof -
  obtain a m lo hi t where
    "average r = Inr a" "median r = Inr m" "min_time r = Inr lo" "max_time r = Inr hi"
    "throughput r = Inr t"
    using average_total median_total min_time_total max_time_total throughput_total by metis
  then show ?thesis by (simp add: metric_cells_def ebind_def fmt_stub_def)
qed

lemma relative_cell_stub:
  "t \<noteq> 0 \<Longrightarrow>
   relative_cell fmt_stub (Some (timed impl2 sz2 opn2 t2)) (timed impl sz opn t) = Inr ''#%''"
  by (simp add: relative_cell_def timed_fields ebind_def truediv_def fmt_stub_def)

lemma relative_cell_none: "relative_cell fmt None j = Inr ''N/A''"
  by (simp add: relative_cell_def)

lemma size_kb_cell_timed: "size_kb_cell fmt (timed impl sz opn t) = ''N/A''"
  by (simp add: size_kb_cell_def timed_fields)

lemma results_unordered_encode_table:
  "encode_table fmt_stub results_unordered = Inr enc_rows_expected"
  by (simp add: encode_table_def results_unordered_def of_operation_def table_sizes_def
      encode_size_rows_def by_size_def next_impl_def timed_fields metric_cells_stub
      relative_cell_stub size_kb_cell_timed ebind_Inr_simp enc_rows_expected_def stub_row_def)

lemma results_unordered_decode_table:
  "decode_table fmt_stub results_unordered = Inr dec_rows_expected"
  by (simp add: decode_table_def results_unordered_def of_operation_def table_sizes_def
      decode_size_rows_def by_size_def next_impl_def timed_fields metric_cells_stub
      relative_cell_stub ebind_Inr_simp dec_rows_expected_def stub_row_def)

lemma results_unordered_summary:
  "summary_lines fmt_stub (of_operation ''encode'' results_unordered)
     (of_operation ''decode'' results_unordered) =
   Inr [''- **Encoding**: J2KSwift is #% of OpenJPEG speed'', target_line, status_line 100, [],
        ''- **Decoding**: J2KSwift is #% of OpenJPEG speed'', target_line, status_line 50, []]"
  by (simp add: summary_lines_def results_unordered_def of_operation_def of_impl_def
      timed_fields ebind_Inr_simp statistics_mean_def speed_ratio_def truediv_def fmt_stub_def)


lemma table_rows_body:
  "table_rows body sizes = Inr rows \<Longrightarrow> s \<in> set sizes \<Longrightarrow>
   \<exists>rs. body s = Inr rs \<and> set rs \<subseteq> set rows"
proof (induction sizes arbitrary: rows)
  case Nil
  then show ?case by simp
next
  case (Cons a sizes)
  from Cons.prems(1) obtain r1 r2 where
    b: "body a = Inr r1" and t: "table_rows body sizes = Inr r2" and rows: "rows = r1 @ r2"
    by (auto simp add: ebind_Inr)
  show ?case
  proof (cases "s = a")
    case True
    then show ?thesis using b rows by auto
  next
    case False
    then have "s \<in> set sizes" using Cons.prems(2) by simp
    from Cons.IH [OF t this] show ?thesis using rows by auto
  qed
qed

lemma table_rows_origin:
  "table_rows body sizes = Inr rows \<Longrightarrow> row \<in> set rows \<Longrightarrow>
   \<exists>s\<in>set sizes. \<exists>rs. body s = Inr rs \<and> row \<in> set rs"
proof (induction sizes arbitrary: rows)
  case Nil
  then show ?case by simp
next
  case (Cons a sizes)
  from Cons.prems(1) obtain r1 r2 where
    b: "body a = Inr r1" and t: "table_rows body sizes = Inr r2" and rows: "rows = r1 @ r2"
    by (auto simp add: ebind_Inr)
  show ?case
  proof (cases "row \<in> set r1")
    case True
    then show ?thesis using b by auto
  next
    case False
    then have "row \<in> set r2" using Cons.prems(2) rows by simp
    from Cons.IH [OF t this] show ?thesis by auto
  qed
qed

lemma next_impl_None: "next_impl impl rs = None \<longleftrightarrow> (\<forall>r\<in>set rs. implementation r \<noteq> impl)"
  by (auto simp add: next_impl_def find_None_iff)

lemma encode_size_rows_candidate:
  assumes "encode_size_rows fmt ers sz = Inr rows"
    and "r \<in> set ers" "implementation r = ''J2KSwift''" "image_size r = sz"
  shows "\<exists>cells. \<lparr>row_size = sz, row_impl = ''J2KSwift'', row_cells = cells\<rparr> \<in> set rows"
proof -
  have "r \<in> set (by_size ers sz)" using assms(2,4) by (simp add: by_size_def)
  then have "next_impl ''J2KSwift'' (by_size ers sz) \<noteq> None"
    using assms(3) by (auto simp add: next_impl_None)
  then obtain j where j: "next_impl ''J2KSwift'' (by_size ers sz) = Some j" by auto
  show ?thesis
    using assms(1) unfolding encode_size_rows_def Let_def j
    by (auto simp add: ebind_Inr)
qed

lemma decode_size_rows_candidate:
  assumes "decode_size_rows fmt drs sz = Inr rows"
    and "row \<in> set rows" "row_impl row = ''J2KSwift''"
  shows "\<exists>r\<in>set drs. implementation r = ''J2KSwift'' \<and> image_size r = sz"
proof (cases "next_impl ''J2KSwift'' (by_size drs sz)")
  case None
  then show ?thesis
    using assms unfolding decode_size_rows_def Let_def
    by (auto simp add: ebind_Inr split: option.splits)
next
  case (Some j)
  from next_impl_Some [OF Some] show ?thesis by (auto simp add: by_size_def)
qed

lemma encode_table_candidate:
  assumes "encode_table fmt results = Inr enc"
    and "r \<in> set results" "implementation r = ''J2KSwift''" "operation r = ''encode''"
  shows "\<exists>cells. \<lparr>row_size = image_size r, row_impl = ''J2KSwift'', row_cells = cells\<rparr>
           \<in> set enc"
proof -
  have m: "r \<in> set (of_operation ''encode'' results)"
    using assms(2,4) by (simp add: of_operation_def)
  then have "image_size r \<in> set (table_sizes (of_operation ''encode'' results))"
    by (simp add: table_sizes_def)
  from table_rows_body [OF assms(1) [unfolded encode_table_def] this]
  obtain rs where rs: "encode_size_rows fmt (of_operation ''encode'' results) (image_size r) = Inr rs"
    and sub: "set rs \<subseteq> set enc"
    by blast
  from encode_size_rows_candidate [OF rs m assms(3)] sub show ?thesis by blast
qed

lemma decode_table_candidate:
  assumes "decode_table fmt results = Inr dec"
    and "row \<in> set dec" "row_impl row = ''J2KSwift''"
  shows "\<exists>r\<in>set results. implementation r = ''J2KSwift'' \<and> operation r = ''decode'' \<and>
           image_size r = row_size row"
proof -
  from table_rows_origin [OF assms(1) [unfolded decode_table_def] assms(2)]
  obtain sz rs where rs: "decode_size_rows fmt (of_operation ''decode'' results) sz = Inr rs"
    and mem: "row \<in> set rs"
    by blast
  have sz: "row_size row = sz"
    using decode_size_rows_shape [OF rs] mem by blast
  from decode_size_rows_candidate [OF rs mem assms(3)] sz show ?thesis
    by (auto simp add: of_operation_def)
qed

lemma summary_lines_unavailable:
  assumes "summary_lines fmt ers drs = Inr summary" and "of_impl ''J2KSwift'' drs = []"
  shows "decode_unavailable_line \<in> set summary"
  using assms unfolding summary_lines_def Let_def ebind_Inr by auto

lemma summary_lines_total:
  assumes "of_impl ''J2KSwift'' ers \<noteq> []" and "of_impl ''OpenJPEG'' ers \<noteq> []"
  shows "\<exists>summary. summary_lines fmt ers drs = Inr summary"
proof -
  obtain ja where ja: "emap average (of_impl ''J2KSwift'' ers) = Inr ja"
    and jl: "length ja = length (of_impl ''J2KSwift'' ers)"
    using emap_average_total by blast
  obtain oa where oa: "emap average (of_impl ''OpenJPEG'' ers) = Inr oa"
    and ol: "length oa = length (of_impl ''OpenJPEG'' ers)"
    using emap_average_total by blast
  have jm: "statistics_mean ja = Inr (sum_list ja / real (length ja))"
    using assms(1) jl by (auto simp add: statistics_mean_def)
  have om: "statistics_mean oa = Inr (sum_list oa / real (length oa))"
    using assms(2) ol by (auto simp add: statistics_mean_def)
  obtain er where er: "speed_ratio (sum_list oa / real (length oa))
       (sum_list ja / real (length ja)) = Inr er"
    using speed_ratio_total by blast
  have dr: "\<exists>q. (if of_impl ''J2KSwift'' drs \<noteq> [] \<and> of_impl ''OpenJPEG'' drs \<noteq> [] then
                   ebind (emap average (of_impl ''J2KSwift'' drs)) (\<lambda>j2k_davgs.
                   ebind (statistics_mean j2k_davgs) (\<lambda>j2k_decode_avg.
                   ebind (emap average (of_impl ''OpenJPEG'' drs)) (\<lambda>opj_davgs.
                   ebind (statistics_mean opj_davgs) (\<lambda>opj_decode_avg.
                     speed_ratio opj_decode_avg j2k_decode_avg))))
                 else Inr 0) = Inr q"
  proof (cases "of_impl ''J2KSwift'' drs \<noteq> [] \<and> of_impl ''OpenJPEG'' drs \<noteq> []")
    case True
    obtain da where da: "emap average (of_impl ''J2KSwift'' drs) = Inr da"
      and dl: "length da = length (of_impl ''J2KSwift'' drs)"
      using emap_average_total by blast
    obtain pa where pa: "emap average (of_impl ''OpenJPEG'' drs) = Inr pa"
      and pl: "length pa = length (of_impl ''OpenJPEG'' drs)"
      using emap_average_total by blast
    have dm: "statistics_mean da = Inr (sum_list da / real (length da))"
      using True dl by (auto simp add: statistics_mean_def)
    have pm: "statistics_mean pa = Inr (sum_list pa / real (length pa))"
      using True pl by (auto simp add: statistics_mean_def)
    obtain q where "speed_ratio (sum_list pa / real (length pa))
       (sum_list da / real (length da)) = Inr q"
      using speed_ratio_total by blast
    then show ?thesis using True da pa dm pm by (simp add: ebind_Inr_simp)
  next
    case False
    then show ?thesis by auto
  qed
  then obtain q where q: "(if of_impl ''J2KSwift'' drs \<noteq> [] \<and> of_impl ''OpenJPEG'' drs \<noteq> [] then
                   ebind (emap average (of_impl ''J2KSwift'' drs)) (\<lambda>j2k_davgs.
                   ebind (statistics_mean j2k_davgs) (\<lambda>j2k_decode_avg.
                   ebind (emap average (of_impl ''OpenJPEG'' drs)) (\<lambda>opj_davgs.
                   ebind (statistics_mean opj_davgs) (\<lambda>opj_decode_avg.
                     speed_ratio opj_decode_avg j2k_decode_avg))))
                 else Inr 0) = Inr q"
    by blast
  show ?thesis
    unfolding summary_lines_def Let_def ja oa q ebind_Inr_simp jm om er by blast
qed

lemma markdown_lines_total:
  assumes "\<forall>r\<in>set results. implementation r = ''J2KSwift'' \<longrightarrow> average r \<noteq> Inr 0"
    and "\<exists>r\<in>set results. implementation r = ''J2KSwift'' \<and> operation r = ''encode''"
    and "\<exists>r\<in>set results. implementation r = ''OpenJPEG'' \<and> operation r = ''encode''"
  shows "\<exists>lines. markdown_lines fmt now results = Inr lines"
proof -
  have e: "\<forall>r\<in>set (of_operation ''encode'' results).
             implementation r = ''J2KSwift'' \<longrightarrow> average r \<noteq> Inr 0"
    and d: "\<forall>r\<in>set (of_operation ''decode'' results).
             implementation r = ''J2KSwift'' \<longrightarrow> average r \<noteq> Inr 0"
    using assms(1) by (simp_all add: of_operation_def)
  obtain enc where enc: "encode_table fmt results = Inr enc"
    unfolding encode_table_def
    using table_rows_total [of "encode_size_rows fmt (of_operation ''encode'' results)"]
      encode_size_rows_total [OF e] by blast
  obtain dec where dec: "decode_table fmt results = Inr dec"
    unfolding decode_table_def
    using table_rows_total [of "decode_size_rows fmt (of_operation ''decode'' results)"]
      decode_size_rows_total [OF d] by blast
  have "of_impl ''J2KSwift'' (of_operation ''encode'' results) \<noteq> []"
       "of_impl ''OpenJPEG'' (of_operation ''encode'' results) \<noteq> []"
    using assms(2,3) by (auto simp add: of_impl_def of_operation_def filter_empty_conv)
  then obtain summary where
    "summary_lines fmt (of_operation ''encode'' results) (of_operation ''decode'' results) =
       Inr summary"
    using summary_lines_total by blast
  then show ?thesis
    unfolding markdown_lines_def enc dec by (simp add: ebind_Inr_simp)
qed

lemma metric_cells_cases:
  assumes "metric_cells fmt r = Inr cells"
  shows "\<exists>a m lo hi t. average r = Inr a \<and> median r = Inr m \<and> min_time r = Inr lo \<and>
           max_time r = Inr hi \<and> throughput r = Inr t \<and>
           cells = [fmt 1 (a * 1000), fmt 1 (m * 1000), fmt 1 (lo * 1000), fmt 1 (hi * 1000),
                    fmt 2 t]"
  using assms unfolding metric_cells_def ebind_Inr by auto

lemma encode_size_rows_cases:
  assumes "encode_size_rows fmt ers sz = Inr rows"
  shows "\<exists>r1 r2. rows = r1 @ r2 \<and>
     (case next_impl ''J2KSwift'' (by_size ers sz) of
        None \<Rightarrow> r1 = []
      | Some j \<Rightarrow> \<exists>cells rel. metric_cells fmt j = Inr cells \<and>
          relative_cell fmt (next_impl ''OpenJPEG'' (by_size ers sz)) j = Inr rel \<and>
          r1 = [\<lparr>row_size = sz, row_impl = ''J2KSwift'',
                 row_cells = cells @ [size_kb_cell fmt j, rel]\<rparr>]) \<and>
     (case next_impl ''OpenJPEG'' (by_size ers sz) of
        None \<Rightarrow> r2 = []
      | Some p \<Rightarrow> \<exists>cells. metric_cells fmt p = Inr cells \<and>
          r2 = [\<lparr>row_size = sz, row_impl = ''OpenJPEG'',
                 row_cells = cells @ [size_kb_cell fmt p, ''100.0%'']\<rparr>])"
  using assms unfolding encode_size_rows_def Let_def
  by (auto simp add: ebind_Inr split: option.splits)

lemma decode_size_rows_cases:
  assumes "decode_size_rows fmt drs sz = Inr rows"
  shows "\<exists>r1 r2. rows = r1 @ r2 \<and>
     (case next_impl ''J2KSwift'' (by_size drs sz) of
        None \<Rightarrow> r1 = []
      | Some j \<Rightarrow> \<exists>cells rel. metric_cells fmt j = Inr cells \<and>
          relative_cell fmt (next_impl ''OpenJPEG'' (by_size drs sz)) j = Inr rel \<and>
          r1 = [\<lparr>row_size = sz, row_impl = ''J2KSwift'', row_cells = cells @ [rel]\<rparr>]) \<and>
     (case next_impl ''OpenJPEG'' (by_size drs sz) of
        None \<Rightarrow> r2 = []
      | Some p \<Rightarrow> \<exists>cells. metric_cells fmt p = Inr cells \<and>
          r2 = [\<lparr>row_size = sz, row_impl = ''OpenJPEG'', row_cells = cells @ [''100.0%'']\<rparr>])"
  using assms unfolding decode_size_rows_def Let_def
  by (auto simp add: ebind_Inr split: option.splits)

lemma encode_size_rows_text:
  assumes "encode_size_rows fmt ers sz = Inr rows"
  shows "sorted_wrt row_before rows \<and>
         (\<forall>r\<in>set rows. row_size r = sz \<and> encode_row_text fmt r)"
proof -
  from encode_size_rows_cases [OF assms] obtain r1 r2 where rows: "rows = r1 @ r2"
    and c1: "case next_impl ''J2KSwift'' (by_size ers sz) of
        None \<Rightarrow> r1 = []
      | Some j \<Rightarrow> \<exists>cells rel. metric_cells fmt j = Inr cells \<and>
          relative_cell fmt (next_impl ''OpenJPEG'' (by_size ers sz)) j = Inr rel \<and>
          r1 = [\<lparr>row_size = sz, row_impl = ''J2KSwift'',
                 row_cells = cells @ [size_kb_cell fmt j, rel]\<rparr>]"
    and c2: "case next_impl ''OpenJPEG'' (by_size ers sz) of
        None \<Rightarrow> r2 = []
      | Some p \<Rightarrow> \<exists>cells. metric_cells fmt p = Inr cells \<and>
          r2 = [\<lparr>row_size = sz, row_impl = ''OpenJPEG'',
                 row_cells = cells @ [size_kb_cell fmt p, ''100.0%'']\<rparr>]"
    by blast
  have s1: "r1 = [] \<or> (\<exists>r. r1 = [r] \<and> row_size r = sz \<and> row_impl r = ''J2KSwift'' \<and>
      encode_row_text fmt r)"
  proof (cases "next_impl ''J2KSwift'' (by_size ers sz)")
    case None
    then show ?thesis using c1 by simp
  next
    case (Some j)
    then obtain cells rel where m: "metric_cells fmt j = Inr cells"
      and rel: "relative_cell fmt (next_impl ''OpenJPEG'' (by_size ers sz)) j = Inr rel"
      and r1: "r1 = [\<lparr>row_size = sz, row_impl = ''J2KSwift'',
                 row_cells = cells @ [size_kb_cell fmt j, rel]\<rparr>]"
      using c1 by auto
    from metric_cells_cases [OF m] obtain a b c d e where
      cells: "cells = [fmt 1 (a * 1000), fmt 1 (b * 1000), fmt 1 (c * 1000), fmt 1 (d * 1000),
                    fmt 2 e]"
      by blast
    have "encode_row_text fmt \<lparr>row_size = sz, row_impl = ''J2KSwift'',
                 row_cells = cells @ [size_kb_cell fmt j, rel]\<rparr>"
      unfolding encode_row_text_def cells
      using relative_cell_column [OF rel]
      by (simp add: render_md_row_def) blast
    then show ?thesis using r1 by simp
  qed
  have s2: "r2 = [] \<or> (\<exists>r. r2 = [r] \<and> row_size r = sz \<and> row_impl r = ''OpenJPEG'' \<and>
      encode_row_text fmt r)"
  proof (cases "next_impl ''OpenJPEG'' (by_size ers sz)")
    case None
    then show ?thesis using c2 by simp
  next
    case (Some p)
    then obtain cells where m: "metric_cells fmt p = Inr cells"
      and r2: "r2 = [\<lparr>row_size = sz, row_impl = ''OpenJPEG'',
                 row_cells = cells @ [size_kb_cell fmt p, ''100.0%'']\<rparr>]"
      using c2 by auto
    from metric_cells_cases [OF m] obtain a b c d e where
      cells: "cells = [fmt 1 (a * 1000), fmt 1 (b * 1000), fmt 1 (c * 1000), fmt 1 (d * 1000),
                    fmt 2 e]"
      by blast
    have "encode_row_text fmt \<lparr>row_size = sz, row_impl = ''OpenJPEG'',
                 row_cells = cells @ [size_kb_cell fmt p, ''100.0%'']\<rparr>"
      unfolding encode_row_text_def cells
      by (simp add: render_md_row_def relative_column_def) blast
    then show ?thesis using r2 by simp
  qed
  show ?thesis
    using s1 s2 unfolding rows by (auto simp add: row_before_def)
qed

lemma decode_size_rows_text:
  assumes "decode_size_rows fmt drs sz = Inr rows"
  shows "sorted_wrt row_before rows \<and>
         (\<forall>r\<in>set rows. row_size r = sz \<and> decode_row_text fmt r)"
proof -
  from decode_size_rows_cases [OF assms] obtain r1 r2 where rows: "rows = r1 @ r2"
    and c1: "case next_impl ''J2KSwift'' (by_size drs sz) of
        None \<Rightarrow> r1 = []
      | Some j \<Rightarrow> \<exists>cells rel. metric_cells fmt j = Inr cells \<and>
          relative_cell fmt (next_impl ''OpenJPEG'' (by_size drs sz)) j = Inr rel \<and>
          r1 = [\<lparr>row_size = sz, row_impl = ''J2KSwift'', row_cells = cells @ [rel]\<rparr>]"
    and c2: "case next_impl ''OpenJPEG'' (by_size drs sz) of
        None \<Rightarrow> r2 = []
      | Some p \<Rightarrow> \<exists>cells. metric_cells fmt p = Inr cells \<and>
          r2 = [\<lparr>row_size = sz, row_impl = ''OpenJPEG'', row_cells = cells @ [''100.0%'']\<rparr>]"
    by blast
  have s1: "r1 = [] \<or> (\<exists>r. r1 = [r] \<and> row_size r = sz \<and> row_impl r = ''J2KSwift'' \<and>
      decode_row_text fmt r)"
  proof (cases "next_impl ''J2KSwift'' (by_size drs sz)")
    case None
    then show ?thesis using c1 by simp
  next
    case (Some j)
    then obtain cells rel where m: "metric_cells fmt j = Inr cells"
      and rel: "relative_cell fmt (next_impl ''OpenJPEG'' (by_size drs sz)) j = Inr rel"
      and r1: "r1 = [\<lparr>row_size = sz, row_impl = ''J2KSwift'', row_cells = cells @ [rel]\<rparr>]"
      using c1 by auto
    from metric_cells_cases [OF m] obtain a b c d e where
      cells: "cells = [fmt 1 (a * 1000), fmt 1 (b * 1000), fmt 1 (c * 1000), fmt 1 (d * 1000),
                    fmt 2 e]"
      by blast
    have "decode_row_text fmt \<lparr>row_size = sz, row_impl = ''J2KSwift'',
                 row_cells = cells @ [rel]\<rparr>"
      unfolding decode_row_text_def cells
      using relative_cell_column [OF rel]
      by (simp add: render_md_row_def) blast
    then show ?thesis using r1 by simp
  qed
  have s2: "r2 = [] \<or> (\<exists>r. r2 = [r] \<and> row_size r = sz \<and> row_impl r = ''OpenJPEG'' \<and>
      decode_row_text fmt r)"
  proof (cases "next_impl ''OpenJPEG'' (by_size drs sz)")
    case None
    then show ?thesis using c2 by simp
  next
    case (Some p)
    then obtain cells where m: "metric_cells fmt p = Inr cells"
      and r2: "r2 = [\<lparr>row_size = sz, row_impl = ''OpenJPEG'',
                 row_cells = cells @ [''100.0%'']\<rparr>]"
      using c2 by auto
    from metric_cells_cases [OF m] obtain a b c d e where
      cells: "cells = [fmt 1 (a * 1000), fmt 1 (b * 1000), fmt 1 (c * 1000), fmt 1 (d * 1000),
                    fmt 2 e]"
      by blast
    have "decode_row_text fmt \<lparr>row_size = sz, row_impl = ''OpenJPEG'',
                 row_cells = cells @ [''100.0%'']\<rparr>"
      unfolding decode_row_text_def cells
      by (simp add: render_md_row_def relative_column_def) blast
    then show ?thesis using r2 by simp
  qed
  show ?thesis
    using s1 s2 unfolding rows by (auto simp add: row_before_def)
qed

lemma encode_table_text:
  assumes "encode_table fmt results = Inr enc"
  shows "sorted_wrt row_before enc \<and> (\<forall>r\<in>set enc. encode_row_text fmt r)"
proof -
  have "sorted_wrt row_before enc \<and>
        (\<forall>r\<in>set enc. row_size r \<in> set (table_sizes (of_operation ''encode'' results)) \<and>
           encode_row_text fmt r)"
    using table_sizes_sorted encode_size_rows_text assms [unfolded encode_table_def]
    by (rule table_rows_sorted)
  then show ?thesis by blast
qed

lemma decode_table_text:
  assumes "decode_table fmt results = Inr dec"
  shows "sorted_wrt row_before dec \<and> (\<forall>r\<in>set dec. decode_row_text fmt r)"
proof -
  have "sorted_wrt row_before dec \<and>
        (\<forall>r\<in>set dec. row_size r \<in> set (table_sizes (of_operation ''encode'' results)) \<and>
           decode_row_text fmt r)"
    using table_sizes_sorted decode_size_rows_text assms [unfolded decode_table_def]
    by (rule table_rows_sorted)
  then show ?thesis by blast
qed

lemma generate_markdown_report_Inr:
  "generate_markdown_report fmt now results = Inr text \<longleftrightarrow>
   (\<exists>lines. markdown_lines fmt now results = Inr lines \<and> text = join_lines lines)"
  by (auto simp add: generate_markdown_report_def ebind_Inr)

lemma join_lines_snoc:
  "join_lines (xs @ [l]) = concat (map (\<lambda>x. x @ newline) xs) @ l"
proof (induction xs)
  case Nil
  then show ?case by simp
next
  case (Cons x xs)
  then show ?case by (cases xs) simp_all
qed

lemma results_unordered_lines:
  "markdown_lines fmt_stub ''now'' results_unordered =
     Inr (title_lines ''now'' @ encode_header @ map render_md_row enc_rows_expected @ [[]] @
          decode_header @ map render_md_row dec_rows_expected @ [[]] @
          [''## Summary'', []] @
          [''- **Encoding**: J2KSwift is #% of OpenJPEG speed'', target_line, status_line 100,
           [], ''- **Decoding**: J2KSwift is #% of OpenJPEG speed'', target_line,
           status_line 50, []])"
  unfolding markdown_lines_def results_unordered_encode_table results_unordered_decode_table
    results_unordered_summary ebind_Inr_simp ..

lemma stub_row_text:
  "render_md_row (stub_row 256 impl [kb, rel]) =
     ''| 256'' @ times_sign @ ''256 | '' @ impl @ '' | # | # | # | # | # | '' @ kb @ '' | '' @
     rel @ '' |''"
  "render_md_row (stub_row 512 impl [kb, rel]) =
     ''| 512'' @ times_sign @ ''512 | '' @ impl @ '' | # | # | # | # | # | '' @ kb @ '' | '' @
     rel @ '' |''"
  "render_md_row (stub_row 256 impl [rel]) =
     ''| 256'' @ times_sign @ ''256 | '' @ impl @ '' | # | # | # | # | # | '' @ rel @ '' |''"
  "render_md_row (stub_row 512 impl [rel]) =
     ''| 512'' @ times_sign @ ''512 | '' @ impl @ '' | # | # | # | # | # | '' @ rel @ '' |''"
  by (simp_all add: render_md_row_def stub_row_def str_int_def str_nat.simps)

lemma results_unordered_text:
  "generate_markdown_report fmt_stub ''now'' results_unordered = Inr report_text_unordered"
proof -
  have "join_lines ((title_lines ''now'' @ encode_header @
          map render_md_row enc_rows_expected @ [[]] @
          decode_header @ map render_md_row dec_rows_expected @ [[]] @
          [''## Summary'', []] @
          [''- **Encoding**: J2KSwift is #% of OpenJPEG speed'', target_line, status_line 100,
           [], ''- **Decoding**: J2KSwift is #% of OpenJPEG speed'', target_line,
           status_line 50]) @ [[]]) = report_text_unordered"
    unfolding join_lines_snoc
    by (simp add: report_text_unordered_def enc_rows_expected_def dec_rows_expected_def
        stub_row_text target_line_def status_line_def)
  then show ?thesis
    by (simp add: generate_markdown_report_def results_unordered_lines ebind_Inr_simp)
qed

text \<open>
  C9, as the code has it. The markdown report is produced whenever both implementations have
  an encode result and no J2KSwift result has the average 0. Whenever it is produced, its text
  is the title, the encoding table, the decoding table and the summary, in this order; in
  each table the rows are in ascending order of image size and, within a size, the row of
  J2KSwift comes before the row of OpenJPEG; every row is the line
  \<open>| size\<times>size | implementation | cells |\<close> and ends with the relative-speed column.
\<close>

theorem markdown_table_order:
  "((\<forall>r\<in>set results. implementation r = ''J2KSwift'' \<longrightarrow> average r \<noteq> Inr 0) \<and>
    (\<exists>r\<in>set results. implementation r = ''J2KSwift'' \<and> operation r = ''encode'') \<and>
    (\<exists>r\<in>set results. implementation r = ''OpenJPEG'' \<and> operation r = ''encode'') \<longrightarrow>
      (\<exists>report. generate_markdown_report fmt now results = Inr report)) \<and>
   (\<forall>report. generate_markdown_report fmt now results = Inr report \<longrightarrow>
      (\<exists>enc dec summary.
         report = join_lines
                  (title_lines now @ encode_header @ map render_md_row enc @ [[]] @
                   decode_header @ map render_md_row dec @ [[]] @
                   [''## Summary'', []] @ summary) \<and>
         encode_table fmt results = Inr enc \<and> decode_table fmt results = Inr dec \<and>
         sorted_wrt row_before enc \<and> sorted_wrt row_before dec \<and>
         (\<forall>r\<in>set enc. encode_row_text fmt r) \<and>
         (\<forall>r\<in>set dec. decode_row_text fmt r)))"
proof (intro conjI allI impI)
  assume "(\<forall>r\<in>set results. implementation r = ''J2KSwift'' \<longrightarrow> average r \<noteq> Inr 0) \<and>
    (\<exists>r\<in>set results. implementation r = ''J2KSwift'' \<and> operation r = ''encode'') \<and>
    (\<exists>r\<in>set results. implementation r = ''OpenJPEG'' \<and> operation r = ''encode'')"
  then obtain lines where "markdown_lines fmt now results = Inr lines"
    using markdown_lines_total by blast
  then show "\<exists>report. generate_markdown_report fmt now results = Inr report"
    unfolding generate_markdown_report_Inr by blast
next
  fix report assume "generate_markdown_report fmt now results = Inr report"
  then obtain lines where l: "markdown_lines fmt now results = Inr lines"
    and t: "report = join_lines lines"
    unfolding generate_markdown_report_Inr by blast
  from markdown_lines_Inr [OF l] obtain enc dec summary where
    e: "encode_table fmt results = Inr enc" and d: "decode_table fmt results = Inr dec" and
    ls: "lines = title_lines now @ encode_header @ map render_md_row enc @ [[]] @
                decode_header @ map render_md_row dec @ [[]] @
                [''## Summary'', []] @ summary"
    by blast
  show "\<exists>enc dec summary.
         report = join_lines
                  (title_lines now @ encode_header @ map render_md_row enc @ [[]] @
                   decode_header @ map render_md_row dec @ [[]] @
                   [''## Summary'', []] @ summary) \<and>
         encode_table fmt results = Inr enc \<and> decode_table fmt results = Inr dec \<and>
         sorted_wrt row_before enc \<and> sorted_wrt row_before dec \<and>
         (\<forall>r\<in>set enc. encode_row_text fmt r) \<and>
         (\<forall>r\<in>set dec. decode_row_text fmt r)"
    using e d t [unfolded ls] encode_table_text [OF e] decode_table_text [OF d] by blast
qed

theorem markdown_table_order_witness:
  "generate_markdown_report fmt_stub ''now'' results_unordered = Inr report_text_unordered \<and>
   encode_table fmt_stub results_unordered = Inr enc_rows_expected \<and>
   decode_table fmt_stub results_unordered = Inr dec_rows_expected \<and>
   sorted_wrt row_before enc_rows_expected \<and> sorted_wrt row_before dec_rows_expected \<and>
   map row_size enc_rows_expected = [256, 256, 512, 512] \<and>
   map row_impl enc_rows_expected = [''J2KSwift'', ''OpenJPEG'', ''J2KSwift'', ''OpenJPEG''] \<and>
   map render_md_row dec_rows_expected =
     [''| 256'' @ times_sign @ ''256 | J2KSwift | # | # | # | # | # | #% |'',
      ''| 256'' @ times_sign @ ''256 | OpenJPEG | # | # | # | # | # | 100.0% |'']"
proof -
  from markdown_table_order [of results_unordered fmt_stub "''now''"] results_unordered_text
  obtain enc dec where
    "encode_table fmt_stub results_unordered = Inr enc"
    "decode_table fmt_stub results_unordered = Inr dec"
    "sorted_wrt row_before enc" "sorted_wrt row_before dec"
    by blast
  then have o: "sorted_wrt row_before enc_rows_expected \<and>
      sorted_wrt row_before dec_rows_expected"
    by (simp add: results_unordered_encode_table results_unordered_decode_table)
  have p: "map row_size enc_rows_expected = [256, 256, 512, 512] \<and>
     map row_impl enc_rows_expected = [''J2KSwift'', ''OpenJPEG'', ''J2KSwift'', ''OpenJPEG'']"
    by (simp add: enc_rows_expected_def stub_row_def)
  have q: "map render_md_row dec_rows_expected =
     [''| 256'' @ times_sign @ ''256 | J2KSwift | # | # | # | # | # | #% |'',
      ''| 256'' @ times_sign @ ''256 | OpenJPEG | # | # | # | # | # | 100.0% |'']"
    by (simp add: dec_rows_expected_def stub_row_text)
  show ?thesis
    using results_unordered_text results_unordered_encode_table results_unordered_decode_table
      o p q by blast
qed

text \<open>
  Not every result set has a tabular summary: without results, or with encode results of one
  implementation only, the mean of an empty list raises and no report is written.
\<close>

theorem markdown_report_counterexample:
  "generate_markdown_report fmt_stub ''now'' [] = Inl StatisticsError \<and>
   generate_markdown_report fmt_stub ''now'' [timed ''J2KSwift'' 256 ''encode'' (1 / 10)] =
     Inl StatisticsError"
proof -
  have a: "generate_markdown_report fmt_stub ''now'' [] = Inl StatisticsError"
    by (simp add: generate_markdown_report_def markdown_lines_def encode_table_def
        decode_table_def table_sizes_def of_operation_def summary_lines_def of_impl_def
        statistics_mean_def ebind_def)
  have e: "encode_table fmt_stub [timed ''J2KSwift'' 256 ''encode'' (1 / 10)] =
      Inr [stub_row 256 ''J2KSwift'' [''N/A'', ''N/A'']]"
    by (simp add: encode_table_def of_operation_def table_sizes_def encode_size_rows_def
        by_size_def next_impl_def timed_fields metric_cells_stub relative_cell_none
        size_kb_cell_timed ebind_Inr_simp stub_row_def)
  have d: "decode_table fmt_stub [timed ''J2KSwift'' 256 ''encode'' (1 / 10)] = Inr []"
    by (simp add: decode_table_def of_operation_def table_sizes_def decode_size_rows_def
        by_size_def next_impl_def timed_fields ebind_Inr_simp)
  have s: "summary_lines fmt_stub
       (of_operation ''encode'' [timed ''J2KSwift'' 256 ''encode'' (1 / 10)])
       (of_operation ''decode'' [timed ''J2KSwift'' 256 ''encode'' (1 / 10)]) =
     Inl StatisticsError"
    by (simp add: summary_lines_def of_operation_def of_impl_def timed_fields
        statistics_mean_def ebind_def)
  have b: "generate_markdown_report fmt_stub ''now''
      [timed ''J2KSwift'' 256 ''encode'' (1 / 10)] = Inl StatisticsError"
    by (simp add: generate_markdown_report_def markdown_lines_def e d s ebind_def)
  show ?thesis using a b by blast
qed

lemma std_dev_total: "\<exists>a. std_dev r = Inr a"
  by (simp add: std_dev_def statistics_stdev_def statistics_variance_def Let_def ebind_def)

lemma csv_line_total: "\<exists>line. csv_line fmt r = Inr line \<and> csv_line_text fmt r line"
proof -
  obtain a m lo hi sd t where
    "average r = Inr a" "median r = Inr m" "min_time r = Inr lo" "max_time r = Inr hi"
    "std_dev r = Inr sd" "throughput r = Inr t"
    using average_total median_total min_time_total max_time_total std_dev_total
      throughput_total by metis
  then have "csv_line fmt r =
      Inr (str_int (image_size r) @ '','' @ implementation r @ '','' @ operation r @
           '','' @ fmt 3 (a * 1000) @ '','' @ fmt 3 (m * 1000) @
           '','' @ fmt 3 (lo * 1000) @ '','' @ fmt 3 (hi * 1000) @
           '','' @ fmt 3 (sd * 1000) @ '','' @ fmt 3 t @ '','' @
           compressed_text (compressed_size r) [] str_int)"
    by (simp add: csv_line_def Let_def ebind_def csv_compressed_size_def compressed_text_def
        split: option.splits)
  then show ?thesis unfolding csv_line_text_def by blast
qed

lemma emap_csv_lines:
  "\<exists>lines. emap (csv_line fmt) rs = Inr lines \<and> list_all2 (csv_line_text fmt) rs lines"
proof (induction rs)
  case Nil
  then show ?case by simp
next
  case (Cons r rs)
  obtain line where "csv_line fmt r = Inr line \<and> csv_line_text fmt r line"
    using csv_line_total by blast
  moreover obtain lines where
    "emap (csv_line fmt) rs = Inr lines \<and> list_all2 (csv_line_text fmt) rs lines"
    using Cons by blast
  ultimately show ?case by (simp add: ebind_def)
qed

lemma generate_csv_report_text:
  "\<exists>lines. generate_csv_report fmt rs = Inr (join_lines (csv_header # lines)) \<and>
           list_all2 (csv_line_text fmt) rs lines"
proof -
  obtain lines where "emap (csv_line fmt) rs = Inr lines"
    "list_all2 (csv_line_text fmt) rs lines"
    using emap_csv_lines by blast
  then show ?thesis by (auto simp add: generate_csv_report_def ebind_def)
qed

lemma encode_size_rows_kb:
  assumes "encode_size_rows fmt ers sz = Inr rows" and "row \<in> set rows"
  shows "row_size row = sz \<and>
         (\<exists>r. next_impl (row_impl row) (by_size ers sz) = Some r \<and>
              row_cells row ! 5 =
                compressed_text (compressed_size r) ''N/A'' (\<lambda>c. fmt 1 (real_of_int c / 1024)))"
proof -
  from encode_size_rows_cases [OF assms(1)] obtain r1 r2 where rows: "rows = r1 @ r2"
    and c1: "case next_impl ''J2KSwift'' (by_size ers sz) of
        None \<Rightarrow> r1 = []
      | Some j \<Rightarrow> \<exists>cells rel. metric_cells fmt j = Inr cells \<and>
          relative_cell fmt (next_impl ''OpenJPEG'' (by_size ers sz)) j = Inr rel \<and>
          r1 = [\<lparr>row_size = sz, row_impl = ''J2KSwift'',
                 row_cells = cells @ [size_kb_cell fmt j, rel]\<rparr>]"
    and c2: "case next_impl ''OpenJPEG'' (by_size ers sz) of
        None \<Rightarrow> r2 = []
      | Some p \<Rightarrow> \<exists>cells. metric_cells fmt p = Inr cells \<and>
          r2 = [\<lparr>row_size = sz, row_impl = ''OpenJPEG'',
                 row_cells = cells @ [size_kb_cell fmt p, ''100.0%'']\<rparr>]"
    by blast
  have kb: "size_kb_cell fmt r =
      compressed_text (compressed_size r) ''N/A'' (\<lambda>c. fmt 1 (real_of_int c / 1024))" for r
    by (simp add: size_kb_cell_def compressed_text_def split: option.splits)
  from assms(2) rows consider "row \<in> set r1" | "row \<in> set r2" by auto
  then show ?thesis
  proof cases
    case 1
    then obtain j cells rel where j: "next_impl ''J2KSwift'' (by_size ers sz) = Some j"
      and m: "metric_cells fmt j = Inr cells"
      and row: "row = \<lparr>row_size = sz, row_impl = ''J2KSwift'',
                 row_cells = cells @ [size_kb_cell fmt j, rel]\<rparr>"
      using c1 by (cases "next_impl ''J2KSwift'' (by_size ers sz)") auto
    have "length cells = 5" using metric_cells_length [OF m] .
    then have "row_cells row ! 5 = size_kb_cell fmt j"
      unfolding row by (simp add: nth_append)
    then show ?thesis using j row kb by simp
  next
    case 2
    then obtain p cells where p: "next_impl ''OpenJPEG'' (by_size ers sz) = Some p"
      and m: "metric_cells fmt p = Inr cells"
      and row: "row = \<lparr>row_size = sz, row_impl = ''OpenJPEG'',
                 row_cells = cells @ [size_kb_cell fmt p, ''100.0%'']\<rparr>"
      using c2 by (cases "next_impl ''OpenJPEG'' (by_size ers sz)") auto
    have "length cells = 5" using metric_cells_length [OF m] .
    then have "row_cells row ! 5 = size_kb_cell fmt p"
      unfolding row by (simp add: nth_append)
    then show ?thesis using p row kb by simp
  qed
qed

lemma encode_table_kb:
  assumes "encode_table fmt results = Inr enc" and "row \<in> set enc"
  shows "\<exists>r. next_impl (row_impl row)
                (by_size (of_operation ''encode'' results) (row_size row)) = Some r \<and>
              row_cells row ! 5 =
                compressed_text (compressed_size r) ''N/A'' (\<lambda>c. fmt 1 (real_of_int c / 1024))"
proof -
  from table_rows_origin [OF assms(1) [unfolded encode_table_def] assms(2)]
  obtain sz rs where
    rs: "encode_size_rows fmt (of_operation ''encode'' results) sz = Inr rs"
    and mem: "row \<in> set rs"
    by blast
  from encode_size_rows_kb [OF rs mem] show ?thesis by auto
qed

lemma j2k_zero_fields:
  "implementation j2k_zero = ''J2KSwift''" "image_size j2k_zero = 256"
  "operation j2k_zero = ''encode''" "run_times j2k_zero = [1 / 10]"
  "compressed_size j2k_zero = Some 0" "average j2k_zero = Inr (1 / 10)"
  by (simp_all add: j2k_zero_def BenchmarkResult_init_def average_def statistics_mean_def)

lemma opj_enc_fields:
  "implementation opj_enc = ''OpenJPEG''" "image_size opj_enc = 256"
  "operation opj_enc = ''encode''" "run_times opj_enc = [2 / 25]"
  "compressed_size opj_enc = Some 2048" "average opj_enc = Inr (2 / 25)"
  by (simp_all add: opj_enc_def BenchmarkResult_init_def average_def statistics_mean_def)

lemma csv_line_stub:
  "csv_line fmt_stub r =
     Inr (str_int (image_size r) @ '','' @ implementation r @ '','' @ operation r @
          '',#,#,#,#,#,#,'' @ csv_compressed_size r)"
proof -
  obtain a m lo hi sd t where
    "average r = Inr a" "median r = Inr m" "min_time r = Inr lo" "max_time r = Inr hi"
    "std_dev r = Inr sd" "throughput r = Inr t"
    using average_total median_total min_time_total max_time_total std_dev_total
      throughput_total by metis
  then show ?thesis by (simp add: csv_line_def Let_def ebind_def fmt_stub_def)
qed

lemma csv_zero:
  "generate_csv_report fmt_stub [j2k_zero, opj_enc] = Inr csv_text_zero"
  by (simp add: generate_csv_report_def csv_line_stub ebind_Inr_simp csv_compressed_size_def
      j2k_zero_fields opj_enc_fields csv_text_zero_def str_int_def str_nat.simps)

lemma report_zero:
  "generate_markdown_report fmt_stub ''now'' [j2k_zero, opj_enc] = Inr report_text_zero"
proof -
  have rel: "relative_cell fmt_stub (Some opj_enc) j2k_zero = Inr ''#%''"
    by (simp add: relative_cell_def j2k_zero_fields opj_enc_fields ebind_def truediv_def
        fmt_stub_def)
  have e: "encode_table fmt_stub [j2k_zero, opj_enc] =
     Inr [stub_row 256 ''J2KSwift'' [''N/A'', ''#%''], stub_row 256 ''OpenJPEG'' [''#'', ''100.0%'']]"
    by (simp add: encode_table_def of_operation_def table_sizes_def encode_size_rows_def
        by_size_def next_impl_def size_kb_cell_def j2k_zero_fields opj_enc_fields
        metric_cells_stub rel ebind_Inr_simp fmt_stub_def stub_row_def)
  have d: "decode_table fmt_stub [j2k_zero, opj_enc] = Inr []"
    by (simp add: decode_table_def of_operation_def table_sizes_def decode_size_rows_def
        by_size_def next_impl_def j2k_zero_fields opj_enc_fields ebind_Inr_simp)
  have s: "summary_lines fmt_stub (of_operation ''encode'' [j2k_zero, opj_enc])
      (of_operation ''decode'' [j2k_zero, opj_enc]) =
     Inr [''- **Encoding**: J2KSwift is #% of OpenJPEG speed'', target_line, status_line 80, [],
          decode_unavailable_line, []]"
    by (simp add: summary_lines_def of_operation_def of_impl_def j2k_zero_fields
        opj_enc_fields ebind_Inr_simp statistics_mean_def speed_ratio_def truediv_def
        fmt_stub_def)
  have "join_lines ((title_lines ''now'' @ encode_header @
          map render_md_row [stub_row 256 ''J2KSwift'' [''N/A'', ''#%''],
                             stub_row 256 ''OpenJPEG'' [''#'', ''100.0%'']] @ [[]] @
          decode_header @ [[]] @ [''## Summary'', []] @
          [''- **Encoding**: J2KSwift is #% of OpenJPEG speed'', target_line, status_line 80,
           [], decode_unavailable_line]) @ [[]]) = report_text_zero"
    unfolding join_lines_snoc
    by (simp add: report_text_zero_def stub_row_text target_line_def status_line_def
        decode_unavailable_line_def)
  then show ?thesis
    by (simp add: generate_markdown_report_def markdown_lines_def e d s ebind_Inr_simp)
qed

text \<open>
  C10. A result whose compressed size is 0 is rendered as one whose compressed size is
  absent. Two result lists that differ only in 0 against absent give the same markdown
  report and the same CSV report, byte for byte. The CSV report always exists; it is the
  header and one line for each result, whose last field is empty for a compressed size that
  is 0 or absent and the byte count otherwise. In the markdown report the sixth cell of an
  encoding row is \<open>N/A\<close> for a compressed size that is 0 or absent and the size in KB
  otherwise.
\<close>

theorem zero_compressed_size_as_absent:
  "(\<forall>rs'. map unmeasured rs' = map unmeasured rs \<longrightarrow>
      generate_markdown_report fmt now rs' = generate_markdown_report fmt now rs \<and>
      generate_csv_report fmt rs' = generate_csv_report fmt rs) \<and>
   (\<exists>lines. generate_csv_report fmt rs = Inr (join_lines (csv_header # lines)) \<and>
      list_all2 (csv_line_text fmt) rs lines) \<and>
   (\<forall>report. generate_markdown_report fmt now rs = Inr report \<longrightarrow>
      (\<exists>enc dec summary.
         report = join_lines
                    (title_lines now @ encode_header @ map render_md_row enc @ [[]] @
                     decode_header @ map render_md_row dec @ [[]] @
                     [''## Summary'', []] @ summary) \<and>
         encode_table fmt rs = Inr enc \<and>
         (\<forall>row\<in>set enc. encode_row_text fmt row \<and>
            (\<exists>r. next_impl (row_impl row)
                    (by_size (of_operation ''encode'' rs) (row_size row)) = Some r \<and>
                 row_cells row ! 5 =
                   compressed_text (compressed_size r) ''N/A''
                     (\<lambda>c. fmt 1 (real_of_int c / 1024)))))) \<and>
   compressed_text (Some 0) absent shown = absent \<and>
   compressed_text None absent shown = absent"
proof (intro conjI allI impI)
  fix rs' assume h: "map unmeasured rs' = map unmeasured rs"
  show "generate_markdown_report fmt now rs' = generate_markdown_report fmt now rs"
    using unmeasured_markdown [of fmt now rs'] unmeasured_markdown [of fmt now rs] h by simp
  show "generate_csv_report fmt rs' = generate_csv_report fmt rs"
    using unmeasured_csv [of fmt rs'] unmeasured_csv [of fmt rs] h by simp
next
  show "\<exists>lines. generate_csv_report fmt rs = Inr (join_lines (csv_header # lines)) \<and>
      list_all2 (csv_line_text fmt) rs lines"
    by (rule generate_csv_report_text)
next
  fix report assume "generate_markdown_report fmt now rs = Inr report"
  then obtain lines where l: "markdown_lines fmt now rs = Inr lines"
    and t: "report = join_lines lines"
    unfolding generate_markdown_report_Inr by blast
  from markdown_lines_Inr [OF l] obtain enc dec summary where
    e: "encode_table fmt rs = Inr enc" and
    ls: "lines = title_lines now @ encode_header @ map render_md_row enc @ [[]] @
                decode_header @ map render_md_row dec @ [[]] @
                [''## Summary'', []] @ summary"
    by blast
  have "\<forall>row\<in>set enc. encode_row_text fmt row \<and>
            (\<exists>r. next_impl (row_impl row)
                    (by_size (of_operation ''encode'' rs) (row_size row)) = Some r \<and>
                 row_cells row ! 5 =
                   compressed_text (compressed_size r) ''N/A''
                     (\<lambda>c. fmt 1 (real_of_int c / 1024)))"
    using encode_table_text [OF e] encode_table_kb [OF e] by blast
  then show "\<exists>enc dec summary.
         report = join_lines
                    (title_lines now @ encode_header @ map render_md_row enc @ [[]] @
                     decode_header @ map render_md_row dec @ [[]] @
                     [''## Summary'', []] @ summary) \<and>
         encode_table fmt rs = Inr enc \<and>
         (\<forall>row\<in>set enc. encode_row_text fmt row \<and>
            (\<exists>r. next_impl (row_impl row)
                    (by_size (of_operation ''encode'' rs) (row_size row)) = Some r \<and>
                 row_cells row ! 5 =
                   compressed_text (compressed_size r) ''N/A''
                     (\<lambda>c. fmt 1 (real_of_int c / 1024))))"
    using e t [unfolded ls] by blast
qed (simp_all add: compressed_text_def)

theorem zero_compressed_size_as_absent_witness:
  "map unmeasured [j2k_none, opj_enc] = map unmeasured [j2k_zero, opj_enc] \<and>
   compressed_size j2k_zero = Some 0 \<and> compressed_size j2k_none = None \<and>
   generate_csv_report fmt_stub [j2k_zero, opj_enc] = Inr csv_text_zero \<and>
   generate_csv_report fmt_stub [j2k_none, opj_enc] = Inr csv_text_zero \<and>
   generate_markdown_report fmt_stub ''now'' [j2k_zero, opj_enc] = Inr report_text_zero \<and>
   generate_markdown_report fmt_stub ''now'' [j2k_none, opj_enc] = Inr report_text_zero"
proof -
  have m: "map unmeasured [j2k_none, opj_enc] = map unmeasured [j2k_zero, opj_enc]"
    by (simp add: unmeasured_def j2k_none_def j2k_zero_def opj_enc_def BenchmarkResult_init_def)
  have c: "compressed_size j2k_zero = Some 0" "compressed_size j2k_none = None"
    by (simp_all add: j2k_zero_def j2k_none_def BenchmarkResult_init_def)
  from zero_compressed_size_as_absent [of "[j2k_zero, opj_enc]" fmt_stub "''now''"] m
  have "generate_markdown_report fmt_stub ''now'' [j2k_none, opj_enc] =
          generate_markdown_report fmt_stub ''now'' [j2k_zero, opj_enc] \<and>
        generate_csv_report fmt_stub [j2k_none, opj_enc] =
          generate_csv_report fmt_stub [j2k_zero, opj_enc]"
    by blast
  then show ?thesis
    using m c csv_zero report_zero by simp
qed

lemma j2k_from_doc_fields:
  "implementation j2k_from_doc = ''J2KSwift''"
  "image_size j2k_from_doc = 256"
  "operation j2k_from_doc = ''encode''"
  "compressed_size j2k_from_doc = Some 2048"
  "average j2k_from_doc = Inr (1 / 50)"
  by (simp_all add: j2k_from_doc_def BenchmarkResult_init_def average_def statistics_mean_def)

lemma j2k_from_doc_cells:
  "relative_cell fmt_stub (Some (timed impl sz opn t)) j2k_from_doc = Inr ''#%''"
  "size_kb_cell fmt_stub j2k_from_doc = ''#''"
  by (simp_all add: relative_cell_def size_kb_cell_def j2k_from_doc_fields timed_fields
      ebind_def truediv_def fmt_stub_def)

lemma doc_encode_only_results:
  "results_of_document doc_encode_only = Inr (j2k_from_doc, None)"
  by (simp add: results_of_document_def doc_encode_only_def subscript_def ebind_def
      j2k_from_doc_def BenchmarkResult_init_def)

lemma results_encode_only_report:
  "markdown_lines fmt_stub ''now'' results_encode_only = Inr report_encode_only"
proof -
  have e: "encode_table fmt_stub results_encode_only =
      Inr [stub_row 256 ''J2KSwift'' [''#'', ''#%''],
           stub_row 256 ''OpenJPEG'' [''N/A'', ''100.0%'']]"
    by (simp add: encode_table_def results_encode_only_def of_operation_def table_sizes_def
        encode_size_rows_def by_size_def next_impl_def timed_fields j2k_from_doc_fields
        j2k_from_doc_cells metric_cells_stub size_kb_cell_timed ebind_Inr_simp stub_row_def)
  have d: "decode_table fmt_stub results_encode_only =
      Inr [stub_row 256 ''OpenJPEG'' [''100.0%'']]"
    by (simp add: decode_table_def results_encode_only_def of_operation_def table_sizes_def
        decode_size_rows_def by_size_def next_impl_def timed_fields j2k_from_doc_fields
        metric_cells_stub ebind_Inr_simp stub_row_def)
  have s: "summary_lines fmt_stub (of_operation ''encode'' results_encode_only)
      (of_operation ''decode'' results_encode_only) =
     Inr [''- **Encoding**: J2KSwift is #% of OpenJPEG speed'', target_line, status_line 500, [],
          decode_unavailable_line, []]"
    by (simp add: summary_lines_def results_encode_only_def of_operation_def of_impl_def
        timed_fields j2k_from_doc_fields ebind_Inr_simp statistics_mean_def speed_ratio_def
        truediv_def fmt_stub_def)
  show ?thesis
    unfolding markdown_lines_def e d s ebind_Inr_simp report_encode_only_def ..
qed

lemma results_mixed_report:
  "markdown_lines fmt_stub ''now'' results_mixed = Inr report_mixed"
proof -
  have e: "encode_table fmt_stub results_mixed =
      Inr [stub_row 256 ''J2KSwift'' [''#'', ''#%''],
           stub_row 256 ''OpenJPEG'' [''N/A'', ''100.0%''],
           stub_row 512 ''J2KSwift'' [''N/A'', ''#%''],
           stub_row 512 ''OpenJPEG'' [''N/A'', ''100.0%'']]"
    by (simp add: encode_table_def results_mixed_def of_operation_def table_sizes_def
        encode_size_rows_def by_size_def next_impl_def timed_fields j2k_from_doc_fields
        j2k_from_doc_cells relative_cell_stub metric_cells_stub size_kb_cell_timed
        ebind_Inr_simp stub_row_def)
  have d: "decode_table fmt_stub results_mixed =
      Inr [stub_row 256 ''OpenJPEG'' [''100.0%''], stub_row 512 ''J2KSwift'' [''#%''],
           stub_row 512 ''OpenJPEG'' [''100.0%'']]"
    by (simp add: decode_table_def results_mixed_def of_operation_def table_sizes_def
        decode_size_rows_def by_size_def next_impl_def timed_fields j2k_from_doc_fields
        relative_cell_stub metric_cells_stub ebind_Inr_simp stub_row_def)
  have s: "summary_lines fmt_stub (of_operation ''encode'' results_mixed)
      (of_operation ''decode'' results_mixed) =
     Inr [''- **Encoding**: J2KSwift is #% of OpenJPEG speed'', target_line, status_line 500, [],
          ''- **Decoding**: J2KSwift is #% of OpenJPEG speed'', target_line, status_line 50, []]"
    by (simp add: summary_lines_def results_mixed_def of_operation_def of_impl_def
        timed_fields j2k_from_doc_fields ebind_Inr_simp statistics_mean_def speed_ratio_def
        truediv_def fmt_stub_def)
  show ?thesis
    unfolding markdown_lines_def e d s ebind_Inr_simp report_mixed_def ..
qed

lemma report_mixed_no_notice: "decode_unavailable_line \<notin> set report_mixed"
  by (simp add: report_mixed_def decode_unavailable_line_def title_lines_def
      encode_header_def decode_header_def render_md_row_def target_line_def status_line_def)

lemma collect_results_absent:
  "collect_results all_results (e, None) oe od = Inr rs \<Longrightarrow> rs = all_results @ [e, oe, od]"
  by (auto simp add: collect_results_def Let_def ebind_Inr)

lemma results_of_document_no_decode:
  assumes "doc_decode data = None" "doc_image data = Some im" "img_width im = Some wd"
    "doc_encode data = Some enc" "enc_runs enc = Some ts"
  shows "results_of_document data =
           Inr ((BenchmarkResult_init ''J2KSwift'' wd ''encode'')
                  \<lparr>run_times := map (\<lambda>t. t / 1000) ts,
                   compressed_size := enc_compressed_size enc\<rparr>, None)"
  using assms
  by (simp add: results_of_document_def Let_def subscript_def ebind_Inr_simp)

lemma run_j2kswift_benchmark_no_decode:
  assumes "fst (run_j2kswift_invoke w cli_path input_file output_file runs hist) = Inr ()"
    and "read_json w (snd (run_j2kswift_invoke w cli_path input_file output_file runs hist))
           output_file = Inr data"
    and "doc_decode data = None" "doc_image data = Some im" "img_width im = Some wd"
    "doc_encode data = Some enc" "enc_runs enc = Some ts"
  shows "fst (run_j2kswift_benchmark w cli_path input_file output_file runs hist) =
           Inr ((BenchmarkResult_init ''J2KSwift'' wd ''encode'')
                  \<lparr>run_times := map (\<lambda>t. t / 1000) ts,
                   compressed_size := enc_compressed_size enc\<rparr>, None)"
proof -
  obtain res h where rh: "run_j2kswift_invoke w cli_path input_file output_file runs hist =
      (res, h)"
    by (cases "run_j2kswift_invoke w cli_path input_file output_file runs hist")
  have "res = Inr ()" and "read_json w h output_file = Inr data"
    using assms(1,2) rh by simp_all
  then show ?thesis
    using rh results_of_document_no_decode [OF assms(3-7)]
    by (simp add: run_j2kswift_benchmark_def ebind_Inr_simp)
qed

lemma summary_lines_unavailable_shape:
  assumes "summary_lines fmt ers drs = Inr summary" and "of_impl ''J2KSwift'' drs = []"
  shows "\<exists>q. summary =
           [''- **Encoding**: J2KSwift is '' @ fmt 1 q @ ''% of OpenJPEG speed'',
            target_line, status_line q, [], decode_unavailable_line, []]"
  using assms unfolding summary_lines_def Let_def ebind_Inr by auto

lemma results_encode_only_text:
  "generate_markdown_report fmt_stub ''now'' results_encode_only =
     Inr report_text_encode_only"
proof -
  have "join_lines ((title_lines ''now'' @ encode_header @
          map render_md_row [stub_row 256 ''J2KSwift'' [''#'', ''#%''],
                             stub_row 256 ''OpenJPEG'' [''N/A'', ''100.0%'']] @ [[]] @
          decode_header @ map render_md_row [stub_row 256 ''OpenJPEG'' [''100.0%'']] @ [[]] @
          [''## Summary'', []] @
          [''- **Encoding**: J2KSwift is #% of OpenJPEG speed'', target_line, status_line 500,
           [], decode_unavailable_line]) @ [[]]) = report_text_encode_only"
    unfolding join_lines_snoc
    by (simp add: report_text_encode_only_def stub_row_text target_line_def status_line_def
        decode_unavailable_line_def)
  then show ?thesis
    by (simp add: generate_markdown_report_def results_encode_only_report
        report_encode_only_def ebind_Inr_simp)
qed

text \<open>
  C5, as the code has it. When the invocation step of the candidate adapter raises nothing
  and the document it reads has an image width and encode runs but no decode section, the
  adapter returns the encode result with an absent decode result and raises nothing, and
  \<^verbatim>\<open>main\<close> collects no candidate decode result for the size. The markdown report is
  produced whenever both implementations have an encode result and no J2KSwift result has
  the average 0. Whenever it is produced, the encoding table has the candidate's row for
  every size with a candidate encode result; the decoding table has a candidate row only for
  a size with a candidate decode result, never a row of zeros for an absent one; and when no
  size has a candidate decode result the summary ends with the line that says that decoding
  was unavailable.
\<close>

theorem absent_decode_rendering:
  "(fst (run_j2kswift_invoke w cli_path input_file output_file runs hist) = Inr () \<and>
    read_json w (snd (run_j2kswift_invoke w cli_path input_file output_file runs hist))
      output_file = Inr data \<and>
    doc_decode data = None \<and> doc_image data = Some im \<and> img_width im = Some wd \<and>
    doc_encode data = Some enc_section \<and> enc_runs enc_section = Some ts \<longrightarrow>
      fst (run_j2kswift_benchmark w cli_path input_file output_file runs hist) =
        Inr ((BenchmarkResult_init ''J2KSwift'' wd ''encode'')
               \<lparr>run_times := map (\<lambda>t. t / 1000) ts,
                compressed_size := enc_compressed_size enc_section\<rparr>, None)) \<and>
   (\<forall>rs. collect_results all_results (enc_result, None) oe od = Inr rs \<longrightarrow>
      rs = all_results @ [enc_result, oe, od]) \<and>
   ((\<forall>r\<in>set results. implementation r = ''J2KSwift'' \<longrightarrow> average r \<noteq> Inr 0) \<and>
    (\<exists>r\<in>set results. implementation r = ''J2KSwift'' \<and> operation r = ''encode'') \<and>
    (\<exists>r\<in>set results. implementation r = ''OpenJPEG'' \<and> operation r = ''encode'') \<longrightarrow>
      (\<exists>report. generate_markdown_report fmt now results = Inr report)) \<and>
   (\<forall>report. generate_markdown_report fmt now results = Inr report \<longrightarrow>
      (\<exists>enc dec summary.
         report = join_lines
                    (title_lines now @ encode_header @ map render_md_row enc @ [[]] @
                     decode_header @ map render_md_row dec @ [[]] @
                     [''## Summary'', []] @ summary) \<and>
         encode_table fmt results = Inr enc \<and> decode_table fmt results = Inr dec \<and>
         (\<forall>r\<in>set results. implementation r = ''J2KSwift'' \<and> operation r = ''encode'' \<longrightarrow>
            (\<exists>row\<in>set enc. row_size row = image_size r \<and> row_impl row = ''J2KSwift'' \<and>
               encode_row_text fmt row)) \<and>
         (\<forall>row\<in>set dec. decode_row_text fmt row \<and>
            (row_impl row = ''J2KSwift'' \<longrightarrow>
               (\<exists>r\<in>set results. implementation r = ''J2KSwift'' \<and> operation r = ''decode'' \<and>
                  image_size r = row_size row))) \<and>
         ((\<forall>r\<in>set results. \<not> (implementation r = ''J2KSwift'' \<and> operation r = ''decode'')) \<longrightarrow>
            (\<exists>q. summary =
               [''- **Encoding**: J2KSwift is '' @ fmt 1 q @ ''% of OpenJPEG speed'',
                target_line, status_line q, [], decode_unavailable_line, []]))))"
proof (intro conjI allI impI)
  assume "fst (run_j2kswift_invoke w cli_path input_file output_file runs hist) = Inr () \<and>
    read_json w (snd (run_j2kswift_invoke w cli_path input_file output_file runs hist))
      output_file = Inr data \<and>
    doc_decode data = None \<and> doc_image data = Some im \<and> img_width im = Some wd \<and>
    doc_encode data = Some enc_section \<and> enc_runs enc_section = Some ts"
  then show "fst (run_j2kswift_benchmark w cli_path input_file output_file runs hist) =
        Inr ((BenchmarkResult_init ''J2KSwift'' wd ''encode'')
               \<lparr>run_times := map (\<lambda>t. t / 1000) ts,
                compressed_size := enc_compressed_size enc_section\<rparr>, None)"
    using run_j2kswift_benchmark_no_decode by blast
next
  fix rs assume "collect_results all_results (enc_result, None) oe od = Inr rs"
  then show "rs = all_results @ [enc_result, oe, od]" by (rule collect_results_absent)
next
  assume "(\<forall>r\<in>set results. implementation r = ''J2KSwift'' \<longrightarrow> average r \<noteq> Inr 0) \<and>
    (\<exists>r\<in>set results. implementation r = ''J2KSwift'' \<and> operation r = ''encode'') \<and>
    (\<exists>r\<in>set results. implementation r = ''OpenJPEG'' \<and> operation r = ''encode'')"
  then obtain lines where "markdown_lines fmt now results = Inr lines"
    using markdown_lines_total by blast
  then show "\<exists>report. generate_markdown_report fmt now results = Inr report"
    unfolding generate_markdown_report_Inr by blast
next
  fix report assume "generate_markdown_report fmt now results = Inr report"
  then obtain lines where l: "markdown_lines fmt now results = Inr lines"
    and t: "report = join_lines lines"
    unfolding generate_markdown_report_Inr by blast
  from markdown_lines_Inr [OF l] obtain enc dec summary where
    e: "encode_table fmt results = Inr enc" and d: "decode_table fmt results = Inr dec" and
    s: "summary_lines fmt (of_operation ''encode'' results)
          (of_operation ''decode'' results) = Inr summary" and
    ls: "lines = title_lines now @ encode_header @ map render_md_row enc @ [[]] @
                decode_header @ map render_md_row dec @ [[]] @
                [''## Summary'', []] @ summary"
    by blast
  have p1: "\<forall>r\<in>set results. implementation r = ''J2KSwift'' \<and> operation r = ''encode'' \<longrightarrow>
            (\<exists>row\<in>set enc. row_size row = image_size r \<and> row_impl row = ''J2KSwift'' \<and>
               encode_row_text fmt row)"
  proof (intro ballI impI)
    fix r assume r: "r \<in> set results"
      and "implementation r = ''J2KSwift'' \<and> operation r = ''encode''"
    then obtain cells where
      c: "\<lparr>row_size = image_size r, row_impl = ''J2KSwift'', row_cells = cells\<rparr> \<in> set enc"
      using encode_table_candidate [OF e r] by blast
    then have "encode_row_text fmt
        \<lparr>row_size = image_size r, row_impl = ''J2KSwift'', row_cells = cells\<rparr>"
      using encode_table_text [OF e] by blast
    then show "\<exists>row\<in>set enc. row_size row = image_size r \<and> row_impl row = ''J2KSwift'' \<and>
               encode_row_text fmt row"
      using c by force
  qed
  have p2: "\<forall>row\<in>set dec. decode_row_text fmt row \<and>
            (row_impl row = ''J2KSwift'' \<longrightarrow>
               (\<exists>r\<in>set results. implementation r = ''J2KSwift'' \<and> operation r = ''decode'' \<and>
                  image_size r = row_size row))"
    using decode_table_text [OF d] decode_table_candidate [OF d] by blast
  have p3: "(\<forall>r\<in>set results. \<not> (implementation r = ''J2KSwift'' \<and> operation r = ''decode'')) \<longrightarrow>
            (\<exists>q. summary =
               [''- **Encoding**: J2KSwift is '' @ fmt 1 q @ ''% of OpenJPEG speed'',
                target_line, status_line q, [], decode_unavailable_line, []])"
  proof
    assume "\<forall>r\<in>set results. \<not> (implementation r = ''J2KSwift'' \<and> operation r = ''decode'')"
    then have "of_impl ''J2KSwift'' (of_operation ''decode'' results) = []"
      by (auto simp add: of_impl_def of_operation_def filter_empty_conv)
    from summary_lines_unavailable_shape [OF s this]
    show "\<exists>q. summary =
               [''- **Encoding**: J2KSwift is '' @ fmt 1 q @ ''% of OpenJPEG speed'',
                target_line, status_line q, [], decode_unavailable_line, []]" .
  qed
  show "\<exists>enc dec summary.
         report = join_lines
                    (title_lines now @ encode_header @ map render_md_row enc @ [[]] @
                     decode_header @ map render_md_row dec @ [[]] @
                     [''## Summary'', []] @ summary) \<and>
         encode_table fmt results = Inr enc \<and> decode_table fmt results = Inr dec \<and>
         (\<forall>r\<in>set results. implementation r = ''J2KSwift'' \<and> operation r = ''encode'' \<longrightarrow>
            (\<exists>row\<in>set enc. row_size row = image_size r \<and> row_impl row = ''J2KSwift'' \<and>
               encode_row_text fmt row)) \<and>
         (\<forall>row\<in>set dec. decode_row_text fmt row \<and>
            (row_impl row = ''J2KSwift'' \<longrightarrow>
               (\<exists>r\<in>set results. implementation r = ''J2KSwift'' \<and> operation r = ''decode'' \<and>
                  image_size r = row_size row))) \<and>
         ((\<forall>r\<in>set results. \<not> (implementation r = ''J2KSwift'' \<and> operation r = ''decode'')) \<longrightarrow>
            (\<exists>q. summary =
               [''- **Encoding**: J2KSwift is '' @ fmt 1 q @ ''% of OpenJPEG speed'',
                target_line, status_line q, [], decode_unavailable_line, []]))"
    using e d t [unfolded ls] p1 p2 p3 by blast
qed

lemma results_mixed_decode_table:
  "decode_table fmt_stub results_mixed =
      Inr [stub_row 256 ''OpenJPEG'' [''100.0%''], stub_row 512 ''J2KSwift'' [''#%''],
           stub_row 512 ''OpenJPEG'' [''100.0%'']]"
  by (simp add: decode_table_def results_mixed_def of_operation_def table_sizes_def
      decode_size_rows_def by_size_def next_impl_def timed_fields j2k_from_doc_fields
      relative_cell_stub metric_cells_stub ebind_Inr_simp stub_row_def)

lemma collect_encode_only:
  "collect_results [] (j2k_from_doc, None) (timed ''OpenJPEG'' 256 ''encode'' (1 / 10))
     (timed ''OpenJPEG'' 256 ''decode'' (1 / 20)) = Inr results_encode_only"
  by (simp add: collect_results_def Let_def timed_fields j2k_from_doc_fields ebind_Inr_simp
      truediv_def results_encode_only_def)

lemma collect_mixed:
  "collect_results results_encode_only
     (timed ''J2KSwift'' 512 ''encode'' (1 / 50), Some (timed ''J2KSwift'' 512 ''decode'' (1 / 10)))
     (timed ''OpenJPEG'' 512 ''encode'' (1 / 10)) (timed ''OpenJPEG'' 512 ''decode'' (1 / 20)) =
   Inr results_mixed"
  by (simp add: collect_results_def Let_def timed_fields ebind_Inr_simp
      truediv_def results_encode_only_def results_mixed_def)

lemma world_retry_invoke:
  "run_j2kswift_invoke world_retry ''j2k'' ''in.pgm'' ''out.json'' 5 [] =
     (Inr (), [full_cmd, full_cmd @ [''--encode-only'']])"
proof -
  have d1: "subprocess_run world_retry full_cmd PIPE_text [] = (Inr 1, [full_cmd])"
    using full_cmd_last by (simp add: subprocess_run_def world_retry_def)
  have d2: "subprocess_run world_retry (full_cmd @ [''--encode-only'']) DEVNULL [full_cmd] =
     (Inr 0, [full_cmd, full_cmd @ [''--encode-only'']])"
    by (simp add: subprocess_run_def world_retry_def)
  show ?thesis
    using run_j2kswift_invoke_returned(2) [OF d1 [unfolded full_cmd_def] _ d2 [unfolded full_cmd_def]]
    by (simp add: full_cmd_def)
qed

theorem absent_decode_rendering_witness:
  "fst (run_j2kswift_invoke world_retry ''j2k'' ''in.pgm'' ''out.json'' 5 []) = Inr () \<and>
   read_json world_retry
     (snd (run_j2kswift_invoke world_retry ''j2k'' ''in.pgm'' ''out.json'' 5 []))
     ''out.json'' = Inr doc_encode_only \<and>
   doc_decode doc_encode_only = None \<and>
   fst (run_j2kswift_benchmark world_retry ''j2k'' ''in.pgm'' ''out.json'' 5 []) =
     Inr (j2k_from_doc, None) \<and>
   collect_results [] (j2k_from_doc, None) (timed ''OpenJPEG'' 256 ''encode'' (1 / 10))
     (timed ''OpenJPEG'' 256 ''decode'' (1 / 20)) = Inr results_encode_only \<and>
   generate_markdown_report fmt_stub ''now'' results_encode_only =
     Inr report_text_encode_only \<and>
   decode_table fmt_stub results_mixed =
      Inr [stub_row 256 ''OpenJPEG'' [''100.0%''], stub_row 512 ''J2KSwift'' [''#%''],
           stub_row 512 ''OpenJPEG'' [''100.0%'']] \<and>
   timed ''J2KSwift'' 512 ''decode'' (1 / 10) \<in> set results_mixed"
proof -
  have i: "fst (run_j2kswift_invoke world_retry ''j2k'' ''in.pgm'' ''out.json'' 5 []) = Inr ()"
    by (simp add: world_retry_invoke)
  have j: "read_json world_retry
     (snd (run_j2kswift_invoke world_retry ''j2k'' ''in.pgm'' ''out.json'' 5 []))
     ''out.json'' = Inr doc_encode_only"
    by (simp add: world_retry_def)
  have n: "doc_decode doc_encode_only = None"
    "doc_image doc_encode_only = Some \<lparr>img_width = Some 256\<rparr>"
    "img_width \<lparr>img_width = Some 256\<rparr> = Some 256"
    "doc_encode doc_encode_only =
       Some \<lparr>enc_runs = Some [10, 20, 30], enc_average_ms = Some 20,
             enc_throughput_mpps = Some 3, enc_compressed_size = Some 2048\<rparr>"
    "enc_runs \<lparr>enc_runs = Some [10, 20, 30], enc_average_ms = Some 20,
             enc_throughput_mpps = Some 3, enc_compressed_size = Some 2048\<rparr> =
       Some [10, 20, 30]"
    by (simp_all add: doc_encode_only_def)
  note t = absent_decode_rendering [where w = world_retry and cli_path = "''j2k''"
      and input_file = "''in.pgm''" and output_file = "''out.json''" and runs = 5
      and hist = "[]" and data = doc_encode_only and im = "\<lparr>img_width = Some 256\<rparr>"
      and wd = 256
      and enc_section = "\<lparr>enc_runs = Some [10, 20, 30], enc_average_ms = Some 20,
             enc_throughput_mpps = Some 3, enc_compressed_size = Some 2048\<rparr>"
      and ts = "[10, 20, 30]"]
  have "fst (run_j2kswift_benchmark world_retry ''j2k'' ''in.pgm'' ''out.json'' 5 []) =
     Inr ((BenchmarkResult_init ''J2KSwift'' 256 ''encode'')
            \<lparr>run_times := map (\<lambda>t. t / 1000) [10, 20, 30],
             compressed_size := enc_compressed_size
               \<lparr>enc_runs = Some [10, 20, 30], enc_average_ms = Some 20,
                enc_throughput_mpps = Some 3, enc_compressed_size = Some 2048\<rparr>\<rparr>, None)"
    using t i j n by blast
  then have b: "fst (run_j2kswift_benchmark world_retry ''j2k'' ''in.pgm'' ''out.json'' 5 []) =
     Inr (j2k_from_doc, None)"
    by (simp add: j2k_from_doc_def)
  have m: "timed ''J2KSwift'' 512 ''decode'' (1 / 10) \<in> set results_mixed"
    by (simp add: results_mixed_def)
  show ?thesis
    using i j n(1) b collect_encode_only results_encode_only_text results_mixed_decode_table m
    by blast
qed

text \<open>
  When the candidate's decode result is absent for the size 256 and present for the size
  512, the report is produced and nowhere says that decoding was unavailable: the decoding
  table only has no candidate row for 256.
\<close>

theorem absent_decode_notice_counterexample:
  "results_of_document doc_encode_only = Inr (j2k_from_doc, None) \<and>
   collect_results results_encode_only
     (timed ''J2KSwift'' 512 ''encode'' (1 / 50), Some (timed ''J2KSwift'' 512 ''decode'' (1 / 10)))
     (timed ''OpenJPEG'' 512 ''encode'' (1 / 10)) (timed ''OpenJPEG'' 512 ''decode'' (1 / 20)) =
     Inr results_mixed \<and>
   j2k_from_doc \<in> set results_mixed \<and>
   generate_markdown_report fmt_stub ''now'' results_mixed = Inr (join_lines report_mixed) \<and>
   decode_unavailable_line \<notin> set report_mixed \<and>
   decode_table fmt_stub results_mixed =
      Inr [stub_row 256 ''OpenJPEG'' [''100.0%''], stub_row 512 ''J2KSwift'' [''#%''],
           stub_row 512 ''OpenJPEG'' [''100.0%'']]"
proof -
  have g: "generate_markdown_report fmt_stub ''now'' results_mixed =
      Inr (join_lines report_mixed)"
    by (simp add: generate_markdown_report_def results_mixed_report ebind_Inr_simp)
  have m: "j2k_from_doc \<in> set results_mixed"
    by (simp add: results_mixed_def)
  show ?thesis
    using doc_encode_only_results collect_mixed m g report_mixed_no_notice
      results_mixed_decode_table
    by blast
qed

end
